theory Spec2Isabelle
  imports Main "HOL-Library.Sublist" "HOL-Library.Multiset"
begin

section \<open>Strings, decimal numbers and Python exceptions\<close>

text \<open>
  Python strings and byte buffers are modelled as \<^typ>\<open>string\<close> (lists of 8-bit
  characters). In that character range the only characters matched by the regular
  expression class \<^verbatim>\<open>\d\<close> are the ASCII digits, and \<^verbatim>\<open>int(s, 10)\<close> of a
  string of ASCII digits is its decimal value (leading zeros allowed) as long as the
  string is not longer than the interpreter allows. Characters beyond that range, among
  them the other decimal digits of Unicode that \<^verbatim>\<open>\d\<close> and \<^verbatim>\<open>int\<close> accept and the
  letters that \<^verbatim>\<open>str.title()\<close> converts, are outside the model: the results below are
  about tokens and names written in 8-bit characters.
\<close>

type_synonym bytes = string

definition dq :: string where
  "dq = [CHR 0x22]"

definition nl :: string where
  "nl = [CHR 0x0A]"

definition is_digit :: "char \<Rightarrow> bool" where
  "is_digit c \<longleftrightarrow> c \<in> set ''0123456789''"

definition digit_val :: "char \<Rightarrow> int" where
  "digit_val c = int (of_char c) - 48"

text \<open>\<^verbatim>\<open>int(s, 10)\<close> on a string of digits, most significant digit first.\<close>

definition int_of_digits :: "string \<Rightarrow> int" where
  "int_of_digits s = foldl (\<lambda>a c. 10 * a + digit_val c) 0 s"

text \<open>
  \<^verbatim>\<open>int(s, 10)\<close> as the interpreter performs it: a string of more digits than the limit
  for integer string conversion (4300 by default, which the script does not change;
  leading zeros count) raises \<^verbatim>\<open>ValueError\<close>.
\<close>

definition int_max_str_digits :: nat where
  "int_max_str_digits = 4300"

definition digit_char :: "nat \<Rightarrow> char" where
  "digit_char d = ''0123456789'' ! d"

text \<open>The decimal rendering of an integer, as \<^verbatim>\<open>f"{n}"\<close> and \<^verbatim>\<open>str(n)\<close> produce it.\<close>

fun str_of_nat :: "nat \<Rightarrow> string" where
  "str_of_nat n = (if n < 10 then [digit_char n] else str_of_nat (n div 10) @ [digit_char (n mod 10)])"

declare str_of_nat.simps [simp del]

definition str_of_int :: "int \<Rightarrow> string" where
  "str_of_int i = (if i < 0 then CHR ''-'' # str_of_nat (nat (- i)) else str_of_nat (nat i))"

definition msg_int_limit :: "nat \<Rightarrow> string" where
  "msg_int_limit n =
     ''Exceeds the limit ('' @ str_of_nat int_max_str_digits
       @ '' digits) for integer string conversion: value has '' @ str_of_nat n
       @ '' digits; use sys.set_int_max_str_digits() to increase the limit''"

text \<open>
  The exceptions the program raises. Each carries its message, as in the source;
  \<open>HTTPError\<close> is the exception of \<^verbatim>\<open>urllib\<close> with its status code and reason, and
  \<open>OSError\<close> and \<open>LibraryError\<close> stand for the failures of the operating system
  and of the image, network and archive libraries, which are outside the repository.
\<close>

datatype exn =
    ValueError string
  | Exception string
  | AssertionError string
  | HTTPError int string
  | OSError string
  | LibraryError string

fun exn_message :: "exn \<Rightarrow> string" where
  "exn_message (ValueError m) = m"
| "exn_message (Exception m) = m"
| "exn_message (AssertionError m) = m"
| "exn_message (HTTPError code m) = ''HTTP Error '' @ str_of_int code @ '': '' @ m"
| "exn_message (OSError m) = m"
| "exn_message (LibraryError m) = m"

definition py_int :: "string \<Rightarrow> exn + int" where
  "py_int s =
     (if length s > int_max_str_digits then Inl (ValueError (msg_int_limit (length s)))
      else Inr (int_of_digits s))"

section \<open>IconSize\<close>

record IconSize =
  size_px :: int
  scale :: int

text \<open>
  The anchor \<^verbatim>\<open>$\<close> of Python's \<^verbatim>\<open>re\<close> module (without the MULTILINE flag): it matches
  at the end of the string and also just before a newline that ends the string.
\<close>

definition at_end :: "string \<Rightarrow> bool" where
  "at_end s \<longleftrightarrow> s = [] \<or> s = nl"

text \<open>
  \<^verbatim>\<open>re.search(r"^(\d+)(?:x\1(?:@(\d+))?)?$", s)\<close>: the result is \<open>None\<close> when there is
  no match and otherwise the pair (group 1, group 2), group 2 being \<open>None\<close> when the
  scale part did not take part in the match. Both \<^verbatim>\<open>(\d+)\<close> groups are followed by
  something that is not a digit, so each can only match the whole run of digits, and
  the backtracking search is the deterministic scan below.
\<close>

definition re_scale_part :: "string \<Rightarrow> string \<Rightarrow> (string \<times> string option) option" where
  "re_scale_part g1 r =
     (case r of
        [] \<Rightarrow> None
      | d # r4 \<Rightarrow>
          if d = CHR ''@'' then
            (let g2 = takeWhile is_digit r4; r5 = dropWhile is_digit r4
             in if g2 \<noteq> [] \<and> at_end r5 then Some (g1, Some g2) else None)
          else None)"

definition re_repeat_part :: "string \<Rightarrow> string \<Rightarrow> (string \<times> string option) option" where
  "re_repeat_part g1 r =
     (case r of
        [] \<Rightarrow> None
      | c # r2 \<Rightarrow>
          if c = CHR ''x'' \<and> prefix g1 r2 then
            (let r3 = drop (length g1) r2
             in if at_end r3 then Some (g1, None) else re_scale_part g1 r3)
          else None)"

definition re_search_size :: "string \<Rightarrow> (string \<times> string option) option" where
  "re_search_size s =
     (let g1 = takeWhile is_digit s; r1 = dropWhile is_digit s
      in if g1 = [] then None
         else if at_end r1 then Some (g1, None)
         else re_repeat_part g1 r1)"

datatype size_arg = SizeInt int | SizeStr string

definition msg_invalid_specifier :: "string \<Rightarrow> string" where
  "msg_invalid_specifier s = ''Invalid size specifier: '' @ dq @ s @ dq @ ''.''"

definition msg_size_even :: "int \<Rightarrow> string" where
  "msg_size_even n = ''Size must be an even number: '' @ dq @ str_of_int n @ dq @ ''.''"

definition msg_size_positive :: "int \<Rightarrow> string" where
  "msg_size_positive n = ''Size must be a positive number: '' @ dq @ str_of_int n @ dq @ ''.''"

definition msg_scale_positive :: "int \<Rightarrow> string" where
  "msg_scale_positive k = ''Scale must be a positive number: '' @ dq @ str_of_int k @ dq @ ''.''"

text \<open>
  The first half of \<^verbatim>\<open>IconSize.__init__\<close>: the fields as they stand before validation.
  A scale given in the string overrides the \<open>scale\<close> argument.
\<close>

definition IconSize_extract :: "size_arg \<Rightarrow> int \<Rightarrow> exn + (int \<times> int)" where
  "IconSize_extract sz sc =
     (case sz of
        SizeInt n \<Rightarrow> Inr (n, sc)
      | SizeStr s \<Rightarrow>
          (case re_search_size s of
             None \<Rightarrow> Inl (ValueError (msg_invalid_specifier s))
           | Some (g1, g2) \<Rightarrow>
               (case py_int g1 of
                  Inl e \<Rightarrow> Inl e
                | Inr n \<Rightarrow>
                    (case g2 of
                       None \<Rightarrow> Inr (n, sc)
                     | Some g \<Rightarrow>
                         (case py_int g of
                            Inl e \<Rightarrow> Inl e
                          | Inr k \<Rightarrow> Inr (n, k))))))"

definition IconSize_validate :: "int \<times> int \<Rightarrow> exn + IconSize" where
  "IconSize_validate p =
     (case p of (n, k) \<Rightarrow>
        if n mod 2 \<noteq> 0 then Inl (ValueError (msg_size_even n))
        else if n \<le> 0 then Inl (ValueError (msg_size_positive n))
        else if k \<le> 0 then Inl (ValueError (msg_scale_positive k))
        else Inr \<lparr>size_px = n, scale = k\<rparr>)"

definition IconSize_init :: "size_arg \<Rightarrow> int \<Rightarrow> exn + IconSize" where
  "IconSize_init sz sc =
     (case IconSize_extract sz sc of
        Inl e \<Rightarrow> Inl e
      | Inr p \<Rightarrow> IconSize_validate p)"

text \<open>\<^verbatim>\<open>IconSize(token)\<close>, the call that the argument parser makes for each size token.\<close>

definition parse_size :: "string \<Rightarrow> exn + IconSize" where
  "parse_size s = IconSize_init (SizeStr s) 1"

definition get_name :: "IconSize \<Rightarrow> string" where
  "get_name s =
     (if scale s \<le> 1 then str_of_int (size_px s) @ ''x'' @ str_of_int (size_px s)
      else str_of_int (size_px s) @ ''x'' @ str_of_int (size_px s) @ ''@'' @ str_of_int (scale s))"

definition IconSize_lt :: "IconSize \<Rightarrow> IconSize \<Rightarrow> bool" where
  "IconSize_lt a b =
     (if size_px a = size_px b then scale a < scale b else size_px a < size_px b)"

text \<open>A decimal integer as it appears in a size token: a non-empty string of digits.\<close>

definition digits :: "string \<Rightarrow> bool" where
  "digits s \<longleftrightarrow> s \<noteq> [] \<and> list_all is_digit s"


text \<open>
  \<^verbatim>\<open>list.sort()\<close> compares with \<^verbatim>\<open>__lt__\<close> only and is stable; on short lists it is an
  insertion sort that places each element, taken from left to right, after the
  elements that are not greater. The order given by \<open>IconSize_lt\<close> is linear on the
  two fields, so every correct sort returns the same list (lemma
  \<open>list_sort_unique\<close> below).
\<close>

fun insort_lt :: "('a \<Rightarrow> 'a \<Rightarrow> bool) \<Rightarrow> 'a \<Rightarrow> 'a list \<Rightarrow> 'a list" where
  "insort_lt lt x [] = [x]"
| "insort_lt lt x (y # ys) = (if lt x y then x # y # ys else y # insort_lt lt x ys)"

definition list_sort :: "('a \<Rightarrow> 'a \<Rightarrow> bool) \<Rightarrow> 'a list \<Rightarrow> 'a list" where
  "list_sort lt xs = foldl (\<lambda>acc x. insort_lt lt x acc) [] xs"

text \<open>The order of the specification: by size ascending, then by scale ascending.\<close>

definition size_then_scale :: "IconSize \<Rightarrow> IconSize \<Rightarrow> bool" where
  "size_then_scale a b \<longleftrightarrow>
     size_px a < size_px b \<or> (size_px a = size_px b \<and> scale a \<le> scale b)"

section \<open>Letter case\<close>

text \<open>
  \<^verbatim>\<open>str.lower()\<close> and \<^verbatim>\<open>str.title()\<close> on the ASCII letters; every other character is
  left as it is and, for \<^verbatim>\<open>str.title()\<close>, separates words. No character outside
  ASCII lowercases to one of \<open>s\<close>, \<open>v\<close>, \<open>g\<close> or the dot, so the comparison of a
  lowercased suffix with \<open>.svg\<close> is exact.
\<close>

definition is_upper :: "char \<Rightarrow> bool" where
  "is_upper c \<longleftrightarrow> c \<in> set ''ABCDEFGHIJKLMNOPQRSTUVWXYZ''"

definition is_lower :: "char \<Rightarrow> bool" where
  "is_lower c \<longleftrightarrow> c \<in> set ''abcdefghijklmnopqrstuvwxyz''"

definition to_lower :: "char \<Rightarrow> char" where
  "to_lower c = (if is_upper c then char_of (of_char c + (32::nat)) else c)"

definition to_upper :: "char \<Rightarrow> char" where
  "to_upper c = (if is_lower c then char_of (of_char c - (32::nat)) else c)"

definition str_lower :: "string \<Rightarrow> string" where
  "str_lower s = map to_lower s"

fun title_from :: "bool \<Rightarrow> string \<Rightarrow> string" where
  "title_from prev [] = []"
| "title_from prev (c # cs) =
     (if is_lower c then (if prev then c else to_upper c) # title_from True cs
      else if is_upper c then (if prev then to_lower c else c) # title_from True cs
      else c # title_from False cs)"

definition str_title :: "string \<Rightarrow> string" where
  "str_title s = title_from False s"

section \<open>Paths\<close>

text \<open>
  A \<^verbatim>\<open>pathlib.Path\<close> on a POSIX system: its root (\<open>/\<close>, \<open>//\<close> or empty) and its
  components. Parsing drops empty components and \<open>.\<close> components, and keeps \<open>..\<close>.
\<close>

record path =
  root :: string
  tail :: "string list"

fun split_slash :: "string \<Rightarrow> string list" where
  "split_slash [] = [[]]"
| "split_slash (c # cs) =
     (if c = CHR ''/'' then [] # split_slash cs
      else (case split_slash cs of [] \<Rightarrow> [[c]] | w # ws \<Rightarrow> (c # w) # ws))"

definition splitroot :: "string \<Rightarrow> string \<times> string" where
  "splitroot p =
     (if take 1 p \<noteq> ''/'' then ([], p)
      else if take 1 (drop 1 p) \<noteq> ''/'' \<or> take 1 (drop 2 p) = ''/'' then (''/'', drop 1 p)
      else (take 2 p, drop 2 p))"

definition Path :: "string \<Rightarrow> path" where
  "Path s =
     (case splitroot s of (r, rel) \<Rightarrow>
        \<lparr>root = r, tail = filter (\<lambda>x. x \<noteq> [] \<and> x \<noteq> ''.'') (split_slash rel)\<rparr>)"

text \<open>
  The operator \<^verbatim>\<open>p / s\<close>: a relative \<open>s\<close> appends its components to \<open>p\<close>, an
  absolute \<open>s\<close> replaces \<open>p\<close>.
\<close>

definition joinpath :: "path \<Rightarrow> string \<Rightarrow> path" where
  "joinpath p s =
     (let q = Path s
      in if root q \<noteq> [] then q else \<lparr>root = root p, tail = tail p @ tail q\<rparr>)"

fun join_with :: "string \<Rightarrow> string list \<Rightarrow> string" where
  "join_with sep [] = []"
| "join_with sep [x] = x"
| "join_with sep (x # y # ys) = x @ sep @ join_with sep (y # ys)"

definition path_str :: "path \<Rightarrow> string" where
  "path_str p =
     (if root p = [] \<and> tail p = [] then ''.'' else root p @ join_with ''/'' (tail p))"

definition path_name :: "path \<Rightarrow> string" where
  "path_name p = (if tail p = [] then [] else last (tail p))"

definition path_parent :: "path \<Rightarrow> path" where
  "path_parent p = p\<lparr>tail := butlast (tail p)\<rparr>"

text \<open>\<^verbatim>\<open>s.rfind(c)\<close>: the last index of \<open>c\<close> in \<open>s\<close>, \<open>None\<close> standing for \<open>-1\<close>.\<close>

definition rfind :: "char \<Rightarrow> string \<Rightarrow> nat option" where
  "rfind c s =
     (if c \<in> set s then Some (length s - 1 - length (takeWhile (\<lambda>x. x \<noteq> c) (rev s)))
      else None)"

text \<open>\<^verbatim>\<open>Path.suffix\<close>: the part of the last component from its last dot on, when that
  dot is neither the first nor the last character.\<close>

definition path_suffix :: "path \<Rightarrow> string" where
  "path_suffix p =
     (let name = path_name p
      in case rfind CHR ''.'' name of
           None \<Rightarrow> []
         | Some i \<Rightarrow> if 0 < i \<and> i + 1 < length name then drop i name else [])"

definition get_file_suffix :: "path \<Rightarrow> string" where
  "get_file_suffix file = str_lower (path_suffix file)"

text \<open>
  \<^verbatim>\<open>get_xdg_data_home()\<close>. The environment is the value of \<open>XDG_DATA_HOME\<close>, if set,
  and the result of \<^verbatim>\<open>Path.home()\<close>.
\<close>

record environ =
  XDG_DATA_HOME :: "string option"
  home :: path

definition get_xdg_data_home :: "environ \<Rightarrow> path" where
  "get_xdg_data_home env =
     (case XDG_DATA_HOME env of
        None \<Rightarrow> joinpath (home env) ''.local/share''
      | Some v \<Rightarrow> if v \<noteq> [] then Path v else joinpath (home env) ''.local/share'')"

section \<open>Byte buffers and images\<close>

text \<open>\<^verbatim>\<open>io.BytesIO\<close>: the buffer and the position of the next read or write.\<close>

record BytesIO =
  buf :: bytes
  pos :: nat

definition BytesIO_new :: "bytes \<Rightarrow> BytesIO" where
  "BytesIO_new b = \<lparr>buf = b, pos = 0\<rparr>"

definition bio_seek :: "nat \<Rightarrow> BytesIO \<Rightarrow> BytesIO" where
  "bio_seek n b = b\<lparr>pos := n\<rparr>"

definition bio_read :: "nat \<Rightarrow> BytesIO \<Rightarrow> bytes \<times> BytesIO" where
  "bio_read n b =
     (let chunk = take n (drop (pos b) (buf b))
      in (chunk, b\<lparr>pos := pos b + length chunk\<rparr>))"

definition bio_write :: "bytes \<Rightarrow> BytesIO \<Rightarrow> BytesIO" where
  "bio_write chunk b =
     (if chunk = [] then b
      else \<lparr>buf = take (pos b) (buf b) @ replicate (pos b - length (buf b)) (CHR 0x00)
                 @ chunk @ drop (pos b + length chunk) (buf b),
            pos = pos b + length chunk\<rparr>)"

definition nbytes :: "BytesIO \<Rightarrow> nat" where
  "nbytes b = length (buf b)"

text \<open>A decoded \<^verbatim>\<open>PIL.Image.Image\<close>: its dimensions and its pixel data.\<close>

record image =
  width :: int
  height :: int
  pixels :: "nat list"

datatype resampling = NEAREST | BOX | BILINEAR | HAMMING | BICUBIC | LANCZOS

text \<open>
  The image libraries (Pillow and CairoSVG) are outside the repository and are
  parameters of the model: decoding a buffer (\<^verbatim>\<open>Image.open\<close> and \<^verbatim>\<open>load\<close>),
  \<^verbatim>\<open>Image.resize\<close>, encoding as PNG (\<^verbatim>\<open>Image.save\<close>) and \<^verbatim>\<open>cairosvg.svg2png\<close>.
  Each of them can raise. The functions that read a buffer return it as they leave it.
\<close>

record imagelib =
  image_open :: "BytesIO \<Rightarrow> (exn + image) \<times> BytesIO"
  image_resize :: "image \<Rightarrow> int \<times> int \<Rightarrow> resampling \<Rightarrow> exn + image"
  image_save_png :: "image \<Rightarrow> exn + bytes"
  svg2png :: "BytesIO \<Rightarrow> int \<Rightarrow> int \<Rightarrow> (exn + bytes) \<times> BytesIO"

text \<open>\<^verbatim>\<open>Image.copy()\<close>: a new image with the same dimensions and pixel data.\<close>

definition image_copy :: "image \<Rightarrow> image" where
  "image_copy im = im"


section \<open>IconImage\<close>

text \<open>
  The fields of the dataclass; \<open>ident\<close> is the field \<^verbatim>\<open>id\<close>, and \<open>memo_path_suffix\<close> and
  \<open>memo_is_svg\<close> are the private cache fields \<^verbatim>\<open>_path_suffix\<close> and \<^verbatim>\<open>_is_svg\<close>. A
  method takes the object and returns its result together with the object as the call
  leaves it.
\<close>

record IconImage =
  ident :: string
  path :: "path option"
  raw_bytes :: "BytesIO option"
  img :: "image option"
  memo_path_suffix :: "string option"
  memo_is_svg :: "bool option"

text \<open>
  The operating system is a parameter as well: \<open>'w\<close> is the state of the world outside
  the process (the file system), and each operation that can change it returns the
  new state, with the exception it raised, if any.
\<close>

record 'w os =
  os_is_file :: "path \<Rightarrow> 'w \<Rightarrow> bool"
  os_stat_size :: "path \<Rightarrow> 'w \<Rightarrow> int"
  os_read_bytes :: "path \<Rightarrow> 'w \<Rightarrow> exn + bytes"
  os_mkdir_parents :: "path \<Rightarrow> 'w \<Rightarrow> exn option \<times> 'w"
  os_is_dir :: "path \<Rightarrow> 'w \<Rightarrow> bool"
  os_open_wb :: "path \<Rightarrow> 'w \<Rightarrow> exn option \<times> 'w"
  os_write :: "path \<Rightarrow> bytes \<Rightarrow> 'w \<Rightarrow> exn option \<times> 'w"
  os_utime :: "path \<Rightarrow> 'w \<Rightarrow> exn option \<times> 'w"
  os_which :: "string \<Rightarrow> 'w \<Rightarrow> bool"
  os_run :: "string list \<Rightarrow> 'w \<Rightarrow> (int \<times> string) \<times> 'w"
  os_write_text :: "path \<Rightarrow> string \<Rightarrow> 'w \<Rightarrow> exn option \<times> 'w"

definition rewind_raw_bytes :: "IconImage \<Rightarrow> IconImage" where
  "rewind_raw_bytes self =
     (case raw_bytes self of
        None \<Rightarrow> self
      | Some b \<Rightarrow> self\<lparr>raw_bytes := Some (bio_seek 0 b)\<rparr>)"

definition IconImage_get_file_suffix :: "IconImage \<Rightarrow> string \<times> IconImage" where
  "IconImage_get_file_suffix self =
     (case memo_path_suffix self of
        Some s \<Rightarrow> (s, self)
      | None \<Rightarrow>
          (let s = (case path self of Some p \<Rightarrow> get_file_suffix p | None \<Rightarrow> [])
           in (s, self\<lparr>memo_path_suffix := Some s\<rparr>)))"

definition is_svg :: "IconImage \<Rightarrow> bool \<times> IconImage" where
  "is_svg self =
     (case memo_is_svg self of
        Some b \<Rightarrow> (b, self)
      | None \<Rightarrow>
          (let s0 = self\<lparr>memo_is_svg := Some False\<rparr>
           in if path s0 \<noteq> None then
                (case IconImage_get_file_suffix s0 of
                   (suf, s1) \<Rightarrow> (suf = ''.svg'', s1\<lparr>memo_is_svg := Some (suf = ''.svg'')\<rparr>))
              else if raw_bytes s0 \<noteq> None then
                (case raw_bytes (rewind_raw_bytes s0) of
                   None \<Rightarrow> (False, s0)
                 | Some rb \<Rightarrow>
                     (case bio_read 4096 rb of
                        (early_bytes, rb') \<Rightarrow>
                          (sublist ''<svg'' early_bytes,
                           s0\<lparr>raw_bytes := Some rb',
                              memo_is_svg := Some (sublist ''<svg'' early_bytes)\<rparr>)))
              else (False, s0)))"

definition get_image_size :: "IconImage \<Rightarrow> (exn + int \<times> int) \<times> IconImage" where
  "get_image_size self =
     (case is_svg self of
        (svg, s1) \<Rightarrow>
          if svg then (Inr (- 1, - 1), s1)
          else (case img s1 of
                  None \<Rightarrow> (Inl (Exception ''IconImage doesn't contain any Image data.''), s1)
                | Some im \<Rightarrow> (Inr (width im, height im), s1)))"

text \<open>
  The argument \<open>resample_arg\<close> is \<open>None\<close> when the caller does not pass \<^verbatim>\<open>resample\<close>,
  which then takes its default \<^verbatim>\<open>Image.Resampling.LANCZOS\<close>.
\<close>

definition resize_image_as_copy ::
  "imagelib \<Rightarrow> IconImage \<Rightarrow> IconSize \<Rightarrow> resampling option \<Rightarrow> (exn + image) \<times> IconImage" where
  "resize_image_as_copy lib self icon_size resample_arg =
     (let resample = (case resample_arg of None \<Rightarrow> LANCZOS | Some r \<Rightarrow> r);
          w = size_px icon_size; h = size_px icon_size
      in case is_svg self of
           (svg, s1) \<Rightarrow>
             if svg then
               (case raw_bytes s1 of
                  None \<Rightarrow> (Inl (Exception ''IconImage doesn't contain any SVG raw bytes data.''), s1)
                | Some rb \<Rightarrow>
                    (case svg2png lib (bio_seek 0 rb) w h of
                       (Inl e, rb') \<Rightarrow> (Inl e, s1\<lparr>raw_bytes := Some rb'\<rparr>)
                     | (Inr png, rb') \<Rightarrow>
                         (fst (image_open lib (BytesIO_new png)), s1\<lparr>raw_bytes := Some rb'\<rparr>)))
             else
               (case get_image_size s1 of
                  (Inl e, s2) \<Rightarrow> (Inl e, s2)
                | (Inr (current_width, current_height), s2) \<Rightarrow>
                    (case img s2 of
                       None \<Rightarrow> (Inl (AssertionError []), s2)
                     | Some im \<Rightarrow>
                         if current_width = w \<and> current_height = h
                         then (Inr (image_copy im), s2)
                         else (image_resize lib im (w, h) resample, s2))))"

definition load_bytes_from_path :: "'w os \<Rightarrow> 'w \<Rightarrow> IconImage \<Rightarrow> (exn + unit) \<times> IconImage" where
  "load_bytes_from_path os w self =
     (case path self of
        None \<Rightarrow> (Inl (Exception ''IconImage doesn't contain any image path.''), self)
      | Some p \<Rightarrow>
          (case os_read_bytes os p w of
             Inl e \<Rightarrow> (Inl e, self)
           | Inr content \<Rightarrow> (Inr (), self\<lparr>raw_bytes := Some (BytesIO_new content)\<rparr>)))"

definition load_image_from_bytes :: "imagelib \<Rightarrow> IconImage \<Rightarrow> (exn + unit) \<times> IconImage" where
  "load_image_from_bytes lib self =
     (case is_svg self of
        (svg, s1) \<Rightarrow>
          if svg then (Inl (Exception ''Raw SVG data cannot be loaded as an Image.''), s1)
          else (case raw_bytes s1 of
                  None \<Rightarrow> (Inl (Exception ''IconImage doesn't contain any raw bytes data.''), s1)
                | Some rb \<Rightarrow>
                    (case image_open lib (bio_seek 0 rb) of
                       (Inl e, rb') \<Rightarrow> (Inl e, s1\<lparr>raw_bytes := Some rb'\<rparr>)
                     | (Inr im, rb') \<Rightarrow> (Inr (), s1\<lparr>raw_bytes := Some rb', img := Some im\<rparr>))))"

definition input_count :: "IconImage \<Rightarrow> nat" where
  "input_count self =
     (if path self \<noteq> None then 1 else 0) + (if raw_bytes self \<noteq> None then 1 else 0)
       + (if img self \<noteq> None then 1 else 0)"

definition msg_exactly_one :: string where
  "msg_exactly_one = ''You must provide exactly one input to IconImage. Either path, raw_bytes or img.''"

text \<open>
  The three steps of \<^verbatim>\<open>__post_init__\<close> after the count of the inputs: read the file
  when only a path is given, decode the bytes of an image that is not a vector image,
  and refuse an empty buffer.
\<close>

definition post_step1 :: "'w os \<Rightarrow> 'w \<Rightarrow> IconImage \<Rightarrow> (exn + unit) \<times> IconImage" where
  "post_step1 os w self =
     (if img self = None \<and> raw_bytes self = None \<and> path self \<noteq> None
      then load_bytes_from_path os w self else (Inr (), self))"

definition post_step2 :: "imagelib \<Rightarrow> IconImage \<Rightarrow> (exn + unit) \<times> IconImage" where
  "post_step2 lib s1 =
     (if img s1 = None
      then (case is_svg s1 of
              (svg, s2) \<Rightarrow> if \<not> svg then load_image_from_bytes lib s2 else (Inr (), s2))
      else (Inr (), s1))"

definition post_step3 :: "IconImage \<Rightarrow> exn + IconImage" where
  "post_step3 s3 =
     (case raw_bytes s3 of
        None \<Rightarrow> Inr s3
      | Some rb \<Rightarrow>
          if nbytes rb \<le> 0
          then Inl (ValueError ''You have provided an empty raw_bytes image buffer.'')
          else Inr s3)"

text \<open>\<^verbatim>\<open>__post_init__\<close>; an exception leaves no object behind.\<close>

definition post_init :: "'w os \<Rightarrow> imagelib \<Rightarrow> 'w \<Rightarrow> IconImage \<Rightarrow> exn + IconImage" where
  "post_init os lib w self =
     (if input_count self \<noteq> 1 then Inl (ValueError msg_exactly_one)
      else (case post_step1 os w self of
              (Inl e, s1) \<Rightarrow> Inl e
            | (Inr u, s1) \<Rightarrow>
                (case post_step2 lib s1 of
                   (Inl e, s3) \<Rightarrow> Inl e
                 | (Inr u, s3) \<Rightarrow> post_step3 s3)))"

text \<open>The generated \<^verbatim>\<open>__init__\<close>: the keyword arguments with their defaults, then
  \<^verbatim>\<open>__post_init__\<close>.\<close>

definition IconImage_init ::
  "'w os \<Rightarrow> imagelib \<Rightarrow> 'w \<Rightarrow> string \<Rightarrow> path option \<Rightarrow> BytesIO option \<Rightarrow> image option
     \<Rightarrow> exn + IconImage" where
  "IconImage_init os lib w i p rb im =
     post_init os lib w
       \<lparr>ident = i, path = p, raw_bytes = rb, img = im,
        memo_path_suffix = None, memo_is_svg = None\<rparr>"


section \<open>Control flow and output\<close>

text \<open>
  How a piece of the program ends: it returns a value, raises an exception, or leaves
  the process through \<^verbatim>\<open>exit(n)\<close> (\<^verbatim>\<open>SystemExit\<close>, which \<^verbatim>\<open>except Exception\<close> does not
  catch). The standard output is the list of the strings written to it, one for each
  call of \<^verbatim>\<open>print\<close>.
\<close>

datatype 'a ctl = Return 'a | Raise exn | SysExit int

record 'w proc =
  stdout :: "string list"
  world :: "'w"

definition print_line :: "string \<Rightarrow> string list \<Rightarrow> string list" where
  "print_line s out = out @ [s @ nl]"

definition print_noend :: "string \<Rightarrow> string list \<Rightarrow> string list" where
  "print_noend s out = out @ [s]"

text \<open>A loop that appends the converted items to a list and stops at the first exception.\<close>

fun collect :: "('a \<Rightarrow> exn + 'b) \<Rightarrow> 'a list \<Rightarrow> exn + 'b list" where
  "collect f [] = Inr []"
| "collect f (x # xs) =
     (case f x of
        Inl e \<Rightarrow> Inl e
      | Inr y \<Rightarrow> (case collect f xs of Inl e \<Rightarrow> Inl e | Inr ys \<Rightarrow> Inr (y # ys)))"

section \<open>Settings\<close>

record Settings =
  name :: string
  icon_sizes :: "IconSize list"
  simulate :: bool
  use_discord :: bool
  icon_path :: "path option"

text \<open>
  The command line as the argument parser sees it: the number of arguments and the
  values given to the options, before their conversion (\<open>None\<close> for an option that is
  absent).
\<close>

record argv =
  total_args :: nat
  opt_discord :: bool
  opt_icon :: "string option"
  opt_name :: "string option"
  opt_size :: "string list option"
  opt_simulate :: bool

definition DEFAULT_ICON_SIZES :: "size_arg list" where
  "DEFAULT_ICON_SIZES = map SizeInt [16, 32, 48, 64, 128, 256, 512, 1024]"

text \<open>
  The value of \<^verbatim>\<open>args.size\<close> after \<^verbatim>\<open>parse_args\<close>: the default list as it is, or every
  token converted by \<^verbatim>\<open>type=IconSize\<close>. The parser demands at least one token and turns
  a \<^verbatim>\<open>ValueError\<close> of the conversion into its own error.
\<close>

definition parse_args_size :: "string list option \<Rightarrow> exn + (IconSize + size_arg) list" where
  "parse_args_size given =
     (case given of
        None \<Rightarrow> Inr (map Inr DEFAULT_ICON_SIZES)
      | Some tokens \<Rightarrow>
          if tokens = [] then Inl (ValueError ''expected at least one argument'')
          else (case collect parse_size tokens of
                  Inl e \<Rightarrow> Inl e
                | Inr sizes \<Rightarrow> Inr (map Inl sizes)))"

fun convert_raw_size :: "IconSize + size_arg \<Rightarrow> exn + IconSize" where
  "convert_raw_size (Inl s) = Inr s"
| "convert_raw_size (Inr raw) = IconSize_init raw 1"

definition check_icon_arg :: "'w os \<Rightarrow> bool \<Rightarrow> path option \<Rightarrow> 'w \<Rightarrow> exn option" where
  "check_icon_arg os svg_supported args_icon w =
     (case args_icon of
        None \<Rightarrow> None
      | Some p \<Rightarrow>
          if \<not> os_is_file os p w then
            Some (ValueError (''The file '' @ dq @ path_str p @ dq
                              @ '' does not exist or is not a regular file.''))
          else if os_stat_size os p w \<le> 0 then
            Some (ValueError (''The file '' @ dq @ path_str p @ dq @ '' is empty.''))
          else if \<not> svg_supported \<and> get_file_suffix p = ''.svg'' then
            Some (ValueError ''You attempted to use an SVG file, but CairoSVG is not available on your system.'')
          else None)"

definition convert_args_to_settings ::
  "'w os \<Rightarrow> bool \<Rightarrow> string \<Rightarrow> argv \<Rightarrow> 'w \<Rightarrow> string list \<Rightarrow> Settings ctl \<times> string list" where
  "convert_args_to_settings os svg_supported help_text args w out =
     (if total_args args \<le> 0 then (SysExit 1, print_noend help_text out)
      else
        (case parse_args_size (opt_size args) of
           Inl e \<Rightarrow> (SysExit 2, out)
         | Inr args_size \<Rightarrow>
             (let args_name = (case opt_name args of None \<Rightarrow> ''vesktop'' | Some n \<Rightarrow> n);
                  args_icon = map_option Path (opt_icon args)
              in if args_name = [] then
                   (Raise (ValueError ''The target icon name cannot be empty.''), out)
                 else
                   (case check_icon_arg os svg_supported args_icon w of
                      Some e \<Rightarrow> (Raise e, out)
                    | None \<Rightarrow>
                        if \<not> opt_discord args \<and> args_icon = None then
                          (Raise (ValueError ''You must choose either the Discord icon or a custom icon.''), out)
                        else
                          (case collect convert_raw_size args_size of
                             Inl e \<Rightarrow> (Raise e, out)
                           | Inr sizes \<Rightarrow>
                               (let target_icon_sizes = list_sort IconSize_lt sizes
                                in if length target_icon_sizes \<le> 0 then
                                     (Raise (ValueError ''You must provide at least one target icon size.''), out)
                                   else
                                     (Return \<lparr>name = args_name,
                                              icon_sizes = target_icon_sizes,
                                              simulate = opt_simulate args,
                                              use_discord = opt_discord args,
                                              icon_path = args_icon\<rparr>, out)))))))"

section \<open>Download and archive extraction\<close>

text \<open>
  An HTTP response: its status code and reason, its \<open>Content-Length\<close> header and the values that
  the successive calls of \<^verbatim>\<open>read(chunk_size)\<close> return (an empty one at the end of the
  body). An opened archive: its member names and the contents of its regular files.
  The network, the archive reader, the conversion \<^verbatim>\<open>int(header)\<close>, the terminal and
  the formatting of floating-point numbers are parameters.
\<close>

record response =
  getcode :: int
  reason :: string
  content_length_header :: "string option"
  read_call :: "int \<Rightarrow> nat \<Rightarrow> bytes"

record tar_archive =
  getnames :: "string list"
  extractfile :: "string \<Rightarrow> bytes option"

record netlib =
  http_open :: "string \<Rightarrow> (string \<times> string) list \<Rightarrow> exn + response"
  int_of_header :: "string \<Rightarrow> exn + int"
  is_terminal_output :: bool
  is_vt100_supported :: bool
  format_ratio :: "int \<Rightarrow> int \<Rightarrow> string"
  format_percent :: "int \<Rightarrow> int \<Rightarrow> string"
  tarfile_open :: "BytesIO \<Rightarrow> exn + tar_archive"

text \<open>
  \<^verbatim>\<open>urllib.request.urlopen\<close>: \<open>http_open\<close> is the exchange with the server (an exception
  when it fails, else the response that remains once redirections were followed), and
  \<^verbatim>\<open>urllib\<close> returns that response only when its status is between 200 and 299; for every
  other status it raises \<^verbatim>\<open>HTTPError\<close>.
\<close>

definition urlopen :: "netlib \<Rightarrow> string \<Rightarrow> (string \<times> string) list \<Rightarrow> exn + response" where
  "urlopen net url headers =
     (case http_open net url headers of
        Inl e \<Rightarrow> Inl e
      | Inr resp \<Rightarrow>
          if 200 \<le> getcode resp \<and> getcode resp < 300 then Inr resp
          else Inl (HTTPError (getcode resp) (reason resp)))"

definition convert_bytes_to_string :: "netlib \<Rightarrow> int \<Rightarrow> string" where
  "convert_bytes_to_string net n =
     (if n \<ge> 1073741824 then format_ratio net n 1073741824 @ '' GiB''
      else if n \<ge> 1048576 then format_ratio net n 1048576 @ '' MiB''
      else if n \<ge> 1024 then format_ratio net n 1024 @ '' KiB''
      else str_of_int n @ '' Bytes'')"

record download =
  data :: BytesIO
  bytes_downloaded :: int
  max_line_length :: nat
  printed :: "string list"

definition ljust :: "nat \<Rightarrow> string \<Rightarrow> string" where
  "ljust n s = s @ replicate (n - length s) CHR '' ''"

definition progress_message :: "netlib \<Rightarrow> (int \<times> string) option \<Rightarrow> int \<Rightarrow> string" where
  "progress_message net expected n =
     (case expected of
        Some (total_size, total_size_human) \<Rightarrow>
          ''Downloaded '' @ convert_bytes_to_string net n @ '' of '' @ total_size_human
            @ ''... ('' @ format_percent net n total_size @ ''%)''
      | None \<Rightarrow> ''Downloaded '' @ convert_bytes_to_string net n @ ''...'')"

text \<open>One turn of the loop body after a non-empty chunk was read.\<close>

definition take_chunk :: "netlib \<Rightarrow> (int \<times> string) option \<Rightarrow> bytes \<Rightarrow> download \<Rightarrow> download" where
  "take_chunk net expected chunk d =
     (let d1 = d\<lparr>data := bio_write chunk (data d),
                  bytes_downloaded := bytes_downloaded d + int (length chunk)\<rparr>
      in if \<not> is_terminal_output net then d1
         else
           (let message = progress_message net expected (bytes_downloaded d1)
            in if is_vt100_supported net then
                 d1\<lparr>printed := print_noend ([CHR 0x1B] @ ''[2K'' @ [CHR 0x0D] @ message) (printed d1)\<rparr>
               else
                 d1\<lparr>printed := print_noend ([CHR 0x0D] @ ljust (max_line_length d1) message) (printed d1),
                    max_line_length := max (max_line_length d1) (length message)\<rparr>))"

text \<open>The loop \<^verbatim>\<open>while True\<close>; \<open>k\<close> counts the calls of \<^verbatim>\<open>read\<close>. It ends only when a
  call returns no bytes.\<close>

partial_function (option) read_loop ::
  "netlib \<Rightarrow> response \<Rightarrow> int \<Rightarrow> (int \<times> string) option \<Rightarrow> nat \<Rightarrow> download \<Rightarrow> download option" where
  "read_loop net resp chunk_size expected k d =
     (if read_call resp chunk_size k = [] then Some d
      else read_loop net resp chunk_size expected (Suc k)
             (take_chunk net expected (read_call resp chunk_size k) d))"

declare read_loop.simps [code]

definition read_content_length :: "netlib \<Rightarrow> response \<Rightarrow> exn + (int \<times> string) option" where
  "read_content_length net resp =
     (case content_length_header resp of
        None \<Rightarrow> Inr None
      | Some h \<Rightarrow>
          (case int_of_header net h of
             Inl e \<Rightarrow> Inl e
           | Inr content_length \<Rightarrow>
               if content_length > 0
               then Inr (Some (content_length, convert_bytes_to_string net content_length))
               else Inr None))"

text \<open>The part of \<^verbatim>\<open>download_with_progress\<close> after the check of the status code, which
  the two scripts share.\<close>

definition download_body ::
  "netlib \<Rightarrow> response \<Rightarrow> int \<Rightarrow> string list \<Rightarrow> (BytesIO ctl \<times> string list) option" where
  "download_body net resp chunk_size out =
     (case read_content_length net resp of
        Inl e \<Rightarrow> Some (Raise e, out)
      | Inr expected \<Rightarrow>
          (case read_loop net resp chunk_size expected 0
                  \<lparr>data = BytesIO_new [], bytes_downloaded = 0, max_line_length = 0, printed = out\<rparr> of
             None \<Rightarrow> None
           | Some d \<Rightarrow>
               Some (Return (bio_seek 0 (data d)),
                     (if is_terminal_output net
                      then print_line (nl @ ''Download complete.'') (printed d)
                      else print_line ''Download complete.'' (printed d)))))"

text \<open>\<^verbatim>\<open>download_with_progress\<close> of \<^verbatim>\<open>iconix.py\<close>.\<close>

definition download_with_progress ::
  "netlib \<Rightarrow> string \<Rightarrow> (string \<times> string) list \<Rightarrow> int \<Rightarrow> string list
     \<Rightarrow> (BytesIO ctl \<times> string list) option" where
  "download_with_progress net url headers chunk_size out =
     (case urlopen net url headers of
        Inl e \<Rightarrow> Some (Raise e, out)
      | Inr resp \<Rightarrow>
          if getcode resp \<noteq> 200 then
            Some (Raise (Exception (''HTTP '' @ str_of_int (getcode resp) @ '' response received.'')), out)
          else download_body net resp chunk_size out)"

text \<open>\<^verbatim>\<open>download_with_progress\<close> of \<^verbatim>\<open>patch.py\<close>, which reports the status code and
  returns \<^verbatim>\<open>None\<close>.\<close>

definition patch_download_with_progress ::
  "netlib \<Rightarrow> string \<Rightarrow> (string \<times> string) list \<Rightarrow> int \<Rightarrow> string list
     \<Rightarrow> (BytesIO option ctl \<times> string list) option" where
  "patch_download_with_progress net url headers chunk_size out =
     (case urlopen net url headers of
        Inl e \<Rightarrow> Some (Raise e, out)
      | Inr resp \<Rightarrow>
          if getcode resp \<noteq> 200 then
            Some (Return None,
                  print_line (''Error: HTTP '' @ str_of_int (getcode resp) @ '' response received.'') out)
          else
            (case download_body net resp chunk_size out of
               None \<Rightarrow> None
             | Some (Return b, out') \<Rightarrow> Some (Return (Some b), out')
             | Some (Raise e, out') \<Rightarrow> Some (Raise e, out')
             | Some (SysExit n, out') \<Rightarrow> Some (SysExit n, out')))"

definition extract_discord_icon ::
  "netlib \<Rightarrow> BytesIO \<Rightarrow> path \<Rightarrow> string list \<Rightarrow> BytesIO ctl \<times> string list" where
  "extract_discord_icon net tar_data discord_png_path out =
     (case tarfile_open net tar_data of
        Inl e \<Rightarrow> (Raise e, out)
      | Inr tar \<Rightarrow>
          (let out1 = foldl (\<lambda>acc n. print_line (''- '' @ n) acc)
                            (print_line ''Files in the tar archive:'' out) (getnames tar)
           in case extractfile tar (path_str discord_png_path) of
                None \<Rightarrow>
                  (Raise (Exception (''Error: '' @ path_str discord_png_path
                                     @ '' was not found in archive!'')), out1)
              | Some discord_png_data \<Rightarrow>
                  (Return (BytesIO_new discord_png_data),
                   print_line (''Found '' @ dq @ path_name discord_png_path @ dq @ ''. File Size: ''
                               @ convert_bytes_to_string net (int (length discord_png_data)) @ ''.'')
                     out1)))"

definition discord_tar_url :: string where
  "discord_tar_url = ''https://discord.com/api/download?platform=linux&format=tar.gz''"

definition discord_headers :: "(string \<times> string) list" where
  "discord_headers =
     [(''User-Agent'',
       ''Mozilla/5.0 (X11; Linux x86_64) AppleWebKit/537.36 (KHTML, like Gecko) Chrome/128.0.0.0 Safari/537.36'')]"

definition get_latest_discord_icon ::
  "netlib \<Rightarrow> string list \<Rightarrow> (BytesIO ctl \<times> string list) option" where
  "get_latest_discord_icon net out =
     (case download_with_progress net discord_tar_url discord_headers 8192
             (print_line (''Fetching latest Discord tar.gz archive:'' @ nl @ ''- '' @ dq
                          @ discord_tar_url @ dq) out) of
        None \<Rightarrow> None
      | Some (Return tar_data, out1) \<Rightarrow>
          (case extract_discord_icon net tar_data (Path ''Discord/discord.png'') (print_line [] out1) of
             (Return discord_png_data, out2) \<Rightarrow> Some (Return discord_png_data, print_line [] out2)
           | (Raise e, out2) \<Rightarrow> Some (Raise e, out2)
           | (SysExit n, out2) \<Rightarrow> Some (SysExit n, out2))
      | Some (Raise e, out1) \<Rightarrow> Some (Raise e, out1)
      | Some (SysExit n, out1) \<Rightarrow> Some (SysExit n, out1))"


section \<open>The program \<^verbatim>\<open>iconix.py\<close>\<close>

text \<open>Sequencing: what follows runs only when what precedes returned.\<close>

fun and_then :: "'a ctl \<times> 's \<Rightarrow> ('a \<Rightarrow> 's \<Rightarrow> 'b ctl \<times> 's) \<Rightarrow> 'b ctl \<times> 's" where
  "and_then (Return x, s) f = f x s"
| "and_then (Raise e, s) f = (Raise e, s)"
| "and_then (SysExit n, s) f = (SysExit n, s)"

fun ctl_of_sum :: "exn + 'a \<Rightarrow> 'a ctl" where
  "ctl_of_sum (Inl e) = Raise e"
| "ctl_of_sum (Inr x) = Return x"

text \<open>The handler \<^verbatim>\<open>except Exception as e: print(f"Error: {e}"); exit(1)\<close>.\<close>

fun except_exit :: "'a ctl \<times> string list \<Rightarrow> 'a ctl \<times> string list" where
  "except_exit (Raise e, out) = (SysExit 1, print_line (''Error: '' @ exn_message e) out)"
| "except_exit (Return x, out) = (Return x, out)"
| "except_exit (SysExit n, out) = (SysExit n, out)"

text \<open>The lines that report the loaded icon and check that a raster icon is square.\<close>

definition inspect_icon :: "IconImage \<Rightarrow> string list \<Rightarrow> IconImage ctl \<times> string list" where
  "inspect_icon icon_image out =
     (let out1 = print_line (''Loaded Icon:'' @ nl @ ''- Source: '' @ ident icon_image) out
      in case get_image_size icon_image of
           (Inl e, i1) \<Rightarrow> (Raise e, out1)
         | (Inr (original_width, original_height), i1) \<Rightarrow>
             (case is_svg i1 of
                (svg, i2) \<Rightarrow>
                  (let human_size =
                         (if svg then ''Scalable Vector Graphics''
                          else str_of_int original_width @ ''x'' @ str_of_int original_height);
                       out2 = print_line (''- Input Size: '' @ human_size) out1
                   in case is_svg i2 of
                        (svg', i3) \<Rightarrow>
                          if \<not> svg' \<and> original_width \<noteq> original_height then
                            (Raise (Exception (''Icon dimensions are not square ('' @ human_size @ '').'')),
                             out2)
                          else (Return i3, out2))))"

text \<open>The chosen image: the custom icon when a path was given, else the downloaded one.\<close>

definition retrieve_icon ::
  "'w os \<Rightarrow> imagelib \<Rightarrow> netlib \<Rightarrow> 'w \<Rightarrow> Settings \<Rightarrow> string list
     \<Rightarrow> (IconImage ctl \<times> string list) option" where
  "retrieve_icon os lib net w settings out =
     (case icon_path settings of
        Some p \<Rightarrow>
          Some (ctl_of_sum (IconImage_init os lib w
                              (''Custom Icon ('' @ dq @ path_str p @ dq @ '')'') (Some p) None None),
                out)
      | None \<Rightarrow>
          (case get_latest_discord_icon net out of
             None \<Rightarrow> None
           | Some r \<Rightarrow>
               Some (and_then r (\<lambda>discord_png out'.
                       (ctl_of_sum (IconImage_init os lib w ''Official Discord Icon''
                                      None (Some discord_png) None), out')))))"

text \<open>The first \<^verbatim>\<open>try\<close> block with its handler.\<close>

definition load_icon ::
  "'w os \<Rightarrow> imagelib \<Rightarrow> netlib \<Rightarrow> bool \<Rightarrow> string \<Rightarrow> argv \<Rightarrow> 'w \<Rightarrow> string list
     \<Rightarrow> ((Settings \<times> IconImage) ctl \<times> string list) option" where
  "load_icon os lib net svg_supported help_text args w out =
     (case convert_args_to_settings os svg_supported help_text args w out of
        (Return settings, out1) \<Rightarrow>
          (case retrieve_icon os lib net w settings out1 of
             None \<Rightarrow> None
           | Some r \<Rightarrow>
               Some (except_exit
                       (and_then r (\<lambda>icon_image out2.
                          and_then (inspect_icon icon_image out2)
                            (\<lambda>inspected out3. (Return (settings, inspected), out3))))))
      | (Raise e, out1) \<Rightarrow> Some (except_exit (Raise e, out1))
      | (SysExit n, out1) \<Rightarrow> Some (SysExit n, out1))"

definition icon_theme_name :: string where
  "icon_theme_name = ''hicolor''"

definition icon_context :: string where
  "icon_context = ''apps''"

definition gnome_icon_cache_cmd :: string where
  "gnome_icon_cache_cmd = ''gtk-update-icon-cache''"

definition icon_theme_dir :: "environ \<Rightarrow> path" where
  "icon_theme_dir env = joinpath (get_xdg_data_home env) (''icons/'' @ icon_theme_name)"

definition icon_parent_dir :: "path \<Rightarrow> IconSize \<Rightarrow> path" where
  "icon_parent_dir theme_dir icon_size =
     joinpath theme_dir (get_name icon_size @ ''/'' @ icon_context)"

definition icon_target_file :: "path \<Rightarrow> string \<Rightarrow> IconSize \<Rightarrow> path" where
  "icon_target_file theme_dir target_icon_name icon_size =
     joinpath (icon_parent_dir theme_dir icon_size) (target_icon_name @ ''.png'')"

text \<open>The body of \<^verbatim>\<open>if not settings.simulate\<close>: create the directory and write the file.\<close>

definition install_file ::
  "'w os \<Rightarrow> imagelib \<Rightarrow> path \<Rightarrow> path \<Rightarrow> image \<Rightarrow> 'w \<Rightarrow> exn option \<times> 'w" where
  "install_file os lib parent_dir target scaled_icon_img w =
     (case os_mkdir_parents os parent_dir w of
        (Some e, w1) \<Rightarrow> (Some e, w1)
      | (None, w1) \<Rightarrow>
          if \<not> os_is_dir os parent_dir w1 then
            (Some (Exception (''Failed to create icon directory at '' @ dq @ path_str parent_dir
                              @ dq @ ''.'')), w1)
          else
            (case os_open_wb os target w1 of
               (Some e, w2) \<Rightarrow> (Some e, w2)
             | (None, w2) \<Rightarrow>
                 (case image_save_png lib scaled_icon_img of
                    Inl e \<Rightarrow> (Some e, w2)
                  | Inr png \<Rightarrow> os_write os target png w2)))"

text \<open>One turn of the loop over \<^verbatim>\<open>settings.icon_sizes\<close>: the installed target file.\<close>

definition install_one ::
  "'w os \<Rightarrow> imagelib \<Rightarrow> Settings \<Rightarrow> path \<Rightarrow> IconSize \<Rightarrow> IconImage \<Rightarrow> 'w proc
     \<Rightarrow> path ctl \<times> IconImage \<times> 'w proc" where
  "install_one os lib settings theme_dir icon_size icon_image st =
     (let parent_dir = icon_parent_dir theme_dir icon_size;
          target = icon_target_file theme_dir (name settings) icon_size
      in case resize_image_as_copy lib icon_image icon_size None of
           (Inl e, icon_image') \<Rightarrow> (Raise e, icon_image', st)
         | (Inr scaled_icon_img, icon_image') \<Rightarrow>
             (let st1 = st\<lparr>stdout := print_line (''- '' @ dq @ path_str target @ dq) (stdout st)\<rparr>
              in if \<not> simulate settings then
                   (case install_file os lib parent_dir target scaled_icon_img (world st1) of
                      (Some e, w') \<Rightarrow> (Raise e, icon_image', st1\<lparr>world := w'\<rparr>)
                    | (None, w') \<Rightarrow> (Return target, icon_image', st1\<lparr>world := w'\<rparr>))
                 else (Return target, icon_image', st1)))"

text \<open>The loop; the result carries \<^verbatim>\<open>installed_icons\<close>.\<close>

fun install_icons ::
  "'w os \<Rightarrow> imagelib \<Rightarrow> Settings \<Rightarrow> path \<Rightarrow> IconSize list \<Rightarrow> IconImage \<Rightarrow> path list
     \<Rightarrow> 'w proc \<Rightarrow> path list ctl \<times> 'w proc" where
  "install_icons os lib settings theme_dir [] icon_image installed_icons st =
     (Return installed_icons, st)"
| "install_icons os lib settings theme_dir (icon_size # rest) icon_image installed_icons st =
     (case install_one os lib settings theme_dir icon_size icon_image st of
        (Return target, icon_image', st1) \<Rightarrow>
          install_icons os lib settings theme_dir rest icon_image' (installed_icons @ [target]) st1
      | (Raise e, icon_image', st1) \<Rightarrow> (Raise e, st1)
      | (SysExit n, icon_image', st1) \<Rightarrow> (SysExit n, st1))"

text \<open>The second \<^verbatim>\<open>try\<close> block with its handler.\<close>

definition install_stage ::
  "'w os \<Rightarrow> imagelib \<Rightarrow> Settings \<Rightarrow> path \<Rightarrow> IconImage \<Rightarrow> 'w proc \<Rightarrow> path list ctl \<times> 'w proc" where
  "install_stage os lib settings theme_dir icon_image st =
     (case install_icons os lib settings theme_dir (icon_sizes settings) icon_image []
             (st\<lparr>stdout := print_line (nl @ ''Saving new '' @ str_title (name settings)
                                         @ '' app icons to disk:'') (stdout st)\<rparr>) of
        (Raise e, st') \<Rightarrow>
          (SysExit 1, st'\<lparr>stdout := print_line (''Error: '' @ exn_message e) (stdout st')\<rparr>)
      | (Return installed_icons, st') \<Rightarrow> (Return installed_icons, st')
      | (SysExit n, st') \<Rightarrow> (SysExit n, st'))"

definition is_space :: "char \<Rightarrow> bool" where
  "is_space c \<longleftrightarrow> c \<in> set [CHR '' '', CHR 0x09, CHR 0x0A, CHR 0x0B, CHR 0x0C, CHR 0x0D]"

definition str_strip :: "string \<Rightarrow> string" where
  "str_strip s = rev (dropWhile is_space (rev (dropWhile is_space s)))"

text \<open>The cache notifier; it runs in simulated runs too, and no handler surrounds it.\<close>

definition notify_icon_cache :: "'w os \<Rightarrow> path \<Rightarrow> 'w proc \<Rightarrow> unit ctl \<times> 'w proc" where
  "notify_icon_cache os theme_dir st =
     (let st1 = st\<lparr>stdout := print_line (nl @ ''Letting the system know that the icon theme was updated:''
                                          @ nl @ ''- Updating timestamp: '' @ dq @ path_str theme_dir @ dq)
                                 (stdout st)\<rparr>
      in case os_utime os theme_dir (world st1) of
           (Some e, w1) \<Rightarrow> (Raise e, st1\<lparr>world := w1\<rparr>)
         | (None, w1) \<Rightarrow>
             if os_which os gnome_icon_cache_cmd w1 then
               (case os_run os [gnome_icon_cache_cmd, ''-f'', ''-t'', path_str theme_dir] w1 of
                  ((returncode, output), w2) \<Rightarrow>
                    if returncode \<noteq> 0 then
                      (SysExit 1,
                       st1\<lparr>stdout := print_line (''Error: A problem occurred while executing '' @ dq
                                                  @ gnome_icon_cache_cmd @ dq @ ''.'') (stdout st1),
                           world := w2\<rparr>)
                    else
                      (Return (),
                       st1\<lparr>stdout := print_line (''- GNOME's icon cache: '' @ dq @ str_strip output @ dq)
                                        (stdout st1),
                           world := w2\<rparr>))
             else (Return (), st1\<lparr>world := w1\<rparr>))"

definition removal_msg :: "string \<Rightarrow> path \<Rightarrow> path list \<Rightarrow> string" where
  "removal_msg titlecase theme_dir installed_icons =
     ''If you ever want to remove the custom '' @ titlecase
       @ '' icons for some reason, simply execute the following commands:'' @ nl @ nl
       @ join_with nl (map (\<lambda>f. ''rm -fv '' @ dq @ path_str f @ dq) installed_icons) @ nl
       @ ''touch --no-create '' @ dq @ path_str theme_dir @ dq @ nl
       @ gnome_icon_cache_cmd @ '' -f -t '' @ dq @ path_str theme_dir @ dq @ nl"

definition removal_text_file :: "path \<Rightarrow> path" where
  "removal_text_file program_file = joinpath (path_parent program_file) ''how_to_remove.txt''"

definition closing_message :: "string \<Rightarrow> string \<Rightarrow> string \<Rightarrow> string" where
  "closing_message titlecase msg file_name =
     nl @ ''***'' @ nl @ msg @ nl
       @ ''These instructions have also been saved to '' @ dq @ file_name @ dq @ ''.'' @ nl
       @ ''***'' @ nl @ nl
       @ ''Patching complete! It may take a few minutes for the new icon to become active in your desktop environment.''
       @ nl @ nl
       @ ''If you're on GNOME, opening the Activities Overview and searching for '' @ titlecase
       @ '' seems to help it detect the change a bit faster.'' @ nl @ nl
       @ ''The new app icon will remain active forever, even after future '' @ titlecase
       @ '' app updates!'' @ nl @ nl
       @ ''You will never need to run this patcher again!''"

text \<open>The removal instructions, written in simulated runs too, and the closing messages.\<close>

definition write_removal ::
  "'w os \<Rightarrow> path \<Rightarrow> Settings \<Rightarrow> path \<Rightarrow> path list \<Rightarrow> 'w proc \<Rightarrow> unit ctl \<times> 'w proc" where
  "write_removal os program_file settings theme_dir installed_icons st =
     (let titlecase = str_title (name settings);
          msg = removal_msg titlecase theme_dir installed_icons;
          file = removal_text_file program_file
      in case os_write_text os file msg (world st) of
           (Some e, w1) \<Rightarrow> (Raise e, st\<lparr>world := w1\<rparr>)
         | (None, w1) \<Rightarrow>
             (let out1 = print_line (closing_message titlecase msg (path_name file)) (stdout st);
                  out2 = (if simulate settings
                          then print_line (nl @ ''[This was a simulated run. Icons have not been written to disk.]'') out1
                          else out1)
              in (Return (), \<lparr>stdout = out2, world = w1\<rparr>)))"

text \<open>Everything after the icon is loaded.\<close>

definition install_and_finish ::
  "'w os \<Rightarrow> imagelib \<Rightarrow> environ \<Rightarrow> path \<Rightarrow> Settings \<Rightarrow> IconImage \<Rightarrow> 'w proc \<Rightarrow> unit ctl \<times> 'w proc" where
  "install_and_finish os lib env program_file settings icon_image st =
     (let theme_dir = icon_theme_dir env
      in and_then (install_stage os lib settings theme_dir icon_image st)
           (\<lambda>installed_icons st1.
              and_then (notify_icon_cache os theme_dir st1)
                (\<lambda>_ st2. write_removal os program_file settings theme_dir installed_icons st2)))"

text \<open>
  The script from its first \<^verbatim>\<open>try\<close> block to its end, \<open>svg_supported\<close> being the
  outcome of the import of CairoSVG. The result is \<open>None\<close> when the download never ends; otherwise it is
  the way the process ends (\<open>Return\<close> for the normal end with status 0, \<open>SysExit\<close> for
  \<^verbatim>\<open>exit(n)\<close>, \<open>Raise\<close> for an exception that nothing catches) with the output and the
  world it leaves.
\<close>

definition main ::
  "'w os \<Rightarrow> imagelib \<Rightarrow> netlib \<Rightarrow> bool \<Rightarrow> string \<Rightarrow> environ \<Rightarrow> path \<Rightarrow> argv \<Rightarrow> 'w
     \<Rightarrow> (unit ctl \<times> 'w proc) option" where
  "main os lib net svg_supported help_text env program_file args w =
     (case load_icon os lib net svg_supported help_text args w [] of
        None \<Rightarrow> None
      | Some (Return (settings, icon_image), out) \<Rightarrow>
          Some (install_and_finish os lib env program_file settings icon_image
                  \<lparr>stdout = out, world = w\<rparr>)
      | Some (Raise e, out) \<Rightarrow> Some (Raise e, \<lparr>stdout = out, world = w\<rparr>)
      | Some (SysExit n, out) \<Rightarrow> Some (SysExit n, \<lparr>stdout = out, world = w\<rparr>))"


text \<open>
  The import of CairoSVG at the head of the module: \<open>import_error\<close> is the text of the
  \<^verbatim>\<open>ImportError\<close> when the import fails. The module then runs \<open>main\<close>, whose output
  follows the warning.
\<close>

definition import_cairosvg :: "string option \<Rightarrow> bool \<times> string list" where
  "import_cairosvg import_error =
     (case import_error of
        None \<Rightarrow> (True, [])
      | Some e \<Rightarrow>
          (False,
           [e @ nl @ ''Warning: Unable to import the CairoSVG library. You will not be able to load SVG files.''
              @ nl @ nl]))"

definition iconix_module ::
  "'w os \<Rightarrow> imagelib \<Rightarrow> netlib \<Rightarrow> string option \<Rightarrow> string \<Rightarrow> environ \<Rightarrow> path \<Rightarrow> argv \<Rightarrow> 'w
     \<Rightarrow> (unit ctl \<times> 'w proc) option" where
  "iconix_module os lib net import_error help_text env program_file args w =
     (case import_cairosvg import_error of
        (svg_supported, warning) \<Rightarrow>
          map_option (\<lambda>r. (fst r, (snd r)\<lparr>stdout := warning @ stdout (snd r)\<rparr>))
            (main os lib net svg_supported help_text env program_file args w))"

section \<open>The program \<^verbatim>\<open>patch.py\<close>\<close>

text \<open>The older script installs the downloaded icon at its own size, without resizing.\<close>

definition patch_extract_discord_icon ::
  "netlib \<Rightarrow> BytesIO \<Rightarrow> path \<Rightarrow> string list \<Rightarrow> BytesIO option ctl \<times> string list" where
  "patch_extract_discord_icon net tar_data discord_png_path out =
     (case tarfile_open net tar_data of
        Inl e \<Rightarrow> (Raise e, out)
      | Inr tar \<Rightarrow>
          (let out1 = foldl (\<lambda>acc n. print_line (''- '' @ n) acc)
                            (print_line ''Files in the tar archive:'' out) (getnames tar)
           in case extractfile tar (path_str discord_png_path) of
                None \<Rightarrow>
                  (Return None,
                   print_line (''Error: '' @ path_str discord_png_path @ '' was not found in archive!'') out1)
              | Some discord_png_data \<Rightarrow>
                  (Return (Some (BytesIO_new discord_png_data)),
                   print_line (''Found '' @ dq @ path_name discord_png_path @ dq @ ''. File Size: ''
                               @ convert_bytes_to_string net (int (length discord_png_data)) @ ''.'')
                     out1)))"

definition patch_get_image_size ::
  "imagelib \<Rightarrow> BytesIO \<Rightarrow> (exn + bool \<times> int \<times> int) \<times> BytesIO" where
  "patch_get_image_size lib image_data =
     (case image_open lib image_data of
        (Inl e, b) \<Rightarrow> (Inl e, b)
      | (Inr im, b) \<Rightarrow>
          (Inr (\<not> (width im = - 1 \<and> height im = - 1), width im, height im), bio_seek 0 b))"

definition patch_removal_msg :: "path \<Rightarrow> path \<Rightarrow> string" where
  "patch_removal_msg theme_dir target =
     ''If you ever want to remove the custom Vesktop icon for some reason, simply execute the following commands:''
       @ nl @ nl
       @ ''rm -fv '' @ dq @ path_str target @ dq @ nl
       @ ''touch --no-create '' @ dq @ path_str theme_dir @ dq @ nl
       @ gnome_icon_cache_cmd @ '' -f -t '' @ dq @ path_str theme_dir @ dq @ nl"

definition patch_closing_message :: "string \<Rightarrow> string \<Rightarrow> string" where
  "patch_closing_message msg file_name =
     nl @ ''***'' @ nl @ msg @ nl
       @ ''These instructions have also been saved to '' @ dq @ file_name @ dq @ ''.'' @ nl
       @ ''***'' @ nl @ nl
       @ ''Patching complete! It may take a few minutes for the new icon to become active in your desktop environment.''
       @ nl @ nl
       @ ''If you're on GNOME, opening the Activities Overview and searching for Vesktop seems to help it detect the change a bit faster.''
       @ nl @ nl
       @ ''The new app icon will remain active forever, even after future Vesktop app updates!''
       @ nl @ nl
       @ ''You will never need to run this patcher again!''"

text \<open>The script from the check of the dimensions to its end.\<close>

definition patch_install ::
  "'w os \<Rightarrow> environ \<Rightarrow> path \<Rightarrow> path \<Rightarrow> BytesIO \<Rightarrow> int \<Rightarrow> int \<Rightarrow> 'w proc \<Rightarrow> unit ctl \<times> 'w proc" where
  "patch_install os env program_file discord_png_path discord_png_data w_px h_px st =
     (if w_px \<noteq> h_px \<or> w_px mod 8 \<noteq> 0 then
        (SysExit 1,
         st\<lparr>stdout := print_line (''Error: Icon dimensions are not square or not divisible by 8 (''
                                   @ str_of_int w_px @ ''x'' @ str_of_int h_px @ '').'') (stdout st)\<rparr>)
      else
        (let theme_dir = icon_theme_dir env;
             parent_dir = joinpath theme_dir (str_of_int w_px @ ''x'' @ str_of_int h_px @ ''/'' @ icon_context);
             target = joinpath parent_dir (''vesktop'' @ path_suffix discord_png_path)
         in case os_mkdir_parents os parent_dir (world st) of
              (Some e, w1) \<Rightarrow> (Raise e, st\<lparr>world := w1\<rparr>)
            | (None, w1) \<Rightarrow>
                if \<not> os_is_dir os parent_dir w1 then
                  (SysExit 1,
                   st\<lparr>stdout := print_line (''Error: Failed to create icon directory at '' @ dq
                                             @ path_str parent_dir @ dq @ ''.'') (stdout st),
                      world := w1\<rparr>)
                else
                  (let out1 = print_line (nl @ ''Saving new Vesktop app icon to disk:'' @ nl @ ''- '' @ dq
                                          @ path_str target @ dq) (stdout st)
                   in case os_open_wb os target w1 of
                        (Some e, w2) \<Rightarrow> (Raise e, \<lparr>stdout = out1, world = w2\<rparr>)
                      | (None, w2) \<Rightarrow>
                          (case os_write os target (drop (pos discord_png_data) (buf discord_png_data)) w2 of
                             (Some e, w3) \<Rightarrow> (Raise e, \<lparr>stdout = out1, world = w3\<rparr>)
                           | (None, w3) \<Rightarrow>
                               and_then (notify_icon_cache os theme_dir \<lparr>stdout = out1, world = w3\<rparr>)
                                 (\<lambda>_ st2.
                                    (let msg = patch_removal_msg theme_dir target;
                                         file = removal_text_file program_file
                                     in case os_write_text os file msg (world st2) of
                                          (Some e, w4) \<Rightarrow> (Raise e, st2\<lparr>world := w4\<rparr>)
                                        | (None, w4) \<Rightarrow>
                                            (Return (),
                                             \<lparr>stdout = print_line (patch_closing_message msg (path_name file))
                                                         (stdout st2),
                                              world = w4\<rparr>)))))))"

definition patch_main ::
  "'w os \<Rightarrow> imagelib \<Rightarrow> netlib \<Rightarrow> environ \<Rightarrow> path \<Rightarrow> 'w \<Rightarrow> (unit ctl \<times> 'w proc) option" where
  "patch_main os lib net env program_file w =
     (case patch_download_with_progress net discord_tar_url discord_headers 8192
             (print_line (''Fetching latest Discord tar.gz archive:'' @ nl @ ''- '' @ dq
                          @ discord_tar_url @ dq) []) of
        None \<Rightarrow> None
      | Some (Raise e, out1) \<Rightarrow> Some (Raise e, \<lparr>stdout = out1, world = w\<rparr>)
      | Some (SysExit n, out1) \<Rightarrow> Some (SysExit n, \<lparr>stdout = out1, world = w\<rparr>)
      | Some (Return None, out1) \<Rightarrow> Some (SysExit 1, \<lparr>stdout = out1, world = w\<rparr>)
      | Some (Return (Some tar_data), out1) \<Rightarrow>
          (let discord_png_path = Path ''Discord/discord.png''
           in case patch_extract_discord_icon net tar_data discord_png_path (print_line [] out1) of
                (Raise e, out2) \<Rightarrow> Some (Raise e, \<lparr>stdout = out2, world = w\<rparr>)
              | (SysExit n, out2) \<Rightarrow> Some (SysExit n, \<lparr>stdout = out2, world = w\<rparr>)
              | (Return None, out2) \<Rightarrow> Some (SysExit 1, \<lparr>stdout = out2, world = w\<rparr>)
              | (Return (Some discord_png_data), out2) \<Rightarrow>
                  (case patch_get_image_size lib discord_png_data of
                     (Inl e, b) \<Rightarrow> Some (Raise e, \<lparr>stdout = out2, world = w\<rparr>)
                   | (Inr (success, w_px, h_px), b) \<Rightarrow>
                       if \<not> success then
                         Some (SysExit 1,
                               \<lparr>stdout = print_line ''Error: Failed to get icon dimensions from PNG file.'' out2,
                                world = w\<rparr>)
                       else
                         Some (patch_install os env program_file discord_png_path b w_px h_px
                                 \<lparr>stdout = out2, world = w\<rparr>))))"

section \<open>A recording operating system and fixed libraries\<close>

text \<open>
  Concrete parameters on which the model can be run: an operating system whose world
  is the log of the operations performed on it, and libraries with fixed answers.
\<close>

datatype os_event =
    Mkdir path
  | OpenWb path
  | Write path bytes
  | Utime path
  | Run "string list"
  | WriteText path string

definition recording_os :: "os_event list os" where
  "recording_os =
     \<lparr>os_is_file = (\<lambda>p w. True),
      os_stat_size = (\<lambda>p w. 1),
      os_read_bytes = (\<lambda>p w. Inr ''PNG''),
      os_mkdir_parents = (\<lambda>p w. (None, w @ [Mkdir p])),
      os_is_dir = (\<lambda>p w. True),
      os_open_wb = (\<lambda>p w. (None, w @ [OpenWb p])),
      os_write = (\<lambda>p b w. (None, w @ [Write p b])),
      os_utime = (\<lambda>p w. (None, w @ [Utime p])),
      os_which = (\<lambda>c w. True),
      os_run = (\<lambda>c w. ((0, []), w @ [Run c])),
      os_write_text = (\<lambda>p t w. (None, w @ [WriteText p t]))\<rparr>"

text \<open>An image library that decodes every buffer to the same \<open>w\<close> by \<open>h\<close> image.\<close>

definition fixed_imagelib :: "int \<Rightarrow> int \<Rightarrow> imagelib" where
  "fixed_imagelib w h =
     \<lparr>image_open = (\<lambda>b. (Inr \<lparr>width = w, height = h, pixels = []\<rparr>, b)),
      image_resize = (\<lambda>im sz r. Inr \<lparr>width = fst sz, height = snd sz, pixels = []\<rparr>),
      image_save_png = (\<lambda>im. Inr ''PNG''),
      svg2png = (\<lambda>b w h. (Inr ''PNG'', b))\<rparr>"

text \<open>A network that answers every request with the given response.\<close>

definition fixed_netlib :: "response \<Rightarrow> netlib" where
  "fixed_netlib resp =
     \<lparr>http_open = (\<lambda>url headers. Inr resp),
      int_of_header = (\<lambda>h. Inr (int_of_digits h)),
      is_terminal_output = False,
      is_vt100_supported = True,
      format_ratio = (\<lambda>a b. str_of_int (a div b)),
      format_percent = (\<lambda>a b. str_of_int (a * 100 div b)),
      tarfile_open = (\<lambda>b. Inr \<lparr>getnames = [''Discord/discord.png''],
                                 extractfile = (\<lambda>n. if n = ''Discord/discord.png'' then Some ''PNG'' else None)\<rparr>)\<rparr>"

text \<open>An image library whose \<^verbatim>\<open>Image.resize\<close> raises.\<close>

definition failing_resize_lib :: imagelib where
  "failing_resize_lib =
     (fixed_imagelib 64 64)\<lparr>image_resize := (\<lambda>im sz r. Inl (LibraryError ''MemoryError''))\<rparr>"

text \<open>A response with the given status whose body arrives in the given chunks.\<close>

definition chunked_response :: "int \<Rightarrow> string \<Rightarrow> bytes list \<Rightarrow> response" where
  "chunked_response code why chunks =
     \<lparr>getcode = code,
      reason = why,
      content_length_header = None,
      read_call = (\<lambda>n k. if k < length chunks then chunks ! k else [])\<rparr>"

text \<open>The line that the install loop prints for a target file.\<close>

definition target_line :: "path \<Rightarrow> string \<Rightarrow> IconSize \<Rightarrow> string" where
  "target_line theme nm s = ''- '' @ dq @ path_str (icon_target_file theme nm s) @ dq @ nl"

text \<open>
  What the \<^verbatim>\<open>else\<close> branch of \<^verbatim>\<open>resize_image_as_copy\<close> returns for a decoded image when
  the caller passes no filter, as the install loop does.
\<close>

definition raster_resize :: "imagelib \<Rightarrow> image \<Rightarrow> IconSize \<Rightarrow> exn + image" where
  "raster_resize lib im icon_size =
     (if width im = size_px icon_size \<and> height im = size_px icon_size then Inr (image_copy im)
      else image_resize lib im (size_px icon_size, size_px icon_size) LANCZOS)"

text \<open>Sample inputs for running the model.\<close>

definition sample_env :: environ where
  "sample_env = \<lparr>XDG_DATA_HOME = None, home = Path ''/home/u''\<rparr>"

definition sample_program :: path where
  "sample_program = Path ''/opt/iconix/iconix.py''"

definition sample_net :: netlib where
  "sample_net = fixed_netlib (chunked_response 200 ''OK'' [''ab'', ''c''])"

definition sample_args :: argv where
  "sample_args =
     \<lparr>total_args = 4, opt_discord = False, opt_icon = Some ''my.png'', opt_name = None,
      opt_size = Some [''32''], opt_simulate = False\<rparr>"

definition sample_settings :: Settings where
  "sample_settings =
     \<lparr>name = ''vesktop'', icon_sizes = [\<lparr>size_px = 32, scale = 1\<rparr>], simulate = False,
      use_discord = False, icon_path = Some (Path ''my.png'')\<rparr>"

definition nonsquare_image :: image where
  "nonsquare_image = \<lparr>width = 10, height = 12, pixels = []\<rparr>"

definition nonsquare_icon :: IconImage where
  "nonsquare_icon =
     \<lparr>ident = ''Custom Icon ('' @ dq @ ''my.png'' @ dq @ '')'', path = Some (Path ''my.png''),
      raw_bytes = Some \<lparr>buf = ''PNG'', pos = 0\<rparr>, img = Some nonsquare_image,
      memo_path_suffix = Some ''.png'', memo_is_svg = Some False\<rparr>"

definition vector_icon :: IconImage where
  "vector_icon =
     \<lparr>ident = ''v'', path = Some (Path ''my.svg''),
      raw_bytes = Some \<lparr>buf = ''<svg/>'', pos = 0\<rparr>, img = None,
      memo_path_suffix = Some ''.svg'', memo_is_svg = Some True\<rparr>"

definition failing_net :: netlib where
  "failing_net = fixed_netlib (chunked_response 404 ''Not Found'' [])"

definition no_content_net :: netlib where
  "no_content_net = fixed_netlib (chunked_response 204 ''No Content'' [])"

text \<open>A network on which the request itself fails.\<close>

definition unreachable_net :: netlib where
  "unreachable_net =
     (fixed_netlib (chunked_response 200 ''OK'' []))
       \<lparr>http_open := (\<lambda>url headers. Inl (OSError ''<urlopen error [Errno -2] Name or service not known>''))\<rparr>"

definition discord_args :: argv where
  "discord_args =
     \<lparr>total_args = 1, opt_discord = True, opt_icon = None, opt_name = None,
      opt_size = Some [''32''], opt_simulate = False\<rparr>"

definition discord_settings :: Settings where
  "discord_settings =
     \<lparr>name = ''vesktop'', icon_sizes = [\<lparr>size_px = 32, scale = 1\<rparr>], simulate = False,
      use_discord = True, icon_path = None\<rparr>"

text \<open>A buffer whose position is at the end of its data, as while the download loop
  runs.\<close>

definition at_eof :: "BytesIO \<Rightarrow> bool" where
  "at_eof b \<longleftrightarrow> pos b = length (buf b)"

definition simulate_args :: argv where
  "simulate_args =
     \<lparr>total_args = 5, opt_discord = False, opt_icon = Some ''my.png'', opt_name = None,
      opt_size = Some [''32''], opt_simulate = True\<rparr>"

definition simulate_settings :: Settings where
  "simulate_settings =
     \<lparr>name = ''vesktop'', icon_sizes = [\<lparr>size_px = 32, scale = 1\<rparr>], simulate = True,
      use_discord = False, icon_path = Some (Path ''my.png'')\<rparr>"

definition square_icon :: IconImage where
  "square_icon =
     \<lparr>ident = ''Custom Icon ('' @ dq @ ''my.png'' @ dq @ '')'', path = Some (Path ''my.png''),
      raw_bytes = Some \<lparr>buf = ''PNG'', pos = 0\<rparr>,
      img = Some \<lparr>width = 32, height = 32, pixels = []\<rparr>,
      memo_path_suffix = Some ''.png'', memo_is_svg = Some False\<rparr>"

definition several_sizes_settings :: Settings where
  "several_sizes_settings =
     \<lparr>name = ''vesktop'',
      icon_sizes = [\<lparr>size_px = 32, scale = 1\<rparr>, \<lparr>size_px = 64, scale = 1\<rparr>, \<lparr>size_px = 128, scale = 1\<rparr>],
      simulate = True, use_discord = False, icon_path = Some (Path ''my.png'')\<rparr>"

text \<open>The world that a run of the script leaves.\<close>

definition final_world :: "('a ctl \<times> 'w proc) option \<Rightarrow> 'w option" where
  "final_world r = map_option (\<lambda>x. world (snd x)) r"

text \<open>
  The three shapes of a size token in the words of the specification: a decimal
  integer \<open>N\<close>, or \<open>NxN\<close> with the same text twice, or \<open>NxN@S\<close> with a decimal
  scale \<open>S\<close>.
\<close>

definition size_token :: "string \<Rightarrow> bool" where
  "size_token s \<longleftrightarrow>
     (\<exists>N. digits N \<and>
        (s = N \<or> s = N @ ''x'' @ N \<or> (\<exists>S. digits S \<and> s = N @ ''x'' @ N @ ''@'' @ S)))"

section \<open>Properties of the size parser\<close>

lemma not_digit_simps [simp]:
  "\<not> is_digit CHR ''x''" "\<not> is_digit CHR ''@''" "\<not> is_digit (CHR 0x0A)"
  by (simp_all add: is_digit_def)

lemma scan_digits:
  assumes "list_all is_digit g" and "r = [] \<or> \<not> is_digit (hd r)"
  shows "takeWhile is_digit (g @ r) = g" and "dropWhile is_digit (g @ r) = r"
proof -
  have a: "\<forall>c\<in>set g. is_digit c"
    using assms(1) by (simp add: list_all_iff)
  have b: "takeWhile is_digit r = []" "dropWhile is_digit r = r"
    using assms(2) by (cases r; simp)+
  show "takeWhile is_digit (g @ r) = g"
    using a b by (simp add: takeWhile_append2)
  show "dropWhile is_digit (g @ r) = r"
    using a b by (simp add: dropWhile_append2)
qed

lemma at_end_simps [simp]:
  "at_end []" "at_end nl" "\<not> at_end (CHR ''x'' # r)" "\<not> at_end (CHR ''@'' # r)"
  by (simp_all add: at_end_def nl_def)

lemma at_end_digit: "is_digit c \<Longrightarrow> \<not> at_end (c # r)"
  by (auto simp: at_end_def nl_def)

lemma at_end_hd: "at_end e \<Longrightarrow> e = [] \<or> \<not> is_digit (hd e)"
  by (auto simp: at_end_def nl_def)

lemma search_plain:
  assumes "digits N" "at_end e"
  shows "re_search_size (N @ e) = Some (N, None)"
  using assms scan_digits[of N e] at_end_hd[of e]
  by (simp add: re_search_size_def digits_def Let_def)

lemma search_repeat:
  assumes "digits N" "at_end e"
  shows "re_search_size (N @ ''x'' @ N @ e) = Some (N, None)"
  using assms scan_digits[of N "''x'' @ N @ e"]
  by (simp add: re_search_size_def re_repeat_part_def digits_def Let_def)

lemma search_scaled:
  assumes "digits N" "digits S" "at_end e"
  shows "re_search_size (N @ ''x'' @ N @ ''@'' @ S @ e) = Some (N, Some S)"
  using assms scan_digits[of N "''x'' @ N @ ''@'' @ S @ e"] scan_digits[of S e] at_end_hd[of e]
  by (simp add: re_search_size_def re_repeat_part_def re_scale_part_def digits_def Let_def)

text \<open>
  A digit string that is a prefix of \<open>M @ t\<close>, where \<open>t\<close> does not start with a
  digit, is a prefix of \<open>M\<close>.
\<close>

lemma digit_prefix:
  assumes "list_all is_digit N" "prefix N (M @ t)" "t = [] \<or> \<not> is_digit (hd t)"
  shows "prefix N M"
proof (cases "length N \<le> length M")
  case True
  from assms(2) obtain z where z: "M @ t = N @ z"
    by (auto simp: prefix_def)
  then have "take (length N) (M @ t) = N" by simp
  with True have "take (length N) M = N" by simp
  then show ?thesis by (metis take_is_prefix)
next
  case False
  then have lt: "length M < length N" by simp
  from assms(2) obtain z where z: "M @ t = N @ z"
    by (auto simp: prefix_def)
  have tne: "t \<noteq> []"
    using z lt by (cases t) (auto dest: arg_cong[where f = length])
  have "(M @ t) ! length M = (N @ z) ! length M"
    using z by simp
  then have "hd t = N ! length M"
    using lt tne by (simp add: nth_append hd_conv_nth)
  moreover have "is_digit (N ! length M)"
    using assms(1) lt by (simp add: list_all_length)
  ultimately show ?thesis
    using assms(3) tne by simp
qed

lemma search_mismatch:
  assumes "digits N" "digits M" "N \<noteq> M" "t = [] \<or> (\<exists>S. t = ''@'' @ S)"
  shows "re_search_size (N @ ''x'' @ M @ t) = None"
proof -
  have scan:
    "takeWhile is_digit (N @ ''x'' @ M @ t) = N"
    "dropWhile is_digit (N @ ''x'' @ M @ t) = ''x'' @ M @ t"
    using assms(1) scan_digits[of N "''x'' @ M @ t"] by (simp_all add: digits_def)
  have "re_repeat_part N (''x'' @ M @ t) = None"
  proof (cases "prefix N (M @ t)")
    case False
    then show ?thesis by (simp add: re_repeat_part_def)
  next
    case True
    have tnd: "t = [] \<or> \<not> is_digit (hd t)"
      using assms(4) by auto
    have "prefix N M"
      using digit_prefix[OF _ True tnd] assms(1) by (simp add: digits_def)
    then obtain d where d: "M = N @ d" by (auto simp: prefix_def)
    with assms(3) have "d \<noteq> []" by auto
    then obtain c d' where cd: "d = c # d'" by (cases d) auto
    have "is_digit c" using assms(2) d cd by (simp add: digits_def)
    then have "\<not> at_end (c # d' @ t)" "c \<noteq> CHR ''@''"
      using at_end_digit by auto
    then show ?thesis
      using d cd by (simp add: re_repeat_part_def re_scale_part_def)
  qed
  then show ?thesis
    using scan assms(1) by (simp add: re_search_size_def digits_def Let_def)
qed

text \<open>
  Every match has one of the three shapes, possibly followed by one newline
  (which \<^verbatim>\<open>$\<close> tolerates).
\<close>

lemma search_Some_shape:
  assumes "re_search_size s = Some (g1, g2)"
  shows "digits g1 \<and> (\<exists>e. at_end e \<and>
           (case g2 of
              None \<Rightarrow> s = g1 @ e \<or> s = g1 @ ''x'' @ g1 @ e
            | Some S \<Rightarrow> digits S \<and> s = g1 @ ''x'' @ g1 @ ''@'' @ S @ e))"
proof -
  define r1 where "r1 = dropWhile is_digit s"
  define t1 where "t1 = takeWhile is_digit s"
  have s: "s = t1 @ r1"
    by (simp add: t1_def r1_def)
  have dt: "list_all is_digit t1"
    unfolding t1_def list_all_iff using set_takeWhileD by fastforce
  from assms have ne: "t1 \<noteq> []"
    by (auto simp: re_search_size_def Let_def t1_def split: if_splits)
  show ?thesis
  proof (cases "at_end r1")
    case True
    with assms ne have "g1 = t1" "g2 = None"
      by (auto simp: re_search_size_def Let_def t1_def r1_def split: if_splits)
    with True s dt ne show ?thesis by (auto simp: digits_def)
  next
    case False
    with assms ne have rp: "re_repeat_part t1 r1 = Some (g1, g2)"
      by (auto simp: re_search_size_def Let_def t1_def r1_def split: if_splits)
    then obtain r2 where r2: "r1 = CHR ''x'' # r2" "prefix t1 r2"
      by (auto simp: re_repeat_part_def split: list.splits if_splits)
    define r3 where "r3 = drop (length t1) r2"
    have r2eq: "r2 = t1 @ r3"
      using r2(2) by (auto simp: r3_def prefix_def)
    show ?thesis
    proof (cases "at_end r3")
      case True
      with rp r2 have "g1 = t1" "g2 = None"
        by (auto simp: re_repeat_part_def Let_def r3_def)
      with True s r2 r2eq dt ne show ?thesis by (auto simp: digits_def)
    next
      case False
      with rp r2 have sp: "re_scale_part t1 r3 = Some (g1, g2)"
        by (auto simp: re_repeat_part_def Let_def r3_def)
      then obtain r4 where r4: "r3 = CHR ''@'' # r4"
        by (auto simp: re_scale_part_def split: list.splits if_splits)
      define S where "S = takeWhile is_digit r4"
      define r5 where "r5 = dropWhile is_digit r4"
      have r4eq: "r4 = S @ r5" by (simp add: S_def r5_def)
      have dS: "list_all is_digit S"
        unfolding S_def list_all_iff using set_takeWhileD by fastforce
      from sp r4 have "S \<noteq> []" "at_end r5" "g1 = t1" "g2 = Some S"
        by (auto simp: re_scale_part_def Let_def S_def r5_def split: if_splits)
      with s r2 r2eq r4 r4eq dt dS ne show ?thesis by (auto simp: digits_def)
    qed
  qed
qed

text \<open>The conversion of the matched groups, below and above the limit of the interpreter.\<close>

lemma py_int_ok: "length s \<le> int_max_str_digits \<Longrightarrow> py_int s = Inr (int_of_digits s)"
  by (simp add: py_int_def)

lemma py_int_limit:
  "int_max_str_digits < length s \<Longrightarrow> py_int s = Inl (ValueError (msg_int_limit (length s)))"
  by (simp add: py_int_def)

lemma int_of_digits_snoc: "int_of_digits (s @ [c]) = 10 * int_of_digits s + digit_val c"
  by (simp add: int_of_digits_def)

lemma int_of_twos:
  "0 < n \<Longrightarrow> even (int_of_digits (replicate n CHR ''2'')) \<and> 0 < int_of_digits (replicate n CHR ''2'')"
proof (induction n)
  case 0
  then show ?case by simp
next
  case (Suc n)
  have dv: "digit_val CHR ''2'' = 2"
    by (simp add: digit_val_def)
  have sn: "int_of_digits (replicate (Suc n) CHR ''2'') = 10 * int_of_digits (replicate n CHR ''2'') + 2"
    using int_of_digits_snoc[of "replicate n CHR ''2''" "CHR ''2''"] dv
    by (simp add: replicate_append_same)
  show ?case
  proof (cases n)
    case 0
    then show ?thesis using sn by (simp add: int_of_digits_def)
  next
    case (Suc k)
    then have "0 < int_of_digits (replicate n CHR ''2'')"
      using Suc.IH by simp
    then show ?thesis using sn by simp
  qed
qed

lemma digits_replicate: "0 < n \<Longrightarrow> is_digit c \<Longrightarrow> digits (replicate n c)"
  by (simp add: digits_def list_all_iff)

text \<open>
  Claim C1, refuted as it stands. The token made of 4301 digits \<open>2\<close> has the shape \<open>N\<close>
  of the grammar and its number is even and positive, yet parsing it fails:
  \<^verbatim>\<open>int(m.group(1), 10)\<close> raises the \<^verbatim>\<open>ValueError\<close> of the interpreter's limit on the
  length of a decimal string.
\<close>

theorem long_token_refused:
  "digits (replicate 4301 CHR ''2'') \<and>
   even (int_of_digits (replicate 4301 CHR ''2'')) \<and>
   0 < int_of_digits (replicate 4301 CHR ''2'') \<and>
   parse_size (replicate 4301 CHR ''2'') = Inl (ValueError (msg_int_limit 4301))"
proof (intro conjI)
  show d: "digits (replicate 4301 CHR ''2'')"
    by (rule digits_replicate) (simp_all add: is_digit_def)
  show "even (int_of_digits (replicate 4301 CHR ''2''))"
    using int_of_twos[of 4301] by simp
  show "0 < int_of_digits (replicate 4301 CHR ''2'')"
    using int_of_twos[of 4301] by simp
  have m: "re_search_size (replicate 4301 CHR ''2'') = Some (replicate 4301 CHR ''2'', None)"
    using search_plain[OF d, of "[]"] by simp
  have l: "py_int (replicate 4301 CHR ''2'') = Inl (ValueError (msg_int_limit 4301))"
    using py_int_limit[of "replicate 4301 CHR ''2''"] by (simp add: int_max_str_digits_def)
  show "parse_size (replicate 4301 CHR ''2'') = Inl (ValueError (msg_int_limit 4301))"
    by (simp add: parse_size_def IconSize_init_def IconSize_extract_def m l)
qed

text \<open>
  Claim C1, amended. Let \<open>N\<close> be a decimal integer. When \<open>N\<close> has at most 4300 digits
  and is even and positive, the tokens \<open>N\<close> and \<open>NxN\<close> parse to size \<open>N\<close> with scale 1,
  and \<open>NxN@S\<close>, for a positive decimal scale \<open>S\<close> of at most 4300 digits, parses to
  size \<open>N\<close> with scale \<open>S\<close>. When \<open>N\<close> has more than 4300 digits the three tokens fail
  with the error of the integer conversion, whatever the number is; so does \<open>NxN@S\<close>
  when \<open>N\<close> has at most 4300 digits and \<open>S\<close> has more. A token \<open>NxM\<close> or \<open>NxM@S\<close>
  whose two sizes are textually different fails with the invalid-specifier error,
  whatever the numbers and their lengths are.
\<close>

theorem parse_size_normalized:
  assumes "digits N"
  shows "(length N \<le> int_max_str_digits \<and> even (int_of_digits N) \<and> 0 < int_of_digits N \<longrightarrow>
            parse_size N = Inr \<lparr>size_px = int_of_digits N, scale = 1\<rparr> \<and>
            parse_size (N @ ''x'' @ N) = Inr \<lparr>size_px = int_of_digits N, scale = 1\<rparr> \<and>
            (digits S \<and> length S \<le> int_max_str_digits \<and> 0 < int_of_digits S \<longrightarrow>
               parse_size (N @ ''x'' @ N @ ''@'' @ S) =
                 Inr \<lparr>size_px = int_of_digits N, scale = int_of_digits S\<rparr>)) \<and>
         (int_max_str_digits < length N \<longrightarrow>
            parse_size N = Inl (ValueError (msg_int_limit (length N))) \<and>
            parse_size (N @ ''x'' @ N) = Inl (ValueError (msg_int_limit (length N))) \<and>
            (digits S \<longrightarrow>
               parse_size (N @ ''x'' @ N @ ''@'' @ S) = Inl (ValueError (msg_int_limit (length N))))) \<and>
         (length N \<le> int_max_str_digits \<and> digits S \<and> int_max_str_digits < length S \<longrightarrow>
            parse_size (N @ ''x'' @ N @ ''@'' @ S) = Inl (ValueError (msg_int_limit (length S)))) \<and>
         (digits M \<and> M \<noteq> N \<longrightarrow>
            parse_size (N @ ''x'' @ M) = Inl (ValueError (msg_invalid_specifier (N @ ''x'' @ M))) \<and>
            parse_size (N @ ''x'' @ M @ ''@'' @ S) =
              Inl (ValueError (msg_invalid_specifier (N @ ''x'' @ M @ ''@'' @ S))))"
proof -
  have plain: "re_search_size N = Some (N, None)"
    using search_plain[OF assms, of "[]"] by simp
  have rep: "re_search_size (N @ ''x'' @ N) = Some (N, None)"
    using search_repeat[OF assms, of "[]"] by simp
  have scaled: "digits S \<Longrightarrow> re_search_size (N @ ''x'' @ N @ ''@'' @ S) = Some (N, Some S)"
    using search_scaled[OF assms, of S "[]"] by simp
  have mis1: "digits M \<Longrightarrow> M \<noteq> N \<Longrightarrow> re_search_size (N @ ''x'' @ M) = None"
    using search_mismatch[OF assms, of M "[]"] by auto
  have mis2: "digits M \<Longrightarrow> M \<noteq> N \<Longrightarrow> re_search_size (N @ ''x'' @ M @ ''@'' @ S) = None"
    using search_mismatch[OF assms, of M "''@'' @ S"] by auto
  show ?thesis
    using plain rep scaled mis1 mis2
    by (auto simp: parse_size_def IconSize_init_def IconSize_extract_def IconSize_validate_def
                   py_int_def)
qed

theorem parse_size_normalized_witness:
  "parse_size ''32'' = Inr \<lparr>size_px = 32, scale = 1\<rparr> \<and>
   parse_size ''32x32'' = Inr \<lparr>size_px = 32, scale = 1\<rparr> \<and>
   parse_size ''32x32@2'' = Inr \<lparr>size_px = 32, scale = 2\<rparr> \<and>
   parse_size ''32x64'' = Inl (ValueError (msg_invalid_specifier ''32x64'')) \<and>
   parse_size (replicate 4302 CHR ''4'') = Inl (ValueError (msg_int_limit 4302)) \<and>
   parse_size (''32x32@'' @ replicate 4302 CHR ''4'') = Inl (ValueError (msg_int_limit 4302))"
proof -
  have d: "digits (replicate 4302 CHR ''4'')"
    by (rule digits_replicate) (simp_all add: is_digit_def)
  have a: "parse_size ''32'' = Inr \<lparr>size_px = 32, scale = 1\<rparr> \<and>
     parse_size ''32x32'' = Inr \<lparr>size_px = 32, scale = 1\<rparr> \<and>
     parse_size ''32x32@2'' = Inr \<lparr>size_px = 32, scale = 2\<rparr> \<and>
     parse_size ''32x64'' = Inl (ValueError (msg_invalid_specifier ''32x64''))"
    using parse_size_normalized [of "''32''" "''2''" "''64''"]
    by (simp add: digits_def is_digit_def int_of_digits_def digit_val_def int_max_str_digits_def)
  have b: "parse_size (replicate 4302 CHR ''4'') = Inl (ValueError (msg_int_limit 4302))"
    using parse_size_normalized [OF d, of "''2''" "''64''"]
    by (simp add: int_max_str_digits_def)
  have c: "parse_size (''32x32@'' @ replicate 4302 CHR ''4'') = Inl (ValueError (msg_int_limit 4302))"
    using parse_size_normalized [of "''32''" "replicate 4302 CHR ''4''" "''64''"] d
    by (simp add: digits_def is_digit_def int_max_str_digits_def)
  show ?thesis
    using a b c by simp
qed

section \<open>Sorting the requested sizes\<close>

lemma mset_insort_lt: "mset (insort_lt lt x ys) = add_mset x (mset ys)"
  by (induction ys) auto

lemma mset_sort_fold:
  "mset (foldl (\<lambda>acc x. insort_lt lt x acc) acc xs) = mset acc + mset xs"
  by (induction xs arbitrary: acc) (auto simp: mset_insort_lt)

lemma mset_list_sort: "mset (list_sort lt xs) = mset xs"
  by (simp add: list_sort_def mset_sort_fold)

lemma set_insort_lt: "set (insort_lt lt x ys) = insert x (set ys)"
  by (induction ys) auto

lemma size_then_scale_trans:
  "size_then_scale a b \<Longrightarrow> size_then_scale b c \<Longrightarrow> size_then_scale a c"
  by (auto simp: size_then_scale_def)

lemma lt_imp_le: "IconSize_lt a b \<Longrightarrow> size_then_scale a b"
  by (auto simp: IconSize_lt_def size_then_scale_def split: if_splits)

lemma not_lt_imp_ge: "\<not> IconSize_lt a b \<Longrightarrow> size_then_scale b a"
  by (auto simp: IconSize_lt_def size_then_scale_def split: if_splits)

lemma size_then_scale_antisym:
  "size_then_scale a b \<Longrightarrow> size_then_scale b a \<Longrightarrow> a = (b :: IconSize)"
  by (auto simp: size_then_scale_def)

lemma sorted_insort_lt:
  "sorted_wrt size_then_scale ys \<Longrightarrow> sorted_wrt size_then_scale (insort_lt IconSize_lt x ys)"
proof (induction ys)
  case Nil
  then show ?case by simp
next
  case (Cons y ys)
  show ?case
  proof (cases "IconSize_lt x y")
    case True
    then have "size_then_scale x y" by (rule lt_imp_le)
    with Cons.prems have "\<forall>z\<in>set (y # ys). size_then_scale x z"
      by (auto intro: size_then_scale_trans)
    with True Cons.prems show ?thesis by simp
  next
    case False
    then have "size_then_scale y x" by (rule not_lt_imp_ge)
    with False Cons show ?thesis by (auto simp: set_insort_lt)
  qed
qed

lemma sorted_sort_fold:
  "sorted_wrt size_then_scale acc \<Longrightarrow>
   sorted_wrt size_then_scale (foldl (\<lambda>acc x. insort_lt IconSize_lt x acc) acc xs)"
  by (induction xs arbitrary: acc) (auto simp: sorted_insort_lt)

lemma sorted_list_sort: "sorted_wrt size_then_scale (list_sort IconSize_lt xs)"
  by (simp add: list_sort_def sorted_sort_fold)

lemma sorted_wrt_unique:
  assumes "sorted_wrt size_then_scale xs" "sorted_wrt size_then_scale ys" "mset xs = mset ys"
  shows "xs = ys"
  using assms
proof (induction xs arbitrary: ys)
  case Nil
  then show ?case by simp
next
  case (Cons x xs)
  then obtain y ys' where ys: "ys = y # ys'"
    by (cases ys) auto
  have "x \<in> set ys" using Cons.prems(3) by (metis list.set_intros(1) mset_eq_setD)
  then have 1: "x = y \<or> size_then_scale y x"
    using Cons.prems(2) ys by auto
  have "y \<in> set (x # xs)" using Cons.prems(3) ys by (metis list.set_intros(1) mset_eq_setD)
  then have 2: "y = x \<or> size_then_scale x y"
    using Cons.prems(1) by auto
  from 1 2 have xy: "x = y" by (auto dest: size_then_scale_antisym)
  with Cons.prems ys have "xs = ys'"
    by (intro Cons.IH) auto
  with xy ys show ?case by simp
qed

lemma list_sort_unique:
  "sorted_wrt size_then_scale ys \<Longrightarrow> mset ys = mset xs \<Longrightarrow> ys = list_sort IconSize_lt xs"
  by (rule sorted_wrt_unique) (simp_all add: sorted_list_sort mset_list_sort)

lemma convert_args_sizes:
  assumes "convert_args_to_settings os svg usage args w out = (Return settings, out')"
  shows "\<exists>raw sizes. parse_args_size (opt_size args) = Inr raw \<and>
           collect convert_raw_size raw = Inr sizes \<and>
           icon_sizes settings = list_sort IconSize_lt sizes"
proof -
  from assms have na: "\<not> total_args args \<le> 0"
    by (simp add: convert_args_to_settings_def split: if_splits)
  then obtain raw where raw: "parse_args_size (opt_size args) = Inr raw"
    using assms by (cases "parse_args_size (opt_size args)") (auto simp: convert_args_to_settings_def)
  obtain sizes where sizes: "collect convert_raw_size raw = Inr sizes"
    using assms na raw
    by (cases "collect convert_raw_size raw")
       (auto simp: convert_args_to_settings_def Let_def split: if_splits option.splits)
  have "icon_sizes settings = list_sort IconSize_lt sizes"
    using assms na raw sizes
    by (auto simp: convert_args_to_settings_def Let_def split: if_splits option.splits)
  with raw sizes show ?thesis by blast
qed

lemma sort_example:
  "list_sort IconSize_lt
     [\<lparr>size_px = 64, scale = 1\<rparr>, \<lparr>size_px = 32, scale = 2\<rparr>, \<lparr>size_px = 32, scale = 1\<rparr>]
     = [\<lparr>size_px = 32, scale = 1\<rparr>, \<lparr>size_px = 32, scale = 2\<rparr>, \<lparr>size_px = 64, scale = 1\<rparr>]"
  by (simp add: list_sort_def IconSize_lt_def)

text \<open>
  Claim C5. Sorting a list of sizes with \<^verbatim>\<open>__lt__\<close> yields a permutation of the list
  that is ordered by size ascending and then by scale ascending; the list
  64x1, 32x2, 32x1 sorts to 32x1, 32x2, 64x1; and the sizes in the settings that
  \<^verbatim>\<open>convert_args_to_settings\<close> returns, which the install loop walks through, are the
  requested sizes sorted in this way.
\<close>

theorem sizes_sorted:
  "sorted_wrt size_then_scale (list_sort IconSize_lt xs) \<and>
   mset (list_sort IconSize_lt xs) = mset xs \<and>
   list_sort IconSize_lt
     [\<lparr>size_px = 64, scale = 1\<rparr>, \<lparr>size_px = 32, scale = 2\<rparr>, \<lparr>size_px = 32, scale = 1\<rparr>]
     = [\<lparr>size_px = 32, scale = 1\<rparr>, \<lparr>size_px = 32, scale = 2\<rparr>, \<lparr>size_px = 64, scale = 1\<rparr>] \<and>
   (convert_args_to_settings os svg usage args w out = (Return settings, out') \<longrightarrow>
      sorted_wrt size_then_scale (icon_sizes settings) \<and>
      (\<exists>raw sizes. parse_args_size (opt_size args) = Inr raw \<and>
           collect convert_raw_size raw = Inr sizes \<and>
           icon_sizes settings = list_sort IconSize_lt sizes))"
proof (intro conjI impI)
  show "sorted_wrt size_then_scale (list_sort IconSize_lt xs)"
    by (rule sorted_list_sort)
  show "mset (list_sort IconSize_lt xs) = mset xs"
    by (rule mset_list_sort)
  show "list_sort IconSize_lt
     [\<lparr>size_px = 64, scale = 1\<rparr>, \<lparr>size_px = 32, scale = 2\<rparr>, \<lparr>size_px = 32, scale = 1\<rparr>]
     = [\<lparr>size_px = 32, scale = 1\<rparr>, \<lparr>size_px = 32, scale = 2\<rparr>, \<lparr>size_px = 64, scale = 1\<rparr>]"
    by (rule sort_example)
next
  assume a: "convert_args_to_settings os svg usage args w out = (Return settings, out')"
  from convert_args_sizes[OF a] obtain raw sizes where
    r: "parse_args_size (opt_size args) = Inr raw" "collect convert_raw_size raw = Inr sizes"
       "icon_sizes settings = list_sort IconSize_lt sizes"
    by blast
  show "sorted_wrt size_then_scale (icon_sizes settings)"
    unfolding r(3) by (rule sorted_list_sort)
  show "\<exists>raw sizes. parse_args_size (opt_size args) = Inr raw \<and>
           collect convert_raw_size raw = Inr sizes \<and>
           icon_sizes settings = list_sort IconSize_lt sizes"
    using r by blast
qed

theorem sizes_sorted_witness:
  "convert_args_to_settings recording_os True [] 
     \<lparr>total_args = 5, opt_discord = True, opt_icon = None, opt_name = None,
        opt_size = Some [''64'', ''32x32@2'', ''32''], opt_simulate = False\<rparr> [] []
     = (Return \<lparr>name = ''vesktop'',
         icon_sizes = [\<lparr>size_px = 32, scale = 1\<rparr>, \<lparr>size_px = 32, scale = 2\<rparr>, \<lparr>size_px = 64, scale = 1\<rparr>],
         simulate = False, use_discord = True, icon_path = None\<rparr>, []) \<and>
   sorted_wrt size_then_scale
     [\<lparr>size_px = 32, scale = 1\<rparr>, \<lparr>size_px = 32, scale = 2\<rparr>, \<lparr>size_px = 64, scale = 1\<rparr>]"
proof -
  have h: "convert_args_to_settings recording_os True [] 
     \<lparr>total_args = 5, opt_discord = True, opt_icon = None, opt_name = None,
        opt_size = Some [''64'', ''32x32@2'', ''32''], opt_simulate = False\<rparr> [] []
     = (Return \<lparr>name = ''vesktop'',
         icon_sizes = [\<lparr>size_px = 32, scale = 1\<rparr>, \<lparr>size_px = 32, scale = 2\<rparr>, \<lparr>size_px = 64, scale = 1\<rparr>],
         simulate = False, use_discord = True, icon_path = None\<rparr>, [])"
    by code_simp
  note s = sizes_sorted[THEN conjunct2, THEN conjunct2, THEN conjunct2, rule_format, OF h, THEN conjunct1]
  have "sorted_wrt size_then_scale
     [\<lparr>size_px = 32, scale = 1\<rparr>, \<lparr>size_px = 32, scale = 2\<rparr>, \<lparr>size_px = 64, scale = 1\<rparr>]"
    using s by (simp only: Settings.simps)
  with h show ?thesis by (rule conjI)
qed

section \<open>Target paths\<close>

lemma split_slash_noslash: "CHR ''/'' \<notin> set a \<Longrightarrow> split_slash a = [a]"
  by (induction a) auto

lemma split_slash_append:
  "CHR ''/'' \<notin> set a \<Longrightarrow> split_slash (a @ CHR ''/'' # b) = a # split_slash b"
  by (induction a) auto

lemma digit_char_digit: "d < 10 \<Longrightarrow> is_digit (digit_char d)"
  unfolding digit_char_def is_digit_def by (rule nth_mem) simp

lemma str_of_nat_digits: "list_all is_digit (str_of_nat n) \<and> str_of_nat n \<noteq> []"
proof (induction n rule: str_of_nat.induct)
  case (1 n)
  show ?case
  proof (cases "n < 10")
    case True
    then have "str_of_nat n = [digit_char n]"
      by (subst str_of_nat.simps) simp
    with True show ?thesis
      by (simp add: digit_char_digit)
  next
    case False
    then have e: "str_of_nat n = str_of_nat (n div 10) @ [digit_char (n mod 10)]"
      by (subst str_of_nat.simps) simp
    have "is_digit (digit_char (n mod 10))"
      by (rule digit_char_digit) simp
    with 1[OF False] show ?thesis
      unfolding e by simp
  qed
qed

lemma not_digit_slash: "\<not> is_digit CHR ''/''" "\<not> is_digit CHR ''.''"
  by (simp_all add: is_digit_def)

lemma str_of_int_chars:
  "CHR ''/'' \<notin> set (str_of_int i)" "str_of_int i \<noteq> []" "hd (str_of_int i) \<noteq> CHR ''.''"
proof -
  have a: "\<And>n. CHR ''/'' \<notin> set (str_of_nat n)"
    using str_of_nat_digits not_digit_slash(1) by (auto simp: list_all_iff)
  have b: "\<And>n. hd (str_of_nat n) \<noteq> CHR ''.''"
  proof -
    fix n
    have "is_digit (hd (str_of_nat n))"
      using str_of_nat_digits[of n] by (cases "str_of_nat n") auto
    then show "hd (str_of_nat n) \<noteq> CHR ''.''"
      using not_digit_slash(2) by auto
  qed
  show "CHR ''/'' \<notin> set (str_of_int i)"
    using a by (simp add: str_of_int_def)
  show "str_of_int i \<noteq> []"
    using str_of_nat_digits by (simp add: str_of_int_def)
  show "hd (str_of_int i) \<noteq> CHR ''.''"
    using b by (simp add: str_of_int_def)
qed

lemma get_name_chars:
  "CHR ''/'' \<notin> set (get_name s)" "get_name s \<noteq> []" "get_name s \<noteq> ''.''"
proof -
  show "CHR ''/'' \<notin> set (get_name s)"
    using str_of_int_chars(1)[of "size_px s"] str_of_int_chars(1)[of "scale s"]
    by (simp add: get_name_def)
  show "get_name s \<noteq> []"
    using str_of_int_chars(2)[of "size_px s"] by (simp add: get_name_def)
  have "hd (get_name s) = hd (str_of_int (size_px s))"
    using str_of_int_chars(2)[of "size_px s"] by (simp add: get_name_def)
  then have "hd (get_name s) \<noteq> CHR ''.''"
    using str_of_int_chars(3)[of "size_px s"] by simp
  then show "get_name s \<noteq> ''.''"
    by auto
qed

lemma splitroot_relative: "take 1 s \<noteq> ''/'' \<Longrightarrow> splitroot s = ([], s)"
  by (simp add: splitroot_def)

lemma Path_relative: "take 1 s \<noteq> ''/'' \<Longrightarrow> root (Path s) = []"
  by (simp add: Path_def splitroot_relative)

lemma joinpath_relative:
  "take 1 s \<noteq> ''/'' \<Longrightarrow> joinpath p s = \<lparr>root = root p, tail = tail p @ tail (Path s)\<rparr>"
  by (simp add: joinpath_def Let_def Path_relative)

lemma take1_not_slash: "CHR ''/'' \<notin> set (a @ b) \<Longrightarrow> take 1 (a @ b @ c) \<noteq> ''/'' \<or> a @ b = []"
  by (cases a; cases b) auto

lemma Path_size_dir:
  assumes "CHR ''/'' \<notin> set g" "g \<noteq> []" "g \<noteq> ''.''"
  shows "Path (g @ ''/'' @ icon_context) = \<lparr>root = [], tail = [g, ''apps'']\<rparr>"
proof -
  obtain c g' where g: "g = c # g'" "c \<noteq> CHR ''/''"
    using assms(1,2) by (cases g) auto
  then have "take 1 (g @ ''/'' @ icon_context) \<noteq> ''/''"
    by simp
  then have sr: "splitroot (g @ ''/'' @ icon_context) = ([], g @ ''/'' @ icon_context)"
    by (rule splitroot_relative)
  have "split_slash ''apps'' = [''apps'']"
    by (rule split_slash_noslash) simp
  then have ss: "split_slash (g @ CHR ''/'' # icon_context) = [g, ''apps'']"
    using split_slash_append[OF assms(1), of "''apps''"] by (simp add: icon_context_def)
  show ?thesis
    unfolding Path_def sr using assms(2,3) by (simp add: ss)
qed

lemma Path_file_name:
  assumes "CHR ''/'' \<notin> set nm"
  shows "Path (nm @ ''.png'') = \<lparr>root = [], tail = [nm @ ''.png'']\<rparr>"
proof -
  have "take 1 (nm @ ''.png'') \<noteq> ''/''"
    using assms by (cases nm) auto
  then have sr: "splitroot (nm @ ''.png'') = ([], nm @ ''.png'')"
    by (rule splitroot_relative)
  have ss: "split_slash (nm @ ''.png'') = [nm @ ''.png'']"
    using assms by (intro split_slash_noslash) auto
  have ne: "nm @ ''.png'' \<noteq> ''.''"
    by (cases nm) auto
  show ?thesis
    unfolding Path_def sr using ne by (simp add: ss)
qed

lemma take1_append: "take 1 nm \<noteq> ''/'' \<Longrightarrow> take 1 (nm @ ''.png'') \<noteq> ''/''"
  by (cases nm) auto

lemma icon_theme_dir_parts:
  "icon_theme_dir env = \<lparr>root = root (get_xdg_data_home env),
                           tail = tail (get_xdg_data_home env) @ [''icons'', ''hicolor'']\<rparr>"
proof -
  have "Path ''icons/hicolor'' = \<lparr>root = [], tail = [''icons'', ''hicolor'']\<rparr>"
    by code_simp
  then show ?thesis
    by (simp add: icon_theme_dir_def icon_theme_name_def joinpath_def Let_def)
qed

lemma get_xdg_data_home_cases:
  "get_xdg_data_home env =
     (if XDG_DATA_HOME env = None \<or> XDG_DATA_HOME env = Some []
      then \<lparr>root = root (home env), tail = tail (home env) @ [''.local'', ''share'']\<rparr>
      else Path (the (XDG_DATA_HOME env)))"
proof -
  have "Path ''.local/share'' = \<lparr>root = [], tail = [''.local'', ''share'']\<rparr>"
    by code_simp
  then have "joinpath (home env) ''.local/share'' =
      \<lparr>root = root (home env), tail = tail (home env) @ [''.local'', ''share'']\<rparr>"
    by (simp add: joinpath_def Let_def)
  then show ?thesis
    by (simp add: get_xdg_data_home_def split: option.splits)
qed

lemma icon_parent_dir_parts:
  "icon_parent_dir theme_dir sz = \<lparr>root = root theme_dir, tail = tail theme_dir @ [get_name sz, ''apps'']\<rparr>"
  using Path_size_dir[OF get_name_chars, of sz]
  by (simp add: icon_parent_dir_def joinpath_def Let_def)

lemma icon_target_file_parts:
  assumes "take 1 nm \<noteq> ''/''"
  shows "icon_target_file theme_dir nm sz =
           \<lparr>root = root theme_dir,
            tail = tail theme_dir @ [get_name sz, ''apps''] @ tail (Path (nm @ ''.png''))\<rparr>"
  using joinpath_relative[OF take1_append[OF assms], of "icon_parent_dir theme_dir sz"]
  by (simp add: icon_target_file_def icon_parent_dir_parts)

lemma join_with_snoc:
  "xs \<noteq> [] \<Longrightarrow> join_with sep (xs @ [y]) = join_with sep xs @ sep @ y"
  by (induction sep xs rule: join_with.induct) auto

lemma path_str_snoc:
  "tail p \<noteq> [] \<Longrightarrow> path_str \<lparr>root = root p, tail = tail p @ [y]\<rparr> = path_str p @ ''/'' @ y"
  by (simp add: path_str_def join_with_snoc)

lemma path_str_snoc3:
  assumes "tail p \<noteq> []"
  shows "path_str \<lparr>root = root p, tail = tail p @ [a, b, c]\<rparr> = path_str p @ ''/'' @ a @ ''/'' @ b @ ''/'' @ c"
proof -
  have "path_str \<lparr>root = root p, tail = (tail p @ [a, b]) @ [c]\<rparr>
          = path_str \<lparr>root = root p, tail = tail p @ [a, b]\<rparr> @ ''/'' @ c"
    using path_str_snoc[of "\<lparr>root = root p, tail = tail p @ [a, b]\<rparr>" c] by simp
  moreover have "path_str \<lparr>root = root p, tail = (tail p @ [a]) @ [b]\<rparr>
          = path_str \<lparr>root = root p, tail = tail p @ [a]\<rparr> @ ''/'' @ b"
    using path_str_snoc[of "\<lparr>root = root p, tail = tail p @ [a]\<rparr>" b] by simp
  moreover note path_str_snoc[OF assms, of a]
  ultimately show ?thesis by simp
qed

lemma icon_target_file_str:
  assumes "CHR ''/'' \<notin> set nm" "tail theme_dir \<noteq> []"
  shows "path_str (icon_target_file theme_dir nm sz)
           = path_str theme_dir @ ''/'' @ get_name sz @ ''/apps/'' @ nm @ ''.png''"
proof -
  have "take 1 nm \<noteq> ''/''" using assms(1) by (cases nm) auto
  from icon_target_file_parts[OF this, of theme_dir sz] Path_file_name[OF assms(1)]
  have "icon_target_file theme_dir nm sz =
          \<lparr>root = root theme_dir, tail = tail theme_dir @ [get_name sz, ''apps'', nm @ ''.png'']\<rparr>"
    by simp
  then show ?thesis
    using path_str_snoc3[OF assms(2), of "get_name sz" "''apps''" "nm @ ''.png''"] by simp
qed

lemma install_one_returns:
  assumes "install_one os lib settings theme sz icon st = (Return t, icon', st')"
  shows "t = icon_target_file theme (name settings) sz"
    and "stdout st' = stdout st @ [target_line theme (name settings) sz]"
proof -
  obtain res icon1 where rs: "resize_image_as_copy lib icon sz None = (res, icon1)"
    by (cases "resize_image_as_copy lib icon sz None")
  with assms obtain scaled where res: "res = Inr scaled"
    by (cases res) (simp_all add: install_one_def)
  show "t = icon_target_file theme (name settings) sz"
    using assms rs res
    by (simp add: install_one_def Let_def split: if_splits prod.splits option.splits)
  show "stdout st' = stdout st @ [target_line theme (name settings) sz]"
    using assms rs res
    by (auto simp: install_one_def Let_def print_line_def target_line_def
             split: if_splits prod.splits option.splits)
qed

lemma install_one_simulate:
  assumes "simulate settings"
  shows "world (snd (snd (install_one os lib settings theme sz icon st))) = world st"
proof -
  obtain res icon1 where rs: "resize_image_as_copy lib icon sz None = (res, icon1)"
    by (cases "resize_image_as_copy lib icon sz None")
  show ?thesis
    using assms rs by (cases res) (simp_all add: install_one_def Let_def)
qed

lemma install_icons_returns:
  "install_icons os lib settings theme sizes icon inst st = (Return r, st') \<Longrightarrow>
     r = inst @ map (icon_target_file theme (name settings)) sizes \<and>
     stdout st' = stdout st @ map (target_line theme (name settings)) sizes"
proof (induction sizes arbitrary: icon inst st)
  case Nil
  then show ?case by simp
next
  case (Cons sz rest)
  obtain c icon1 st1 where one: "install_one os lib settings theme sz icon st = (c, icon1, st1)"
    by (cases "install_one os lib settings theme sz icon st")
  with Cons.prems obtain t where c: "c = Return t"
    by (cases c) simp_all
  from Cons.prems one c have
    "install_icons os lib settings theme rest icon1 (inst @ [t]) st1 = (Return r, st')"
    by simp
  from Cons.IH[OF this] install_one_returns[OF one[unfolded c]] show ?case
    by simp
qed

lemma install_icons_simulate_world:
  "simulate settings \<Longrightarrow>
   world (snd (install_icons os lib settings theme sizes icon inst st)) = world st"
proof (induction sizes arbitrary: icon inst st)
  case Nil
  then show ?case by simp
next
  case (Cons sz rest)
  obtain c icon1 st1 where one: "install_one os lib settings theme sz icon st = (c, icon1, st1)"
    by (cases "install_one os lib settings theme sz icon st")
  have w: "world st1 = world st"
    using install_one_simulate[OF Cons.prems, of os lib theme sz icon st] one by simp
  show ?case
    using one w Cons.IH[OF Cons.prems, of icon1 _ st1] by (cases c) simp_all
qed

lemma scenario_sizes:
  "collect parse_size [''32'', ''64x64@2'']
     = Inr [\<lparr>size_px = 32, scale = 1\<rparr>, \<lparr>size_px = 64, scale = 2\<rparr>]"
  "list_sort IconSize_lt [\<lparr>size_px = 32, scale = 1\<rparr>, \<lparr>size_px = 64, scale = 2\<rparr>]
     = [\<lparr>size_px = 32, scale = 1\<rparr>, \<lparr>size_px = 64, scale = 2\<rparr>]"
  "get_name \<lparr>size_px = 32, scale = 1\<rparr> = ''32x32''"
  "get_name \<lparr>size_px = 64, scale = 2\<rparr> = ''64x64@2''"
  by code_simp+

lemma icon_theme_dir_tail: "tail (icon_theme_dir env) \<noteq> []"
  by (simp add: icon_theme_dir_parts)

text \<open>
  Claim C6, amended. For a target name that does not begin with a slash, the target
  file of every size is the theme root followed by the components \<open>WxH[@S]\<close>,
  \<open>apps\<close> and those of \<open>name.png\<close>, where the theme root is the XDG data home
  (\<open>XDG_DATA_HOME\<close> when it is set and not empty, else \<open>.local/share\<close> under the
  home directory) followed by \<open>icons/hicolor\<close>; for a name without any slash its
  text is \<open>root/WxH[@S]/apps/name.png\<close>. The install loop, when it returns,
  has printed one line for each size, in the order of the list, and the sizes
  \<open>32\<close> and \<open>64x64@2\<close> with the name \<open>testapp\<close> give the two lines ending in
  \<open>/32x32/apps/testapp.png\<close> and \<open>/64x64@2/apps/testapp.png\<close>.
\<close>

theorem target_path_layout:
  "(take 1 nm \<noteq> ''/'' \<longrightarrow>
      icon_target_file (icon_theme_dir env) nm sz =
        \<lparr>root = root (get_xdg_data_home env),
         tail = tail (get_xdg_data_home env) @ [''icons'', ''hicolor'', get_name sz, ''apps'']
                  @ tail (Path (nm @ ''.png''))\<rparr>) \<and>
   (CHR ''/'' \<notin> set nm \<longrightarrow>
      path_str (icon_target_file (icon_theme_dir env) nm sz) =
        path_str (icon_theme_dir env) @ ''/'' @ get_name sz @ ''/apps/'' @ nm @ ''.png'') \<and>
   get_xdg_data_home env =
     (if XDG_DATA_HOME env = None \<or> XDG_DATA_HOME env = Some []
      then \<lparr>root = root (home env), tail = tail (home env) @ [''.local'', ''share'']\<rparr>
      else Path (the (XDG_DATA_HOME env))) \<and>
   (install_icons os lib settings theme sizes icon inst st = (Return r, st') \<longrightarrow>
      r = inst @ map (icon_target_file theme (name settings)) sizes \<and>
      stdout st' = stdout st @ map (target_line theme (name settings)) sizes) \<and>
   collect parse_size [''32'', ''64x64@2'']
     = Inr [\<lparr>size_px = 32, scale = 1\<rparr>, \<lparr>size_px = 64, scale = 2\<rparr>] \<and>
   map (target_line (icon_theme_dir env) ''testapp'')
       (list_sort IconSize_lt [\<lparr>size_px = 32, scale = 1\<rparr>, \<lparr>size_px = 64, scale = 2\<rparr>])
     = [''- '' @ dq @ path_str (icon_theme_dir env) @ ''/32x32/apps/testapp.png'' @ dq @ nl,
        ''- '' @ dq @ path_str (icon_theme_dir env) @ ''/64x64@2/apps/testapp.png'' @ dq @ nl]"
proof (intro conjI impI)
  assume a: "take 1 nm \<noteq> ''/''"
  show "icon_target_file (icon_theme_dir env) nm sz =
        \<lparr>root = root (get_xdg_data_home env),
         tail = tail (get_xdg_data_home env) @ [''icons'', ''hicolor'', get_name sz, ''apps'']
                  @ tail (Path (nm @ ''.png''))\<rparr>"
    using icon_target_file_parts[OF a, of "icon_theme_dir env" sz]
    by (simp add: icon_theme_dir_parts)
next
  assume "CHR ''/'' \<notin> set nm"
  then show "path_str (icon_target_file (icon_theme_dir env) nm sz) =
        path_str (icon_theme_dir env) @ ''/'' @ get_name sz @ ''/apps/'' @ nm @ ''.png''"
    by (rule icon_target_file_str) (rule icon_theme_dir_tail)
next
  show "get_xdg_data_home env =
     (if XDG_DATA_HOME env = None \<or> XDG_DATA_HOME env = Some []
      then \<lparr>root = root (home env), tail = tail (home env) @ [''.local'', ''share'']\<rparr>
      else Path (the (XDG_DATA_HOME env)))"
    by (rule get_xdg_data_home_cases)
next
  assume a: "install_icons os lib settings theme sizes icon inst st = (Return r, st')"
  show "r = inst @ map (icon_target_file theme (name settings)) sizes"
    using install_icons_returns[OF a] by (rule conjunct1)
  show "stdout st' = stdout st @ map (target_line theme (name settings)) sizes"
    using install_icons_returns[OF a] by (rule conjunct2)
next
  show "collect parse_size [''32'', ''64x64@2'']
     = Inr [\<lparr>size_px = 32, scale = 1\<rparr>, \<lparr>size_px = 64, scale = 2\<rparr>]"
    by (rule scenario_sizes)
next
  have n: "CHR ''/'' \<notin> set ''testapp''" by simp
  have "path_str (icon_target_file (icon_theme_dir env) ''testapp'' \<lparr>size_px = 32, scale = 1\<rparr>)
          = path_str (icon_theme_dir env) @ ''/32x32/apps/testapp.png''"
    using icon_target_file_str[OF n icon_theme_dir_tail, of env "\<lparr>size_px = 32, scale = 1\<rparr>"]
    by (simp add: scenario_sizes)
  moreover have "path_str (icon_target_file (icon_theme_dir env) ''testapp'' \<lparr>size_px = 64, scale = 2\<rparr>)
          = path_str (icon_theme_dir env) @ ''/64x64@2/apps/testapp.png''"
    using icon_target_file_str[OF n icon_theme_dir_tail, of env "\<lparr>size_px = 64, scale = 2\<rparr>"]
    by (simp add: scenario_sizes)
  ultimately show "map (target_line (icon_theme_dir env) ''testapp'')
       (list_sort IconSize_lt [\<lparr>size_px = 32, scale = 1\<rparr>, \<lparr>size_px = 64, scale = 2\<rparr>])
     = [''- '' @ dq @ path_str (icon_theme_dir env) @ ''/32x32/apps/testapp.png'' @ dq @ nl,
        ''- '' @ dq @ path_str (icon_theme_dir env) @ ''/64x64@2/apps/testapp.png'' @ dq @ nl]"
    by (simp add: scenario_sizes target_line_def)
qed

text \<open>
  Claim C6 as stated fails for a name that begins with a slash, which the settings
  accept: joining replaces the whole path, and the target \<open>/x.png\<close> lies outside the
  theme root.
\<close>

theorem target_path_absolute_name:
  "path_str (icon_target_file (icon_theme_dir \<lparr>XDG_DATA_HOME = None, home = Path ''/home/u''\<rparr>)
               ''/x'' \<lparr>size_px = 32, scale = 1\<rparr>) = ''/x.png'' \<and>
   path_str (icon_theme_dir \<lparr>XDG_DATA_HOME = None, home = Path ''/home/u''\<rparr>)
     = ''/home/u/.local/share/icons/hicolor'' \<and>
   convert_args_to_settings recording_os True []
     \<lparr>total_args = 4, opt_discord = True, opt_icon = None, opt_name = Some ''/x'',
      opt_size = Some [''32''], opt_simulate = False\<rparr> [] []
     = (Return \<lparr>name = ''/x'', icon_sizes = [\<lparr>size_px = 32, scale = 1\<rparr>], simulate = False,
                use_discord = True, icon_path = None\<rparr>, [])"
  by code_simp

theorem target_path_layout_witness:
  "take 1 ''testapp'' \<noteq> ''/'' \<and> CHR ''/'' \<notin> set ''testapp'' \<and>
   install_icons recording_os (fixed_imagelib 32 32)
       \<lparr>name = ''testapp'', icon_sizes = [\<lparr>size_px = 32, scale = 1\<rparr>], simulate = True,
        use_discord = False, icon_path = None\<rparr>
       (Path ''/t'') [\<lparr>size_px = 32, scale = 1\<rparr>]
       \<lparr>ident = ''i'', path = None, raw_bytes = None,
        img = Some \<lparr>width = 32, height = 32, pixels = []\<rparr>,
        memo_path_suffix = None, memo_is_svg = None\<rparr>
       [] \<lparr>stdout = [], world = []\<rparr>
     = (Return [Path ''/t/32x32/apps/testapp.png''],
        \<lparr>stdout = [''- '' @ dq @ ''/t/32x32/apps/testapp.png'' @ dq @ nl], world = []\<rparr>) \<and>
   icon_target_file (icon_theme_dir \<lparr>XDG_DATA_HOME = None, home = Path ''/home/u''\<rparr>) ''testapp''
       \<lparr>size_px = 32, scale = 1\<rparr>
     = \<lparr>root = root (get_xdg_data_home \<lparr>XDG_DATA_HOME = None, home = Path ''/home/u''\<rparr>),
        tail = tail (get_xdg_data_home \<lparr>XDG_DATA_HOME = None, home = Path ''/home/u''\<rparr>)
                 @ [''icons'', ''hicolor'', get_name \<lparr>size_px = 32, scale = 1\<rparr>, ''apps'']
                 @ tail (Path (''testapp'' @ ''.png''))\<rparr> \<and>
   path_str (icon_target_file (icon_theme_dir \<lparr>XDG_DATA_HOME = None, home = Path ''/home/u''\<rparr>)
               ''testapp'' \<lparr>size_px = 32, scale = 1\<rparr>)
     = path_str (icon_theme_dir \<lparr>XDG_DATA_HOME = None, home = Path ''/home/u''\<rparr>)
         @ ''/'' @ get_name \<lparr>size_px = 32, scale = 1\<rparr> @ ''/apps/'' @ ''testapp'' @ ''.png'' \<and>
   [Path ''/t/32x32/apps/testapp.png'']
     = [] @ map (icon_target_file (Path ''/t'')
                  (name \<lparr>name = ''testapp'', icon_sizes = [\<lparr>size_px = 32, scale = 1\<rparr>],
                         simulate = True, use_discord = False, icon_path = None\<rparr>))
              [\<lparr>size_px = 32, scale = 1\<rparr>]"
proof -
  have h1: "take 1 ''testapp'' \<noteq> ''/''" by simp
  have h2: "CHR ''/'' \<notin> set ''testapp''" by simp
  have h3: "install_icons recording_os (fixed_imagelib 32 32)
       \<lparr>name = ''testapp'', icon_sizes = [\<lparr>size_px = 32, scale = 1\<rparr>], simulate = True,
        use_discord = False, icon_path = None\<rparr>
       (Path ''/t'') [\<lparr>size_px = 32, scale = 1\<rparr>]
       \<lparr>ident = ''i'', path = None, raw_bytes = None,
        img = Some \<lparr>width = 32, height = 32, pixels = []\<rparr>,
        memo_path_suffix = None, memo_is_svg = None\<rparr>
       [] \<lparr>stdout = [], world = []\<rparr>
     = (Return [Path ''/t/32x32/apps/testapp.png''],
        \<lparr>stdout = [''- '' @ dq @ ''/t/32x32/apps/testapp.png'' @ dq @ nl], world = []\<rparr>)"
    by code_simp
  note a = target_path_layout[THEN conjunct1, rule_format, OF h1]
  note b = target_path_layout[THEN conjunct2, THEN conjunct1, rule_format, OF h2]
  note d = target_path_layout[THEN conjunct2, THEN conjunct2, THEN conjunct2, THEN conjunct1,
             rule_format, OF h3, THEN conjunct1]
  show ?thesis
    by (intro conjI) (rule h1 h2 h3 a b d)+
qed

section \<open>The image source\<close>

lemma is_svg_memo: "memo_is_svg self = Some b \<Longrightarrow> is_svg self = (b, self)"
  by (simp add: is_svg_def)

lemma is_svg_path:
  assumes "path self = Some p" "memo_is_svg self = None" "memo_path_suffix self = None"
  shows "is_svg self =
           (get_file_suffix p = ''.svg'',
            self\<lparr>memo_path_suffix := Some (get_file_suffix p),
                 memo_is_svg := Some (get_file_suffix p = ''.svg'')\<rparr>)"
  using assms by (simp add: is_svg_def IconImage_get_file_suffix_def Let_def)

lemma is_svg_sniff:
  assumes "path self = None" "memo_is_svg self = None" "raw_bytes self = Some rb"
  shows "is_svg self =
           (sublist ''<svg'' (take 4096 (buf rb)),
            self\<lparr>raw_bytes := Some \<lparr>buf = buf rb, pos = min 4096 (length (buf rb))\<rparr>,
                 memo_is_svg := Some (sublist ''<svg'' (take 4096 (buf rb)))\<rparr>)"
  using assms
  by (simp add: is_svg_def rewind_raw_bytes_def bio_seek_def bio_read_def Let_def min_def)


text \<open>What a call of \<open>is_svg\<close> leaves behind.\<close>

lemma is_svg_result:
  assumes "is_svg self = (b, s1)"
  shows "memo_is_svg s1 = Some b" "path s1 = path self" "img s1 = img self" "ident s1 = ident self"
    "path self \<noteq> None \<or> memo_is_svg self \<noteq> None \<or> raw_bytes self = None
       \<Longrightarrow> raw_bytes s1 = raw_bytes self"
  using assms
  by (auto simp: is_svg_def IconImage_get_file_suffix_def rewind_raw_bytes_def Let_def
           split: option.splits if_splits prod.splits)

lemma is_svg_twice: "is_svg self = (b, s1) \<Longrightarrow> is_svg s1 = (b, s1)"
  using is_svg_result(1) is_svg_memo by blast

lemma load_bytes_ok:
  assumes "load_bytes_from_path os w self = (Inr u, s1)"
  shows "\<exists>p content. path self = Some p \<and> os_read_bytes os p w = Inr content \<and>
           s1 = self\<lparr>raw_bytes := Some (BytesIO_new content)\<rparr>"
  using assms by (auto simp: load_bytes_from_path_def split: option.splits sum.splits)

lemma load_bytes_err:
  assumes "load_bytes_from_path os w self = (Inl e, s1)"
  shows "(\<exists>p. os_read_bytes os p w = Inl e) \<or> (\<exists>m. e = Exception m)"
  using assms by (auto simp: load_bytes_from_path_def split: option.splits sum.splits)

lemma load_image_ok:
  assumes "load_image_from_bytes lib self = (Inr u, s1)"
  shows "memo_is_svg s1 = Some False" "img s1 \<noteq> None" "path s1 = path self"
proof -
  obtain b s0 where sv: "is_svg self = (b, s0)" by (cases "is_svg self")
  note r = is_svg_result[OF sv]
  from assms sv have nb: "\<not> b"
    by (auto simp: load_image_from_bytes_def split: if_splits)
  from assms sv nb obtain rb where rb: "raw_bytes s0 = Some rb"
    by (cases "raw_bytes s0") (auto simp: load_image_from_bytes_def)
  obtain res rb' where op: "image_open lib (bio_seek 0 rb) = (res, rb')"
    by (cases "image_open lib (bio_seek 0 rb)")
  from assms sv nb rb op obtain im where im: "res = Inr im"
    by (cases res) (auto simp: load_image_from_bytes_def)
  from assms sv nb rb op im have s1: "s1 = s0\<lparr>raw_bytes := Some rb', img := Some im\<rparr>"
    by (auto simp: load_image_from_bytes_def)
  show "memo_is_svg s1 = Some False" using s1 r(1) nb by simp
  show "img s1 \<noteq> None" using s1 by simp
  show "path s1 = path self" using s1 r(2) by simp
qed

lemma load_image_err:
  assumes "load_image_from_bytes lib self = (Inl e, s1)"
  shows "(\<exists>b. fst (image_open lib b) = Inl e) \<or> (\<exists>m. e = Exception m)"
proof -
  obtain b s0 where sv: "is_svg self = (b, s0)" by (cases "is_svg self")
  show ?thesis
  proof (cases "b \<or> raw_bytes s0 = None")
    case True
    with assms sv show ?thesis
      by (auto simp: load_image_from_bytes_def split: if_splits option.splits)
  next
    case False
    then obtain rb where rb: "raw_bytes s0 = Some rb" "\<not> b" by auto
    obtain res rb' where op: "image_open lib (bio_seek 0 rb) = (res, rb')"
      by (cases "image_open lib (bio_seek 0 rb)")
    from assms sv rb op have "res = Inl e"
      by (cases res) (auto simp: load_image_from_bytes_def)
    with op have "fst (image_open lib (bio_seek 0 rb)) = Inl e" by simp
    then show ?thesis by blast
  qed
qed

lemma input_count_cases:
  "input_count self \<noteq> 1 \<longleftrightarrow>
     (path self = None \<and> raw_bytes self = None \<and> img self = None) \<or>
     (path self \<noteq> None \<and> raw_bytes self \<noteq> None) \<or>
     (path self \<noteq> None \<and> img self \<noteq> None) \<or>
     (raw_bytes self \<noteq> None \<and> img self \<noteq> None)"
  by (auto simp: input_count_def)

lemma msg_differs:
  "ValueError ''You have provided an empty raw_bytes image buffer.'' \<noteq> ValueError msg_exactly_one"
  by (simp add: msg_exactly_one_def)

lemma post_init_steps:
  "post_init os lib w self =
     (if input_count self \<noteq> 1 then Inl (ValueError msg_exactly_one)
      else (case post_step1 os w self of
              (Inl e, s1) \<Rightarrow> Inl e
            | (Inr u, s1) \<Rightarrow>
                (case post_step2 lib s1 of
                   (Inl e, s3) \<Rightarrow> Inl e
                 | (Inr u, s3) \<Rightarrow> post_step3 s3)))"
  by (rule post_init_def)

lemma post_step1_err:
  "post_step1 os w self = (Inl e, s1) \<Longrightarrow>
     (\<exists>p. os_read_bytes os p w = Inl e) \<or> (\<exists>m. e = Exception m)"
  by (auto simp: post_step1_def dest: load_bytes_err split: if_splits)

lemma post_step2_err:
  assumes "post_step2 lib s1 = (Inl e, s3)"
  shows "(\<exists>b. fst (image_open lib b) = Inl e) \<or> (\<exists>m. e = Exception m)"
proof -
  obtain b s2 where sv: "is_svg s1 = (b, s2)" by (cases "is_svg s1")
  from assms sv have "load_image_from_bytes lib s2 = (Inl e, s3)"
    by (auto simp: post_step2_def split: if_splits)
  then show ?thesis by (rule load_image_err)
qed

lemma post_step3_err: "post_step3 s3 = Inl e \<Longrightarrow> e \<noteq> ValueError msg_exactly_one"
  by (auto simp: post_step3_def msg_exactly_one_def split: option.splits if_splits)

text \<open>
  Claim C8. The constructor raises its construction error when the number of inputs
  given among path, raw bytes and decoded image is not one, that is when none or more
  than one is given; with exactly one input it does not raise that error (the
  operating system and the image library not raising it themselves).
\<close>

theorem exactly_one_input:
  "(input_count self \<noteq> 1 \<longrightarrow> post_init os lib w self = Inl (ValueError msg_exactly_one)) \<and>
   (input_count self \<noteq> 1 \<longleftrightarrow>
      (path self = None \<and> raw_bytes self = None \<and> img self = None) \<or>
      (path self \<noteq> None \<and> raw_bytes self \<noteq> None) \<or>
      (path self \<noteq> None \<and> img self \<noteq> None) \<or>
      (raw_bytes self \<noteq> None \<and> img self \<noteq> None)) \<and>
   (input_count self = 1 \<and>
    (\<forall>p. os_read_bytes os p w \<noteq> Inl (ValueError msg_exactly_one)) \<and>
    (\<forall>b. fst (image_open lib b) \<noteq> Inl (ValueError msg_exactly_one)) \<longrightarrow>
      post_init os lib w self \<noteq> Inl (ValueError msg_exactly_one))"
proof (intro conjI impI)
  assume "input_count self \<noteq> 1"
  then show "post_init os lib w self = Inl (ValueError msg_exactly_one)"
    by (simp add: post_init_steps)
next
  show "input_count self \<noteq> 1 \<longleftrightarrow>
      (path self = None \<and> raw_bytes self = None \<and> img self = None) \<or>
      (path self \<noteq> None \<and> raw_bytes self \<noteq> None) \<or>
      (path self \<noteq> None \<and> img self \<noteq> None) \<or>
      (raw_bytes self \<noteq> None \<and> img self \<noteq> None)"
    by (rule input_count_cases)
next
  assume a: "input_count self = 1 \<and>
    (\<forall>p. os_read_bytes os p w \<noteq> Inl (ValueError msg_exactly_one)) \<and>
    (\<forall>b. fst (image_open lib b) \<noteq> Inl (ValueError msg_exactly_one))"
  show "post_init os lib w self \<noteq> Inl (ValueError msg_exactly_one)"
  proof
    assume eq: "post_init os lib w self = Inl (ValueError msg_exactly_one)"
    obtain r1 s1 where s1: "post_step1 os w self = (r1, s1)" by (cases "post_step1 os w self")
    show False
    proof (cases r1)
      case (Inl e)
      with eq a s1 have "e = ValueError msg_exactly_one"
        by (simp add: post_init_steps)
      with post_step1_err[OF s1[unfolded Inl]] a show False by auto
    next
      case (Inr u)
      obtain r2 s3 where s3: "post_step2 lib s1 = (r2, s3)" by (cases "post_step2 lib s1")
      show False
      proof (cases r2)
        case (Inl e)
        with eq a s1 s3 Inr have "e = ValueError msg_exactly_one"
          by (simp add: post_init_steps)
        with post_step2_err[OF s3[unfolded Inl]] a show False by auto
      next
        case (Inr u2)
        with eq a s1 s3 \<open>r1 = Inr u\<close> have "post_step3 s3 = Inl (ValueError msg_exactly_one)"
          by (simp add: post_init_steps)
        from post_step3_err[OF this] show False by simp
      qed
    qed
  qed
qed

theorem exactly_one_input_witness:
  "input_count \<lparr>ident = ''i'', path = Some (Path ''a.png''), raw_bytes = None,
                 img = Some \<lparr>width = 1, height = 1, pixels = []\<rparr>,
                 memo_path_suffix = None, memo_is_svg = None\<rparr> \<noteq> 1 \<and>
   post_init recording_os (fixed_imagelib 1 1) []
       \<lparr>ident = ''i'', path = Some (Path ''a.png''), raw_bytes = None,
        img = Some \<lparr>width = 1, height = 1, pixels = []\<rparr>,
        memo_path_suffix = None, memo_is_svg = None\<rparr>
     = Inl (ValueError msg_exactly_one) \<and>
   input_count \<lparr>ident = ''i'', path = Some (Path ''a.png''), raw_bytes = None, img = None,
                 memo_path_suffix = None, memo_is_svg = None\<rparr> = 1 \<and>
   post_init recording_os (fixed_imagelib 1 1) []
       \<lparr>ident = ''i'', path = Some (Path ''a.png''), raw_bytes = None, img = None,
        memo_path_suffix = None, memo_is_svg = None\<rparr>
     \<noteq> Inl (ValueError msg_exactly_one)"
proof -
  have h1: "input_count \<lparr>ident = ''i'', path = Some (Path ''a.png''), raw_bytes = None,
                 img = Some \<lparr>width = 1, height = 1, pixels = []\<rparr>,
                 memo_path_suffix = None, memo_is_svg = None\<rparr> \<noteq> 1"
    by (simp add: input_count_def)
  have h2: "input_count \<lparr>ident = ''i'', path = Some (Path ''a.png''), raw_bytes = None, img = None,
                 memo_path_suffix = None, memo_is_svg = None\<rparr> = 1 \<and>
    (\<forall>p. os_read_bytes recording_os p [] \<noteq> Inl (ValueError msg_exactly_one)) \<and>
    (\<forall>b. fst (image_open (fixed_imagelib 1 1) b) \<noteq> Inl (ValueError msg_exactly_one))"
    by (simp add: input_count_def recording_os_def fixed_imagelib_def)
  note a = exactly_one_input[THEN conjunct1, rule_format, OF h1]
  note b = exactly_one_input[THEN conjunct2, THEN conjunct2, rule_format, OF h2]
  show ?thesis
    by (intro conjI) (rule h1 a b h2[THEN conjunct1])+
qed

lemma post_init_ok:
  assumes "post_init os lib w self = Inr obj"
  obtains s1 s3 where "input_count self = 1"
    "post_step1 os w self = (Inr (), s1)" "post_step2 lib s1 = (Inr (), s3)" "post_step3 s3 = Inr obj"
proof -
  from assms have c: "input_count self = 1"
    by (auto simp: post_init_steps split: if_splits)
  obtain r1 s1 where s1: "post_step1 os w self = (r1, s1)" by (cases "post_step1 os w self")
  with assms c have r1: "r1 = Inr ()"
    by (cases r1) (auto simp: post_init_steps)
  obtain r2 s3 where s3: "post_step2 lib s1 = (r2, s3)" by (cases "post_step2 lib s1")
  with assms c s1 r1 have r2: "r2 = Inr ()"
    by (cases r2) (auto simp: post_init_steps)
  from assms c s1 r1 s3 r2 have "post_step3 s3 = Inr obj"
    by (simp add: post_init_steps)
  with c s1 r1 s3 r2 that show thesis by blast
qed

lemma post_step3_ok: "post_step3 s3 = Inr obj \<Longrightarrow> obj = s3"
  by (auto simp: post_step3_def split: option.splits if_splits)

lemma post_step2_ok:
  assumes "post_step2 lib s1 = (Inr (), s3)"
  shows "(img s1 \<noteq> None \<and> s3 = s1) \<or>
         (img s1 = None \<and> fst (is_svg s1) \<and> s3 = snd (is_svg s1)) \<or>
         (img s1 = None \<and> \<not> fst (is_svg s1) \<and> memo_is_svg s3 = Some False \<and> img s3 \<noteq> None)"
proof (cases "img s1 = None")
  case False
  with assms show ?thesis by (simp add: post_step2_def)
next
  case True
  obtain b s2 where sv: "is_svg s1 = (b, s2)" by (cases "is_svg s1")
  show ?thesis
  proof (cases b)
    case True
    with assms sv \<open>img s1 = None\<close> show ?thesis by (simp add: post_step2_def)
  next
    case False
    with assms sv True have "load_image_from_bytes lib s2 = (Inr (), s3)"
      by (simp add: post_step2_def)
    from load_image_ok[OF this] sv False True show ?thesis by simp
  qed
qed

text \<open>The states in which the constructor leaves an object.\<close>

lemma constructed_states:
  assumes "IconImage_init os lib w i p rb im = Inr self"
  shows "(im \<noteq> None \<and> memo_is_svg self = None \<and> path self = None \<and> raw_bytes self = None \<and>
          img self \<noteq> None) \<or>
         (im = None \<and>
          (memo_is_svg self = Some True \<or> (memo_is_svg self = Some False \<and> img self \<noteq> None)))"
proof -
  define self0 where "self0 = \<lparr>ident = i, path = p, raw_bytes = rb, img = im,
        memo_path_suffix = None, memo_is_svg = None\<rparr>"
  from assms have pi: "post_init os lib w self0 = Inr self"
    by (simp add: IconImage_init_def self0_def)
  from pi obtain s1 s3 where st:
    "input_count self0 = 1" "post_step1 os w self0 = (Inr (), s1)"
    "post_step2 lib s1 = (Inr (), s3)" "post_step3 s3 = Inr self"
    by (rule post_init_ok)
  have eq: "self = s3" using st(4) by (rule post_step3_ok)
  show ?thesis
  proof (cases im)
    case (Some x)
    with st(1) have n: "p = None" "rb = None"
      by (auto simp: input_count_def self0_def split: if_splits)
    with Some st(2) have "s1 = self0" by (simp add: post_step1_def self0_def)
    with Some st(3) have "s3 = self0" by (simp add: post_step2_def self0_def)
    with eq Some n show ?thesis by (simp add: self0_def)
  next
    case None
    have "img s1 = None"
    proof (cases "rb = None \<and> p \<noteq> None")
      case True
      with None st(2) have "load_bytes_from_path os w self0 = (Inr (), s1)"
        by (simp add: post_step1_def self0_def)
      from load_bytes_ok[OF this] None show ?thesis by (auto simp: self0_def)
    next
      case False
      with None st(2) have "s1 = self0" by (auto simp: post_step1_def self0_def)
      with None show ?thesis by (simp add: self0_def)
    qed
    with post_step2_ok[OF st(3)] have
      "(fst (is_svg s1) \<and> s3 = snd (is_svg s1)) \<or> (memo_is_svg s3 = Some False \<and> img s3 \<noteq> None)"
      by auto
    then show ?thesis
    proof
      assume a: "fst (is_svg s1) \<and> s3 = snd (is_svg s1)"
      then have "is_svg s1 = (True, s3)" by (cases "is_svg s1") auto
      from is_svg_result(1)[OF this] eq None show ?thesis by simp
    next
      assume "memo_is_svg s3 = Some False \<and> img s3 \<noteq> None"
      with eq None show ?thesis by simp
    qed
  qed
qed

lemma constructed_cases:
  assumes "IconImage_init os lib w i p rb im = Inr self"
  shows "(memo_is_svg self = None \<and> path self = None \<and> raw_bytes self = None \<and> img self \<noteq> None) \<or>
         memo_is_svg self = Some True \<or>
         (memo_is_svg self = Some False \<and> img self \<noteq> None)"
  using constructed_states[OF assms] by blast

text \<open>An object built from a path alone carries the decision taken from the suffix.\<close>

lemma constructed_from_path:
  assumes "IconImage_init os lib w i (Some p) None None = Inr self"
  shows "memo_is_svg self = Some (get_file_suffix p = ''.svg'')"
proof -
  define self0 where "self0 = \<lparr>ident = i, path = Some p, raw_bytes = None, img = None,
        memo_path_suffix = None, memo_is_svg = None\<rparr>"
  from assms have pi: "post_init os lib w self0 = Inr self"
    by (simp add: IconImage_init_def self0_def)
  from pi obtain s1 s3 where st:
    "input_count self0 = 1" "post_step1 os w self0 = (Inr (), s1)"
    "post_step2 lib s1 = (Inr (), s3)" "post_step3 s3 = Inr self"
    by (rule post_init_ok)
  have eq: "self = s3" using st(4) by (rule post_step3_ok)
  from st(2) have "load_bytes_from_path os w self0 = (Inr (), s1)"
    by (simp add: post_step1_def self0_def)
  from load_bytes_ok[OF this] obtain content where
    s1: "s1 = self0\<lparr>raw_bytes := Some (BytesIO_new content)\<rparr>"
    by auto
  have sv: "is_svg s1 = (get_file_suffix p = ''.svg'',
            s1\<lparr>memo_path_suffix := Some (get_file_suffix p),
               memo_is_svg := Some (get_file_suffix p = ''.svg'')\<rparr>)"
    by (rule is_svg_path) (simp_all add: s1 self0_def)
  have i1: "img s1 = None" by (simp add: s1 self0_def)
  show ?thesis
  proof (cases "get_file_suffix p = ''.svg''")
    case True
    with sv st(3) i1 have "s3 = s1\<lparr>memo_path_suffix := Some (get_file_suffix p),
               memo_is_svg := Some (get_file_suffix p = ''.svg'')\<rparr>"
      by (simp add: post_step2_def)
    with eq show ?thesis by simp
  next
    case False
    with sv post_step2_ok[OF st(3)] i1 have "memo_is_svg s3 = Some False" by auto
    with eq False show ?thesis by simp
  qed
qed

lemma constructed_is_svg:
  assumes "IconImage_init os lib w i (Some p) None None = Inr obj"
  shows "is_svg obj = (get_file_suffix p = ''.svg'', obj)"
  using constructed_from_path[OF assms] by (rule is_svg_memo)

text \<open>
  Claim C10. For an image that has a path and whose flag is not yet computed, the
  vector decision is the comparison of the lowercased suffix of the path with
  \<open>.svg\<close>; the call writes the two cache fields only and leaves the raw bytes and
  their read position as they were. The constructor makes this call for an image
  given by its path, so the constructed object answers \<open>is_svg\<close> with that
  comparison, whatever the file contains. Only without a path are the first 4096
  bytes read and searched for \<open><svg\<close>. The suffix of \<open>Icon.SVG\<close> lowercases to
  \<open>.svg\<close>.
\<close>

theorem vector_decision:
  "(path self = Some p \<and> memo_is_svg self = None \<and> memo_path_suffix self = None \<longrightarrow>
      is_svg self =
        (str_lower (path_suffix p) = ''.svg'',
         self\<lparr>memo_path_suffix := Some (str_lower (path_suffix p)),
              memo_is_svg := Some (str_lower (path_suffix p) = ''.svg'')\<rparr>)) \<and>
   (IconImage_init os lib w i (Some p) None None = Inr obj \<longrightarrow>
      is_svg obj = (str_lower (path_suffix p) = ''.svg'', obj)) \<and>
   (path self = None \<and> memo_is_svg self = None \<and> raw_bytes self = Some rb \<longrightarrow>
      is_svg self =
        (sublist ''<svg'' (take 4096 (buf rb)),
         self\<lparr>raw_bytes := Some \<lparr>buf = buf rb, pos = min 4096 (length (buf rb))\<rparr>,
              memo_is_svg := Some (sublist ''<svg'' (take 4096 (buf rb)))\<rparr>)) \<and>
   str_lower (path_suffix (Path ''Icon.SVG'')) = ''.svg''"
proof (intro conjI impI)
  assume "path self = Some p \<and> memo_is_svg self = None \<and> memo_path_suffix self = None"
  then show "is_svg self =
        (str_lower (path_suffix p) = ''.svg'',
         self\<lparr>memo_path_suffix := Some (str_lower (path_suffix p)),
              memo_is_svg := Some (str_lower (path_suffix p) = ''.svg'')\<rparr>)"
    using is_svg_path[of self p] by (simp add: get_file_suffix_def)
next
  assume "IconImage_init os lib w i (Some p) None None = Inr obj"
  from constructed_is_svg[OF this]
  show "is_svg obj = (str_lower (path_suffix p) = ''.svg'', obj)"
    by (simp add: get_file_suffix_def)
next
  assume "path self = None \<and> memo_is_svg self = None \<and> raw_bytes self = Some rb"
  then show "is_svg self =
        (sublist ''<svg'' (take 4096 (buf rb)),
         self\<lparr>raw_bytes := Some \<lparr>buf = buf rb, pos = min 4096 (length (buf rb))\<rparr>,
              memo_is_svg := Some (sublist ''<svg'' (take 4096 (buf rb)))\<rparr>)"
    using is_svg_sniff[of self rb] by simp
next
  show "str_lower (path_suffix (Path ''Icon.SVG'')) = ''.svg''"
    by code_simp
qed

theorem vector_decision_witness:
  "is_svg \<lparr>ident = ''i'', path = Some (Path ''Icon.SVG''),
           raw_bytes = Some \<lparr>buf = ''PNG'', pos = 0\<rparr>, img = None,
           memo_path_suffix = None, memo_is_svg = None\<rparr>
     = (str_lower (path_suffix (Path ''Icon.SVG'')) = ''.svg'',
        \<lparr>ident = ''i'', path = Some (Path ''Icon.SVG''),
         raw_bytes = Some \<lparr>buf = ''PNG'', pos = 0\<rparr>, img = None,
         memo_path_suffix = None, memo_is_svg = None\<rparr>
          \<lparr>memo_path_suffix := Some (str_lower (path_suffix (Path ''Icon.SVG''))),
           memo_is_svg := Some (str_lower (path_suffix (Path ''Icon.SVG'')) = ''.svg'')\<rparr>) \<and>
   IconImage_init recording_os (fixed_imagelib 8 8) [] ''i'' (Some (Path ''Icon.SVG'')) None None
     = Inr \<lparr>ident = ''i'', path = Some (Path ''Icon.SVG''),
            raw_bytes = Some \<lparr>buf = ''PNG'', pos = 0\<rparr>, img = None,
            memo_path_suffix = Some ''.svg'', memo_is_svg = Some True\<rparr> \<and>
   is_svg \<lparr>ident = ''i'', path = Some (Path ''Icon.SVG''),
           raw_bytes = Some \<lparr>buf = ''PNG'', pos = 0\<rparr>, img = None,
           memo_path_suffix = Some ''.svg'', memo_is_svg = Some True\<rparr>
     = (str_lower (path_suffix (Path ''Icon.SVG'')) = ''.svg'',
        \<lparr>ident = ''i'', path = Some (Path ''Icon.SVG''),
         raw_bytes = Some \<lparr>buf = ''PNG'', pos = 0\<rparr>, img = None,
         memo_path_suffix = Some ''.svg'', memo_is_svg = Some True\<rparr>) \<and>
   is_svg \<lparr>ident = ''i'', path = None,
           raw_bytes = Some \<lparr>buf = ''<svg>'', pos = 0\<rparr>, img = None,
           memo_path_suffix = None, memo_is_svg = None\<rparr>
     = (sublist ''<svg'' (take 4096 (buf \<lparr>buf = ''<svg>'', pos = 0\<rparr>)),
        \<lparr>ident = ''i'', path = None,
         raw_bytes = Some \<lparr>buf = ''<svg>'', pos = 0\<rparr>, img = None,
         memo_path_suffix = None, memo_is_svg = None\<rparr>
          \<lparr>raw_bytes := Some \<lparr>buf = buf \<lparr>buf = ''<svg>'', pos = 0\<rparr>,
                              pos = min 4096 (length (buf \<lparr>buf = ''<svg>'', pos = 0\<rparr>))\<rparr>,
           memo_is_svg := Some (sublist ''<svg'' (take 4096 (buf \<lparr>buf = ''<svg>'', pos = 0\<rparr>)))\<rparr>)"
proof -
  have h1: "path \<lparr>ident = ''i'', path = Some (Path ''Icon.SVG''),
           raw_bytes = Some \<lparr>buf = ''PNG'', pos = 0\<rparr>, img = None,
           memo_path_suffix = None, memo_is_svg = None\<rparr> = Some (Path ''Icon.SVG'') \<and>
     memo_is_svg \<lparr>ident = ''i'', path = Some (Path ''Icon.SVG''),
           raw_bytes = Some \<lparr>buf = ''PNG'', pos = 0\<rparr>, img = None,
           memo_path_suffix = None, memo_is_svg = None\<rparr> = None \<and>
     memo_path_suffix \<lparr>ident = ''i'', path = Some (Path ''Icon.SVG''),
           raw_bytes = Some \<lparr>buf = ''PNG'', pos = 0\<rparr>, img = None,
           memo_path_suffix = None, memo_is_svg = None\<rparr> = None"
    by simp
  have h2: "IconImage_init recording_os (fixed_imagelib 8 8) [] ''i'' (Some (Path ''Icon.SVG'')) None None
     = Inr \<lparr>ident = ''i'', path = Some (Path ''Icon.SVG''),
            raw_bytes = Some \<lparr>buf = ''PNG'', pos = 0\<rparr>, img = None,
            memo_path_suffix = Some ''.svg'', memo_is_svg = Some True\<rparr>"
    by code_simp
  have h3: "path \<lparr>ident = ''i'', path = None,
           raw_bytes = Some \<lparr>buf = ''<svg>'', pos = 0\<rparr>, img = None,
           memo_path_suffix = None, memo_is_svg = None\<rparr> = None \<and>
     memo_is_svg \<lparr>ident = ''i'', path = None,
           raw_bytes = Some \<lparr>buf = ''<svg>'', pos = 0\<rparr>, img = None,
           memo_path_suffix = None, memo_is_svg = None\<rparr> = None \<and>
     raw_bytes \<lparr>ident = ''i'', path = None,
           raw_bytes = Some \<lparr>buf = ''<svg>'', pos = 0\<rparr>, img = None,
           memo_path_suffix = None, memo_is_svg = None\<rparr> = Some \<lparr>buf = ''<svg>'', pos = 0\<rparr>"
    by simp
  note a = vector_decision[THEN conjunct1, rule_format, OF h1]
  note b = vector_decision[THEN conjunct2, THEN conjunct1, rule_format, OF h2]
  note c = vector_decision[THEN conjunct2, THEN conjunct2, THEN conjunct1, rule_format, OF h3]
  show ?thesis
    by (intro conjI) (rule a h2 b c)+
qed




section \<open>The check for a square image\<close>

lemma inspect_icon_nonsquare:
  assumes "is_svg icon = (False, i1)" "img icon = Some im" "width im \<noteq> height im"
  shows "inspect_icon icon out =
           (Raise (Exception (''Icon dimensions are not square ('' @ str_of_int (width im) @ ''x''
                              @ str_of_int (height im) @ '').'')),
            out @ [''Loaded Icon:'' @ nl @ ''- Source: '' @ ident icon @ nl,
                   ''- Input Size: '' @ str_of_int (width im) @ ''x'' @ str_of_int (height im) @ nl])"
proof -
  have i1: "img i1 = Some im" using is_svg_result(3)[OF assms(1)] assms(2) by simp
  have gs: "get_image_size icon = (Inr (width im, height im), i1)"
    by (simp add: get_image_size_def assms(1) i1)
  have sv: "is_svg i1 = (False, i1)" using assms(1) by (rule is_svg_twice)
  show ?thesis
    using assms(3) by (simp add: inspect_icon_def gs sv Let_def print_line_def)
qed

lemma inspect_icon_vector:
  assumes "is_svg icon = (True, i1)"
  shows "inspect_icon icon out =
           (Return i1,
            out @ [''Loaded Icon:'' @ nl @ ''- Source: '' @ ident icon @ nl,
                   ''- Input Size: Scalable Vector Graphics'' @ nl])"
proof -
  have gs: "get_image_size icon = (Inr (- 1, - 1), i1)"
    by (simp add: get_image_size_def assms)
  have sv: "is_svg i1 = (True, i1)" using assms by (rule is_svg_twice)
  show ?thesis
    by (simp add: inspect_icon_def gs sv Let_def print_line_def)
qed

lemma load_icon_raise:
  assumes "convert_args_to_settings os svg usage args w out = (Return settings, out1)"
    and "retrieve_icon os lib net w settings out1 = Some (Return icon, out2)"
    and "inspect_icon icon out2 = (Raise e, out3)"
  shows "load_icon os lib net svg usage args w out
           = Some (SysExit 1, out3 @ [''Error: '' @ exn_message e @ nl])"
  using assms by (simp add: load_icon_def print_line_def)

lemma main_load_exit:
  assumes "load_icon os lib net svg usage args w [] = Some (SysExit n, out)"
  shows "main os lib net svg usage env pf args w = Some (SysExit n, \<lparr>stdout = out, world = w\<rparr>)"
  using assms by (simp add: main_def)

lemma patch_install_nonsquare:
  assumes "w_px \<noteq> h_px"
  shows "patch_install os env pf dp png w_px h_px st =
           (SysExit 1,
            st\<lparr>stdout := stdout st @
                  [''Error: Icon dimensions are not square or not divisible by 8 (''
                   @ str_of_int w_px @ ''x'' @ str_of_int h_px @ '').'' @ nl]\<rparr>)"
  using assms by (simp add: patch_install_def print_line_def)

text \<open>
  Claim C7. When the loaded image is not a vector image and its width differs from its
  height, the check after loading raises the geometry error; the script prints it and
  exits with status 1, the world being as it was at the start: the install loop, which
  makes the only resize calls, is not entered. A vector image passes the check.
  The older script exits in the same way, before it touches the file system, when the
  width and the height of the downloaded icon differ.
\<close>

theorem nonsquare_rejected:
  "(is_svg icon = (False, i1) \<and> img icon = Some im \<and> width im \<noteq> height im \<longrightarrow>
      inspect_icon icon out =
        (Raise (Exception (''Icon dimensions are not square ('' @ str_of_int (width im) @ ''x''
                           @ str_of_int (height im) @ '').'')),
         out @ [''Loaded Icon:'' @ nl @ ''- Source: '' @ ident icon @ nl,
                ''- Input Size: '' @ str_of_int (width im) @ ''x'' @ str_of_int (height im) @ nl]) \<and>
      (convert_args_to_settings os svg usage args w [] = (Return settings, out1) \<and>
       retrieve_icon os lib net w settings out1 = Some (Return icon, out2) \<longrightarrow>
         main os lib net svg usage env pf args w =
           Some (SysExit 1,
                 \<lparr>stdout = out2 @
                    [''Loaded Icon:'' @ nl @ ''- Source: '' @ ident icon @ nl,
                     ''- Input Size: '' @ str_of_int (width im) @ ''x'' @ str_of_int (height im) @ nl,
                     ''Error: Icon dimensions are not square ('' @ str_of_int (width im) @ ''x''
                       @ str_of_int (height im) @ '').'' @ nl],
                  world = w\<rparr>))) \<and>
   (is_svg icon = (True, i1) \<longrightarrow>
      inspect_icon icon out =
        (Return i1,
         out @ [''Loaded Icon:'' @ nl @ ''- Source: '' @ ident icon @ nl,
                ''- Input Size: Scalable Vector Graphics'' @ nl])) \<and>
   (w_px \<noteq> h_px \<longrightarrow>
      patch_install os env pf dp png w_px h_px st =
        (SysExit 1,
         st\<lparr>stdout := stdout st @
               [''Error: Icon dimensions are not square or not divisible by 8 (''
                @ str_of_int w_px @ ''x'' @ str_of_int h_px @ '').'' @ nl]\<rparr>))"
proof (intro conjI impI)
  assume a: "is_svg icon = (False, i1) \<and> img icon = Some im \<and> width im \<noteq> height im"
  then have a1: "is_svg icon = (False, i1)" and a2: "img icon = Some im"
    and a3: "width im \<noteq> height im" by simp_all
  show "inspect_icon icon out =
        (Raise (Exception (''Icon dimensions are not square ('' @ str_of_int (width im) @ ''x''
                           @ str_of_int (height im) @ '').'')),
         out @ [''Loaded Icon:'' @ nl @ ''- Source: '' @ ident icon @ nl,
                ''- Input Size: '' @ str_of_int (width im) @ ''x'' @ str_of_int (height im) @ nl])"
    using a1 a2 a3 by (rule inspect_icon_nonsquare)
  assume b: "convert_args_to_settings os svg usage args w [] = (Return settings, out1) \<and>
       retrieve_icon os lib net w settings out1 = Some (Return icon, out2)"
  note li = load_icon_raise[OF b[THEN conjunct1] b[THEN conjunct2]
      inspect_icon_nonsquare[OF a1 a2 a3, of out2]]
  show "main os lib net svg usage env pf args w =
           Some (SysExit 1,
                 \<lparr>stdout = out2 @
                    [''Loaded Icon:'' @ nl @ ''- Source: '' @ ident icon @ nl,
                     ''- Input Size: '' @ str_of_int (width im) @ ''x'' @ str_of_int (height im) @ nl,
                     ''Error: Icon dimensions are not square ('' @ str_of_int (width im) @ ''x''
                       @ str_of_int (height im) @ '').'' @ nl],
                  world = w\<rparr>)"
    using main_load_exit[OF li, of env pf] by simp
next
  assume "is_svg icon = (True, i1)"
  then show "inspect_icon icon out =
        (Return i1,
         out @ [''Loaded Icon:'' @ nl @ ''- Source: '' @ ident icon @ nl,
                ''- Input Size: Scalable Vector Graphics'' @ nl])"
    by (rule inspect_icon_vector)
next
  assume "w_px \<noteq> h_px"
  then show "patch_install os env pf dp png w_px h_px st =
        (SysExit 1,
         st\<lparr>stdout := stdout st @
               [''Error: Icon dimensions are not square or not divisible by 8 (''
                @ str_of_int w_px @ ''x'' @ str_of_int h_px @ '').'' @ nl]\<rparr>)"
    by (rule patch_install_nonsquare)
qed

theorem nonsquare_rejected_witness:
  "(is_svg nonsquare_icon = (False, nonsquare_icon) \<and> img nonsquare_icon = Some nonsquare_image \<and>
    width nonsquare_image \<noteq> height nonsquare_image) \<and>
   (convert_args_to_settings recording_os True [] sample_args [] [] = (Return sample_settings, []) \<and>
    retrieve_icon recording_os (fixed_imagelib 10 12) sample_net [] sample_settings []
      = Some (Return nonsquare_icon, [])) \<and>
   main recording_os (fixed_imagelib 10 12) sample_net True [] sample_env sample_program sample_args [] =
     Some (SysExit 1,
           \<lparr>stdout = [] @
              [''Loaded Icon:'' @ nl @ ''- Source: '' @ ident nonsquare_icon @ nl,
               ''- Input Size: '' @ str_of_int (width nonsquare_image) @ ''x''
                 @ str_of_int (height nonsquare_image) @ nl,
               ''Error: Icon dimensions are not square ('' @ str_of_int (width nonsquare_image) @ ''x''
                 @ str_of_int (height nonsquare_image) @ '').'' @ nl],
            world = []\<rparr>) \<and>
   is_svg vector_icon = (True, vector_icon) \<and>
   inspect_icon vector_icon [] =
     (Return vector_icon,
      [] @ [''Loaded Icon:'' @ nl @ ''- Source: '' @ ident vector_icon @ nl,
            ''- Input Size: Scalable Vector Graphics'' @ nl]) \<and>
   (10::int) \<noteq> 12 \<and>
   patch_install recording_os sample_env sample_program (Path ''Discord/discord.png'')
       (BytesIO_new ''PNG'') 10 12 \<lparr>stdout = [], world = []\<rparr> =
     (SysExit 1,
      \<lparr>stdout = [], world = []\<rparr>\<lparr>stdout := stdout \<lparr>stdout = [], world = ([]::os_event list)\<rparr> @
         [''Error: Icon dimensions are not square or not divisible by 8 (''
          @ str_of_int 10 @ ''x'' @ str_of_int 12 @ '').'' @ nl]\<rparr>)"
proof -
  have h1: "is_svg nonsquare_icon = (False, nonsquare_icon) \<and>
      img nonsquare_icon = Some nonsquare_image \<and> width nonsquare_image \<noteq> height nonsquare_image"
    by (simp add: is_svg_def nonsquare_icon_def nonsquare_image_def)
  have h2: "convert_args_to_settings recording_os True [] sample_args [] [] = (Return sample_settings, []) \<and>
    retrieve_icon recording_os (fixed_imagelib 10 12) sample_net [] sample_settings []
      = Some (Return nonsquare_icon, [])"
    by code_simp
  have h3: "is_svg vector_icon = (True, vector_icon)"
    by (simp add: is_svg_def vector_icon_def)
  have h4: "(10::int) \<noteq> 12" by simp
  note a = nonsquare_rejected[THEN conjunct1, rule_format, OF h1, THEN conjunct2, rule_format, OF h2]
  note b = nonsquare_rejected[THEN conjunct2, THEN conjunct1, rule_format, OF h3]
  note c = nonsquare_rejected[THEN conjunct2, THEN conjunct2, rule_format, OF h4]
  show ?thesis
    by (intro conjI) (rule h1[THEN conjunct1] h1[THEN conjunct2, THEN conjunct1]
        h1[THEN conjunct2, THEN conjunct2] h2[THEN conjunct1] h2[THEN conjunct2] a h3 b h4 c)+
qed

section \<open>The import of CairoSVG\<close>

text \<open>
  When the import succeeds the module is \<open>main\<close> with vector support; when it fails the
  warning comes first in the output and \<open>main\<close> runs without vector support.
\<close>

lemma iconix_module_imported:
  "iconix_module os lib net None usage env pf args w = main os lib net True usage env pf args w"
proof (cases "main os lib net True usage env pf args w")
  case None
  then show ?thesis by (simp add: iconix_module_def import_cairosvg_def)
next
  case (Some r)
  then show ?thesis by (simp add: iconix_module_def import_cairosvg_def)
qed

lemma iconix_module_warning:
  assumes "main os lib net False usage env pf args w = Some (c, st)"
  shows "iconix_module os lib net (Some e) usage env pf args w =
           Some (c, st\<lparr>stdout :=
                   (e @ nl @ ''Warning: Unable to import the CairoSVG library. You will not be able to load SVG files.''
                      @ nl @ nl) # stdout st\<rparr>)"
  using assms by (simp add: iconix_module_def import_cairosvg_def)

section \<open>The download\<close>

lemma bio_write_at_eof:
  "at_eof b \<Longrightarrow> bio_write chunk b = \<lparr>buf = buf b @ chunk, pos = length (buf b) + length chunk\<rparr>"
  by (cases "chunk = []") (simp_all add: bio_write_def at_eof_def)

lemma take_chunk_data:
  assumes "at_eof (data d)"
  shows "buf (data (take_chunk net expected chunk d)) = buf (data d) @ chunk"
    and "at_eof (data (take_chunk net expected chunk d))"
  using bio_write_at_eof[OF assms, of chunk]
  by (simp_all add: take_chunk_def Let_def at_eof_def)

lemma read_loop_terminates:
  assumes "read_call resp cs n = []" "\<forall>j<n. read_call resp cs j \<noteq> []" "k \<le> n" "at_eof (data d)"
  shows "\<exists>d'. read_loop net resp cs expected k d = Some d' \<and>
              buf (data d') = buf (data d) @ concat (map (read_call resp cs) [k..<n])"
  using assms(3,4)
proof (induction "n - k" arbitrary: k d)
  case 0
  then have "k = n" by simp
  with assms(1) show ?case
    by (subst read_loop.simps) simp
next
  case (Suc m)
  then have kn: "k < n" by simp
  with assms(2) have ne: "read_call resp cs k \<noteq> []" by simp
  define d1 where "d1 = take_chunk net expected (read_call resp cs k) d"
  have e1: "at_eof (data d1)" and b1: "buf (data d1) = buf (data d) @ read_call resp cs k"
    using take_chunk_data[OF Suc.prems(2)] by (simp_all add: d1_def)
  from Suc.hyps(2) kn have "m = n - Suc k" by simp
  from Suc.hyps(1)[OF this _ e1] kn obtain d' where
    d': "read_loop net resp cs expected (Suc k) d1 = Some d'"
        "buf (data d') = buf (data d1) @ concat (map (read_call resp cs) [Suc k..<n])"
    by auto
  have "read_loop net resp cs expected k d = Some d'"
    using ne d'(1) by (subst read_loop.simps) (simp add: d1_def)
  moreover have "[k..<n] = k # [Suc k..<n]"
    using kn by (simp add: upt_conv_Cons)
  ultimately show ?case
    using d'(2) b1 by simp
qed

lemma download_body_ok:
  assumes "read_content_length net resp = Inr expected"
    and "read_call resp cs n = []" "\<forall>j<n. read_call resp cs j \<noteq> []"
  shows "\<exists>out'. download_body net resp cs out =
           Some (Return \<lparr>buf = concat (map (read_call resp cs) [0..<n]), pos = 0\<rparr>, out')"
proof -
  define d0 where "d0 = \<lparr>data = BytesIO_new [], bytes_downloaded = 0, max_line_length = 0, printed = out\<rparr>"
  have "at_eof (data d0)" by (simp add: d0_def at_eof_def BytesIO_new_def)
  from read_loop_terminates[OF assms(2,3) _ this, of 0 net expected] obtain d' where
    d': "read_loop net resp cs expected 0 d0 = Some d'"
        "buf (data d') = concat (map (read_call resp cs) [0..<n])"
    by (auto simp: d0_def BytesIO_new_def)
  have "bio_seek 0 (data d') = \<lparr>buf = concat (map (read_call resp cs) [0..<n]), pos = 0\<rparr>"
    using d'(2) by (simp add: bio_seek_def)
  then show ?thesis
    using assms(1) d'(1) by (simp add: download_body_def d0_def)
qed

lemma download_not_200:
  assumes "urlopen net url headers = Inr resp" "getcode resp \<noteq> 200"
  shows "download_with_progress net url headers cs out =
           Some (Raise (Exception (''HTTP '' @ str_of_int (getcode resp) @ '' response received.'')), out)"
    and "patch_download_with_progress net url headers cs out =
           Some (Return None,
                 out @ [''Error: HTTP '' @ str_of_int (getcode resp) @ '' response received.'' @ nl])"
  using assms
  by (simp_all add: download_with_progress_def patch_download_with_progress_def print_line_def)

lemma download_200:
  assumes "urlopen net url headers = Inr resp" "getcode resp = 200"
    and "read_content_length net resp = Inr expected"
    and "read_call resp cs n = []" "\<forall>j<n. read_call resp cs j \<noteq> []"
  shows "\<exists>out'. download_with_progress net url headers cs out =
           Some (Return \<lparr>buf = concat (map (read_call resp cs) [0..<n]), pos = 0\<rparr>, out')"
    and "\<exists>out'. patch_download_with_progress net url headers cs out =
           Some (Return (Some \<lparr>buf = concat (map (read_call resp cs) [0..<n]), pos = 0\<rparr>), out')"
proof -
  from download_body_ok[OF assms(3,4,5), of out] obtain out' where
    b: "download_body net resp cs out =
           Some (Return \<lparr>buf = concat (map (read_call resp cs) [0..<n]), pos = 0\<rparr>, out')"
    by blast
  show "\<exists>out'. download_with_progress net url headers cs out =
           Some (Return \<lparr>buf = concat (map (read_call resp cs) [0..<n]), pos = 0\<rparr>, out')"
    using assms(1,2) b by (simp add: download_with_progress_def)
  show "\<exists>out'. patch_download_with_progress net url headers cs out =
           Some (Return (Some \<lparr>buf = concat (map (read_call resp cs) [0..<n]), pos = 0\<rparr>), out')"
    using assms(1,2) b by (simp add: patch_download_with_progress_def)
qed

lemma patch_main_not_200:
  assumes "urlopen net discord_tar_url discord_headers = Inr resp" "getcode resp \<noteq> 200"
  shows "patch_main os lib net env pf w =
           Some (SysExit 1,
                 \<lparr>stdout = [''Fetching latest Discord tar.gz archive:'' @ nl @ ''- '' @ dq
                              @ discord_tar_url @ dq @ nl,
                            ''Error: HTTP '' @ str_of_int (getcode resp) @ '' response received.'' @ nl],
                  world = w\<rparr>)"
  using download_not_200(2)[OF assms, of 8192]
  by (simp add: patch_main_def print_line_def)

lemma main_not_200:
  assumes "urlopen net discord_tar_url discord_headers = Inr resp" "getcode resp \<noteq> 200"
    and "convert_args_to_settings os svg usage args w [] = (Return settings, out1)"
    and "icon_path settings = None"
  shows "main os lib net svg usage env pf args w =
           Some (SysExit 1,
                 \<lparr>stdout = out1 @
                    [''Fetching latest Discord tar.gz archive:'' @ nl @ ''- '' @ dq
                       @ discord_tar_url @ dq @ nl,
                     ''Error: HTTP '' @ str_of_int (getcode resp) @ '' response received.'' @ nl],
                  world = w\<rparr>)"
proof -
  have g: "get_latest_discord_icon net out1 =
      Some (Raise (Exception (''HTTP '' @ str_of_int (getcode resp) @ '' response received.'')),
            out1 @ [''Fetching latest Discord tar.gz archive:'' @ nl @ ''- '' @ dq
                       @ discord_tar_url @ dq @ nl])"
    using download_not_200(1)[OF assms(1,2), of 8192]
    by (simp add: get_latest_discord_icon_def print_line_def)
  have r: "retrieve_icon os lib net w settings out1 =
      Some (Raise (Exception (''HTTP '' @ str_of_int (getcode resp) @ '' response received.'')),
            out1 @ [''Fetching latest Discord tar.gz archive:'' @ nl @ ''- '' @ dq
                       @ discord_tar_url @ dq @ nl])"
    using assms(4) by (simp add: retrieve_icon_def g)
  have "load_icon os lib net svg usage args w [] =
      Some (SysExit 1, out1 @
                    [''Fetching latest Discord tar.gz archive:'' @ nl @ ''- '' @ dq
                       @ discord_tar_url @ dq @ nl,
                     ''Error: HTTP '' @ str_of_int (getcode resp) @ '' response received.'' @ nl])"
    using assms(3) by (simp add: load_icon_def r print_line_def)
  then show ?thesis
    by (simp add: main_def)
qed

text \<open>What \<^verbatim>\<open>urlopen\<close> makes of the exchange with the server.\<close>

lemma urlopen_error:
  assumes "http_open net url headers = Inr resp" "\<not> (200 \<le> getcode resp \<and> getcode resp < 300)"
  shows "urlopen net url headers = Inl (HTTPError (getcode resp) (reason resp))"
  using assms by (simp add: urlopen_def)

lemma urlopen_ok:
  assumes "http_open net url headers = Inr resp" "200 \<le> getcode resp" "getcode resp < 300"
  shows "urlopen net url headers = Inr resp"
  using assms by (simp add: urlopen_def)

lemma urlopen_fail:
  assumes "http_open net url headers = Inl e"
  shows "urlopen net url headers = Inl e"
  using assms by (simp add: urlopen_def)

lemma download_raise:
  assumes "urlopen net url headers = Inl e"
  shows "download_with_progress net url headers cs out = Some (Raise e, out)"
    and "patch_download_with_progress net url headers cs out = Some (Raise e, out)"
  using assms
  by (simp_all add: download_with_progress_def patch_download_with_progress_def)

lemma patch_main_raise:
  assumes "urlopen net discord_tar_url discord_headers = Inl e"
  shows "patch_main os lib net env pf w =
           Some (Raise e,
                 \<lparr>stdout = [''Fetching latest Discord tar.gz archive:'' @ nl @ ''- '' @ dq
                              @ discord_tar_url @ dq @ nl],
                  world = w\<rparr>)"
  using download_raise(2)[OF assms, of 8192]
  by (simp add: patch_main_def print_line_def)

lemma main_raise:
  assumes "urlopen net discord_tar_url discord_headers = Inl e"
    and "convert_args_to_settings os svg usage args w [] = (Return settings, out1)"
    and "icon_path settings = None"
  shows "main os lib net svg usage env pf args w =
           Some (SysExit 1,
                 \<lparr>stdout = out1 @
                    [''Fetching latest Discord tar.gz archive:'' @ nl @ ''- '' @ dq
                       @ discord_tar_url @ dq @ nl,
                     ''Error: '' @ exn_message e @ nl],
                  world = w\<rparr>)"
proof -
  have g: "get_latest_discord_icon net out1 =
      Some (Raise e,
            out1 @ [''Fetching latest Discord tar.gz archive:'' @ nl @ ''- '' @ dq
                       @ discord_tar_url @ dq @ nl])"
    using download_raise(1)[OF assms(1), of 8192]
    by (simp add: get_latest_discord_icon_def print_line_def)
  have r: "retrieve_icon os lib net w settings out1 =
      Some (Raise e,
            out1 @ [''Fetching latest Discord tar.gz archive:'' @ nl @ ''- '' @ dq
                       @ discord_tar_url @ dq @ nl])"
    using assms(3) by (simp add: retrieve_icon_def g)
  have "load_icon os lib net svg usage args w [] =
      Some (SysExit 1, out1 @
                    [''Fetching latest Discord tar.gz archive:'' @ nl @ ''- '' @ dq
                       @ discord_tar_url @ dq @ nl,
                     ''Error: '' @ exn_message e @ nl])"
    using assms(2) by (simp add: load_icon_def r print_line_def)
  then show ?thesis
    by (simp add: main_def)
qed

lemma http_error_message:
  "''Error: '' @ exn_message (HTTPError code why) @ nl =
     ''Error: HTTP Error '' @ str_of_int code @ '': '' @ why @ nl"
  by simp

text \<open>
  Claim C9. The server's answer is \<open>http_open net url headers\<close>; \<^verbatim>\<open>urlopen\<close> hands it to the
  downloader only when its status is between 200 and 299. A status other than 200 is
  fatal in each case.
  \<^item> Status outside 200..299 (such as 404): \<^verbatim>\<open>urlopen\<close> raises \<^verbatim>\<open>HTTPError\<close> and both
    downloaders let it pass. \<^verbatim>\<open>iconix.py\<close> prints \<^verbatim>\<open>Error: HTTP Error 404: Not Found\<close> and
    exits with status 1; \<^verbatim>\<open>patch.py\<close> has no handler and ends with the uncaught exception.
  \<^item> The request fails with an exception: the same, with that exception.
  \<^item> Status between 201 and 299: the downloader of \<^verbatim>\<open>iconix.py\<close> raises
    \<^verbatim>\<open>Exception("HTTP n response received.")\<close> and the script prints it and exits with
    status 1; the downloader of \<^verbatim>\<open>patch.py\<close> prints the error and returns \<^verbatim>\<open>None\<close>, and
    the script exits with status 1.
  In all of them nothing is written anywhere. With status 200, a readable
  \<open>Content-Length\<close> and a body that ends (the call number \<open>n\<close> of \<^verbatim>\<open>read\<close> is the first to
  return no bytes), both downloaders return: the buffer holds the chunks read, joined in
  order, and its position is 0.
\<close>

theorem download_contract:
  "(http_open net url headers = Inr resp \<and> \<not> (200 \<le> getcode resp \<and> getcode resp < 300) \<longrightarrow>
      download_with_progress net url headers cs out =
        Some (Raise (HTTPError (getcode resp) (reason resp)), out) \<and>
      patch_download_with_progress net url headers cs out =
        Some (Raise (HTTPError (getcode resp) (reason resp)), out)) \<and>
   (http_open net url headers = Inl e \<longrightarrow>
      download_with_progress net url headers cs out = Some (Raise e, out) \<and>
      patch_download_with_progress net url headers cs out = Some (Raise e, out)) \<and>
   (http_open net url headers = Inr resp \<and> 200 \<le> getcode resp \<and> getcode resp < 300 \<and>
    getcode resp \<noteq> 200 \<longrightarrow>
      download_with_progress net url headers cs out =
        Some (Raise (Exception (''HTTP '' @ str_of_int (getcode resp) @ '' response received.'')), out) \<and>
      patch_download_with_progress net url headers cs out =
        Some (Return None,
              out @ [''Error: HTTP '' @ str_of_int (getcode resp) @ '' response received.'' @ nl])) \<and>
   (http_open net discord_tar_url discord_headers = Inr resp \<and>
    \<not> (200 \<le> getcode resp \<and> getcode resp < 300) \<longrightarrow>
      patch_main os lib net env pf w =
        Some (Raise (HTTPError (getcode resp) (reason resp)),
              \<lparr>stdout = [''Fetching latest Discord tar.gz archive:'' @ nl @ ''- '' @ dq
                           @ discord_tar_url @ dq @ nl],
               world = w\<rparr>) \<and>
      (convert_args_to_settings os svg usage args w [] = (Return settings, out1) \<and>
       icon_path settings = None \<longrightarrow>
         main os lib net svg usage env pf args w =
           Some (SysExit 1,
                 \<lparr>stdout = out1 @
                    [''Fetching latest Discord tar.gz archive:'' @ nl @ ''- '' @ dq
                       @ discord_tar_url @ dq @ nl,
                     ''Error: HTTP Error '' @ str_of_int (getcode resp) @ '': '' @ reason resp @ nl],
                  world = w\<rparr>))) \<and>
   (http_open net discord_tar_url discord_headers = Inl e \<longrightarrow>
      patch_main os lib net env pf w =
        Some (Raise e,
              \<lparr>stdout = [''Fetching latest Discord tar.gz archive:'' @ nl @ ''- '' @ dq
                           @ discord_tar_url @ dq @ nl],
               world = w\<rparr>) \<and>
      (convert_args_to_settings os svg usage args w [] = (Return settings, out1) \<and>
       icon_path settings = None \<longrightarrow>
         main os lib net svg usage env pf args w =
           Some (SysExit 1,
                 \<lparr>stdout = out1 @
                    [''Fetching latest Discord tar.gz archive:'' @ nl @ ''- '' @ dq
                       @ discord_tar_url @ dq @ nl,
                     ''Error: '' @ exn_message e @ nl],
                  world = w\<rparr>))) \<and>
   (http_open net discord_tar_url discord_headers = Inr resp \<and>
    200 \<le> getcode resp \<and> getcode resp < 300 \<and> getcode resp \<noteq> 200 \<longrightarrow>
      patch_main os lib net env pf w =
        Some (SysExit 1,
              \<lparr>stdout = [''Fetching latest Discord tar.gz archive:'' @ nl @ ''- '' @ dq
                           @ discord_tar_url @ dq @ nl,
                         ''Error: HTTP '' @ str_of_int (getcode resp) @ '' response received.'' @ nl],
               world = w\<rparr>) \<and>
      (convert_args_to_settings os svg usage args w [] = (Return settings, out1) \<and>
       icon_path settings = None \<longrightarrow>
         main os lib net svg usage env pf args w =
           Some (SysExit 1,
                 \<lparr>stdout = out1 @
                    [''Fetching latest Discord tar.gz archive:'' @ nl @ ''- '' @ dq
                       @ discord_tar_url @ dq @ nl,
                     ''Error: HTTP '' @ str_of_int (getcode resp) @ '' response received.'' @ nl],
                  world = w\<rparr>))) \<and>
   (http_open net url headers = Inr resp \<and> getcode resp = 200 \<and>
    read_content_length net resp = Inr expected \<and>
    read_call resp cs n = [] \<and> (\<forall>j<n. read_call resp cs j \<noteq> []) \<longrightarrow>
      (\<exists>out'. download_with_progress net url headers cs out =
         Some (Return \<lparr>buf = concat (map (read_call resp cs) [0..<n]), pos = 0\<rparr>, out')) \<and>
      (\<exists>out'. patch_download_with_progress net url headers cs out =
         Some (Return (Some \<lparr>buf = concat (map (read_call resp cs) [0..<n]), pos = 0\<rparr>), out')))"
proof (intro conjI impI)
  assume a: "http_open net url headers = Inr resp \<and> \<not> (200 \<le> getcode resp \<and> getcode resp < 300)"
  note u = urlopen_error[OF a[THEN conjunct1] a[THEN conjunct2]]
  show "download_with_progress net url headers cs out =
        Some (Raise (HTTPError (getcode resp) (reason resp)), out)"
    using u by (rule download_raise(1))
  show "patch_download_with_progress net url headers cs out =
        Some (Raise (HTTPError (getcode resp) (reason resp)), out)"
    using u by (rule download_raise(2))
next
  assume a: "http_open net url headers = Inl e"
  note u = urlopen_fail[OF a]
  show "download_with_progress net url headers cs out = Some (Raise e, out)"
    using u by (rule download_raise(1))
  show "patch_download_with_progress net url headers cs out = Some (Raise e, out)"
    using u by (rule download_raise(2))
next
  assume a: "http_open net url headers = Inr resp \<and> 200 \<le> getcode resp \<and> getcode resp < 300 \<and>
    getcode resp \<noteq> 200"
  then have a1: "http_open net url headers = Inr resp" and a2: "200 \<le> getcode resp"
    and a3: "getcode resp < 300" and a4: "getcode resp \<noteq> 200"
    by simp_all
  note u = urlopen_ok[OF a1 a2 a3]
  show "download_with_progress net url headers cs out =
        Some (Raise (Exception (''HTTP '' @ str_of_int (getcode resp) @ '' response received.'')), out)"
    using u a4 by (rule download_not_200(1))
  show "patch_download_with_progress net url headers cs out =
        Some (Return None,
              out @ [''Error: HTTP '' @ str_of_int (getcode resp) @ '' response received.'' @ nl])"
    using u a4 by (rule download_not_200(2))
next
  assume a: "http_open net discord_tar_url discord_headers = Inr resp \<and>
    \<not> (200 \<le> getcode resp \<and> getcode resp < 300)"
  note u = urlopen_error[OF a[THEN conjunct1] a[THEN conjunct2]]
  show "patch_main os lib net env pf w =
        Some (Raise (HTTPError (getcode resp) (reason resp)),
              \<lparr>stdout = [''Fetching latest Discord tar.gz archive:'' @ nl @ ''- '' @ dq
                           @ discord_tar_url @ dq @ nl],
               world = w\<rparr>)"
    using u by (rule patch_main_raise)
  assume b: "convert_args_to_settings os svg usage args w [] = (Return settings, out1) \<and>
       icon_path settings = None"
  show "main os lib net svg usage env pf args w =
           Some (SysExit 1,
                 \<lparr>stdout = out1 @
                    [''Fetching latest Discord tar.gz archive:'' @ nl @ ''- '' @ dq
                       @ discord_tar_url @ dq @ nl,
                     ''Error: HTTP Error '' @ str_of_int (getcode resp) @ '': '' @ reason resp @ nl],
                  world = w\<rparr>)"
    using main_raise[OF u b[THEN conjunct1] b[THEN conjunct2], of lib env pf]
    unfolding http_error_message .
next
  assume a: "http_open net discord_tar_url discord_headers = Inl e"
  note u = urlopen_fail[OF a]
  show "patch_main os lib net env pf w =
        Some (Raise e,
              \<lparr>stdout = [''Fetching latest Discord tar.gz archive:'' @ nl @ ''- '' @ dq
                           @ discord_tar_url @ dq @ nl],
               world = w\<rparr>)"
    using u by (rule patch_main_raise)
  assume b: "convert_args_to_settings os svg usage args w [] = (Return settings, out1) \<and>
       icon_path settings = None"
  show "main os lib net svg usage env pf args w =
           Some (SysExit 1,
                 \<lparr>stdout = out1 @
                    [''Fetching latest Discord tar.gz archive:'' @ nl @ ''- '' @ dq
                       @ discord_tar_url @ dq @ nl,
                     ''Error: '' @ exn_message e @ nl],
                  world = w\<rparr>)"
    using u b[THEN conjunct1] b[THEN conjunct2] by (rule main_raise)
next
  assume a: "http_open net discord_tar_url discord_headers = Inr resp \<and>
    200 \<le> getcode resp \<and> getcode resp < 300 \<and> getcode resp \<noteq> 200"
  then have a1: "http_open net discord_tar_url discord_headers = Inr resp" and a2: "200 \<le> getcode resp"
    and a3: "getcode resp < 300" and a4: "getcode resp \<noteq> 200"
    by simp_all
  note u = urlopen_ok[OF a1 a2 a3]
  show "patch_main os lib net env pf w =
        Some (SysExit 1,
              \<lparr>stdout = [''Fetching latest Discord tar.gz archive:'' @ nl @ ''- '' @ dq
                           @ discord_tar_url @ dq @ nl,
                         ''Error: HTTP '' @ str_of_int (getcode resp) @ '' response received.'' @ nl],
               world = w\<rparr>)"
    using u a4 by (rule patch_main_not_200)
  assume b: "convert_args_to_settings os svg usage args w [] = (Return settings, out1) \<and>
       icon_path settings = None"
  show "main os lib net svg usage env pf args w =
           Some (SysExit 1,
                 \<lparr>stdout = out1 @
                    [''Fetching latest Discord tar.gz archive:'' @ nl @ ''- '' @ dq
                       @ discord_tar_url @ dq @ nl,
                     ''Error: HTTP '' @ str_of_int (getcode resp) @ '' response received.'' @ nl],
                  world = w\<rparr>)"
    using u a4 b[THEN conjunct1] b[THEN conjunct2]
    by (rule main_not_200)
next
  assume a: "http_open net url headers = Inr resp \<and> getcode resp = 200 \<and>
    read_content_length net resp = Inr expected \<and>
    read_call resp cs n = [] \<and> (\<forall>j<n. read_call resp cs j \<noteq> [])"
  then have a0: "http_open net url headers = Inr resp" and a2: "getcode resp = 200"
    and a3: "read_content_length net resp = Inr expected"
    and a4: "read_call resp cs n = []" and a5: "\<forall>j<n. read_call resp cs j \<noteq> []"
    by simp_all
  have a1: "urlopen net url headers = Inr resp"
    using a0 a2 by (simp add: urlopen_def)
  show "\<exists>out'. download_with_progress net url headers cs out =
         Some (Return \<lparr>buf = concat (map (read_call resp cs) [0..<n]), pos = 0\<rparr>, out')"
    using a1 a2 a3 a4 a5 by (rule download_200(1))
  show "\<exists>out'. patch_download_with_progress net url headers cs out =
         Some (Return (Some \<lparr>buf = concat (map (read_call resp cs) [0..<n]), pos = 0\<rparr>), out')"
    using a1 a2 a3 a4 a5 by (rule download_200(2))
qed

theorem download_contract_witness:
  "download_with_progress failing_net discord_tar_url discord_headers 8192 [] =
     Some (Raise (HTTPError 404 ''Not Found''), []) \<and>
   patch_main recording_os (fixed_imagelib 8 8) failing_net sample_env sample_program [] =
     Some (Raise (HTTPError 404 ''Not Found''),
           \<lparr>stdout = [''Fetching latest Discord tar.gz archive:'' @ nl @ ''- '' @ dq
                        @ discord_tar_url @ dq @ nl],
            world = []\<rparr>) \<and>
   main recording_os (fixed_imagelib 8 8) failing_net True [] sample_env sample_program discord_args [] =
     Some (SysExit 1,
           \<lparr>stdout =
              [''Fetching latest Discord tar.gz archive:'' @ nl @ ''- '' @ dq
                 @ discord_tar_url @ dq @ nl,
               ''Error: HTTP Error 404: Not Found'' @ nl],
            world = []\<rparr>) \<and>
   main recording_os (fixed_imagelib 8 8) unreachable_net True [] sample_env sample_program discord_args [] =
     Some (SysExit 1,
           \<lparr>stdout =
              [''Fetching latest Discord tar.gz archive:'' @ nl @ ''- '' @ dq
                 @ discord_tar_url @ dq @ nl,
               ''Error: <urlopen error [Errno -2] Name or service not known>'' @ nl],
            world = []\<rparr>) \<and>
   download_with_progress no_content_net discord_tar_url discord_headers 8192 [] =
     Some (Raise (Exception ''HTTP 204 response received.''), []) \<and>
   patch_main recording_os (fixed_imagelib 8 8) no_content_net sample_env sample_program [] =
     Some (SysExit 1,
           \<lparr>stdout = [''Fetching latest Discord tar.gz archive:'' @ nl @ ''- '' @ dq
                        @ discord_tar_url @ dq @ nl,
                      ''Error: HTTP 204 response received.'' @ nl],
            world = []\<rparr>) \<and>
   (\<exists>out'. download_with_progress sample_net discord_tar_url discord_headers 8192 [] =
      Some (Return \<lparr>buf = ''abc'', pos = 0\<rparr>, out'))"
proof -
  have s404: "str_of_int 404 = ''404''" and s204: "str_of_int 204 = ''204''"
    by code_simp+
  have h1: "http_open failing_net discord_tar_url discord_headers =
              Inr (chunked_response 404 ''Not Found'' []) \<and>
            \<not> (200 \<le> getcode (chunked_response 404 ''Not Found'' []) \<and>
               getcode (chunked_response 404 ''Not Found'' []) < 300)"
    by (simp add: failing_net_def fixed_netlib_def chunked_response_def)
  have h2: "convert_args_to_settings recording_os True [] discord_args [] [] = (Return discord_settings, []) \<and>
    icon_path discord_settings = None"
    by code_simp
  have h3: "http_open sample_net discord_tar_url discord_headers =
              Inr (chunked_response 200 ''OK'' [''ab'', ''c'']) \<and>
    getcode (chunked_response 200 ''OK'' [''ab'', ''c'']) = 200 \<and>
    read_content_length sample_net (chunked_response 200 ''OK'' [''ab'', ''c'']) = Inr None \<and>
    read_call (chunked_response 200 ''OK'' [''ab'', ''c'']) 8192 2 = [] \<and>
    (\<forall>j<2. read_call (chunked_response 200 ''OK'' [''ab'', ''c'']) 8192 j \<noteq> [])"
    by (simp add: sample_net_def fixed_netlib_def chunked_response_def read_content_length_def
                  less_Suc_eq numeral_2_eq_2)
  have h4: "http_open no_content_net discord_tar_url discord_headers =
              Inr (chunked_response 204 ''No Content'' []) \<and>
            200 \<le> getcode (chunked_response 204 ''No Content'' []) \<and>
            getcode (chunked_response 204 ''No Content'' []) < 300 \<and>
            getcode (chunked_response 204 ''No Content'' []) \<noteq> 200"
    by (simp add: no_content_net_def fixed_netlib_def chunked_response_def)
  have h5: "http_open unreachable_net discord_tar_url discord_headers =
              Inl (OSError ''<urlopen error [Errno -2] Name or service not known>'')"
    by (simp add: unreachable_net_def fixed_netlib_def)
  have g: "getcode (chunked_response 404 ''Not Found'' []) = 404"
          "reason (chunked_response 404 ''Not Found'' []) = ''Not Found''"
          "getcode (chunked_response 204 ''No Content'' []) = 204"
    by (simp_all add: chunked_response_def)
  have body: "concat (map (read_call (chunked_response 200 ''OK'' [''ab'', ''c'']) 8192) [0..<2]) = ''abc''"
    by code_simp
  note a = download_contract[THEN conjunct1, rule_format, OF h1, THEN conjunct1]
  note b = download_contract[THEN conjunct2, THEN conjunct2, THEN conjunct2, THEN conjunct1,
             rule_format, OF h1, THEN conjunct1]
  note c = download_contract[THEN conjunct2, THEN conjunct2, THEN conjunct2, THEN conjunct1,
             rule_format, OF h1, THEN conjunct2, rule_format, OF h2]
  note d = download_contract[THEN conjunct2, THEN conjunct2, THEN conjunct2, THEN conjunct2,
             THEN conjunct1, rule_format, OF h5, THEN conjunct2, rule_format, OF h2]
  note e = download_contract[THEN conjunct2, THEN conjunct2, THEN conjunct1, rule_format, OF h4,
             THEN conjunct1]
  note f = download_contract[THEN conjunct2, THEN conjunct2, THEN conjunct2, THEN conjunct2,
             THEN conjunct2, THEN conjunct1, rule_format, OF h4, THEN conjunct1]
  note k = download_contract[THEN conjunct2, THEN conjunct2, THEN conjunct2, THEN conjunct2,
             THEN conjunct2, THEN conjunct2, rule_format, OF h3, THEN conjunct1]
  have a': "download_with_progress failing_net discord_tar_url discord_headers 8192 [] =
     Some (Raise (HTTPError 404 ''Not Found''), [])"
    using a[of 8192 "[]"] unfolding g .
  have b': "patch_main recording_os (fixed_imagelib 8 8) failing_net sample_env sample_program [] =
     Some (Raise (HTTPError 404 ''Not Found''),
           \<lparr>stdout = [''Fetching latest Discord tar.gz archive:'' @ nl @ ''- '' @ dq
                        @ discord_tar_url @ dq @ nl],
            world = []\<rparr>)"
    using b[of recording_os "fixed_imagelib 8 8" sample_env sample_program "[]"] unfolding g .
  have c': "main recording_os (fixed_imagelib 8 8) failing_net True [] sample_env sample_program discord_args [] =
     Some (SysExit 1,
           \<lparr>stdout =
              [''Fetching latest Discord tar.gz archive:'' @ nl @ ''- '' @ dq
                 @ discord_tar_url @ dq @ nl,
               ''Error: HTTP Error 404: Not Found'' @ nl],
            world = []\<rparr>)"
    using c[of "fixed_imagelib 8 8" sample_env sample_program] unfolding g s404 by simp
  have d': "main recording_os (fixed_imagelib 8 8) unreachable_net True [] sample_env sample_program discord_args [] =
     Some (SysExit 1,
           \<lparr>stdout =
              [''Fetching latest Discord tar.gz archive:'' @ nl @ ''- '' @ dq
                 @ discord_tar_url @ dq @ nl,
               ''Error: <urlopen error [Errno -2] Name or service not known>'' @ nl],
            world = []\<rparr>)"
    using d[of "fixed_imagelib 8 8" sample_env sample_program] by simp
  have e': "download_with_progress no_content_net discord_tar_url discord_headers 8192 [] =
     Some (Raise (Exception ''HTTP 204 response received.''), [])"
    using e[of 8192 "[]"] unfolding g s204 by simp
  have f': "patch_main recording_os (fixed_imagelib 8 8) no_content_net sample_env sample_program [] =
     Some (SysExit 1,
           \<lparr>stdout = [''Fetching latest Discord tar.gz archive:'' @ nl @ ''- '' @ dq
                        @ discord_tar_url @ dq @ nl,
                      ''Error: HTTP 204 response received.'' @ nl],
            world = []\<rparr>)"
    using f[of recording_os "fixed_imagelib 8 8" sample_env sample_program "[]"] unfolding g s204 by simp
  have k': "\<exists>out'. download_with_progress sample_net discord_tar_url discord_headers 8192 [] =
      Some (Return \<lparr>buf = ''abc'', pos = 0\<rparr>, out')"
    using k[of "[]"] unfolding body .
  show ?thesis
    by (intro conjI) (rule a' b' c' d' e' f' k')+
qed

section \<open>Simulated runs\<close>

lemma install_stage_simulate_world:
  assumes "simulate settings"
  shows "world (snd (install_stage os lib settings theme icon st)) = world st"
proof -
  define st0 where "st0 = st\<lparr>stdout := print_line (nl @ ''Saving new '' @ str_title (name settings)
                                         @ '' app icons to disk:'') (stdout st)\<rparr>"
  have e: "install_stage os lib settings theme icon st =
      (case install_icons os lib settings theme (icon_sizes settings) icon [] st0 of
         (Raise e, st') \<Rightarrow>
           (SysExit 1, st'\<lparr>stdout := print_line (''Error: '' @ exn_message e) (stdout st')\<rparr>)
       | (Return installed_icons, st') \<Rightarrow> (Return installed_icons, st')
       | (SysExit n, st') \<Rightarrow> (SysExit n, st'))"
    unfolding install_stage_def st0_def by (rule refl)
  obtain c st' where r: "install_icons os lib settings theme (icon_sizes settings) icon [] st0 = (c, st')"
    by (cases "install_icons os lib settings theme (icon_sizes settings) icon [] st0")
  have "world st' = world st0"
    using install_icons_simulate_world[OF assms, of os lib theme "icon_sizes settings" icon "[]" st0] r
    by simp
  then have w: "world st' = world st" by (simp add: st0_def)
  show ?thesis
    using r w by (cases c) (simp_all add: e)
qed

lemma install_stage_returns:
  assumes "fst (install_stage os lib settings theme icon st) = Return installed"
  shows "installed = map (icon_target_file theme (name settings)) (icon_sizes settings)"
    and "stdout (snd (install_stage os lib settings theme icon st)) =
           stdout st @ (nl @ ''Saving new '' @ str_title (name settings) @ '' app icons to disk:'' @ nl)
             # map (target_line theme (name settings)) (icon_sizes settings)"
proof -
  define st0 where "st0 = st\<lparr>stdout := print_line (nl @ ''Saving new '' @ str_title (name settings)
                                         @ '' app icons to disk:'') (stdout st)\<rparr>"
  have e: "install_stage os lib settings theme icon st =
      (case install_icons os lib settings theme (icon_sizes settings) icon [] st0 of
         (Raise e, st') \<Rightarrow>
           (SysExit 1, st'\<lparr>stdout := print_line (''Error: '' @ exn_message e) (stdout st')\<rparr>)
       | (Return installed_icons, st') \<Rightarrow> (Return installed_icons, st')
       | (SysExit n, st') \<Rightarrow> (SysExit n, st'))"
    unfolding install_stage_def st0_def by (rule refl)
  obtain c st' where r: "install_icons os lib settings theme (icon_sizes settings) icon [] st0 = (c, st')"
    by (cases "install_icons os lib settings theme (icon_sizes settings) icon [] st0")
  from assms r have c: "c = Return installed"
    by (cases c) (simp_all add: e)
  from r c have s: "install_stage os lib settings theme icon st = (Return installed, st')"
    by (simp add: e)
  note ir = install_icons_returns[OF r[unfolded c]]
  show "installed = map (icon_target_file theme (name settings)) (icon_sizes settings)"
    using ir by simp
  show "stdout (snd (install_stage os lib settings theme icon st)) =
           stdout st @ (nl @ ''Saving new '' @ str_title (name settings) @ '' app icons to disk:'' @ nl)
             # map (target_line theme (name settings)) (icon_sizes settings)"
    using ir s by (simp add: st0_def print_line_def)
qed

lemma notify_world:
  "world (snd (notify_icon_cache os theme st)) =
     (case os_utime os theme (world st) of
        (Some e, w1) \<Rightarrow> w1
      | (None, w1) \<Rightarrow>
          if os_which os gnome_icon_cache_cmd w1
          then snd (os_run os [gnome_icon_cache_cmd, ''-f'', ''-t'', path_str theme] w1)
          else w1)"
proof -
  obtain e w1 where u: "os_utime os theme (world st) = (e, w1)"
    by (cases "os_utime os theme (world st)")
  obtain rc outp w2 where r:
    "os_run os [gnome_icon_cache_cmd, ''-f'', ''-t'', path_str theme] w1 = ((rc, outp), w2)"
    by (cases "os_run os [gnome_icon_cache_cmd, ''-f'', ''-t'', path_str theme] w1") auto
  show ?thesis
    using u r by (cases e) (simp_all add: notify_icon_cache_def Let_def)
qed

lemma write_removal_world:
  "world (snd (write_removal os pf settings theme installed st)) =
     snd (os_write_text os (removal_text_file pf)
            (removal_msg (str_title (name settings)) theme installed) (world st))"
proof -
  obtain e w1 where u: "os_write_text os (removal_text_file pf)
            (removal_msg (str_title (name settings)) theme installed) (world st) = (e, w1)"
    by (cases "os_write_text os (removal_text_file pf)
            (removal_msg (str_title (name settings)) theme installed) (world st)")
  show ?thesis
    using u by (cases e) (simp_all add: write_removal_def Let_def)
qed

lemma install_and_finish_ok:
  assumes "fst (install_stage os lib settings (icon_theme_dir env) icon st) = Return installed"
    and "fst (notify_icon_cache os (icon_theme_dir env)
               (snd (install_stage os lib settings (icon_theme_dir env) icon st))) = Return ()"
  shows "install_and_finish os lib env pf settings icon st =
           write_removal os pf settings (icon_theme_dir env) installed
             (snd (notify_icon_cache os (icon_theme_dir env)
                     (snd (install_stage os lib settings (icon_theme_dir env) icon st))))"
proof -
  obtain st1 where s: "install_stage os lib settings (icon_theme_dir env) icon st = (Return installed, st1)"
    using assms(1) by (cases "install_stage os lib settings (icon_theme_dir env) icon st") simp
  obtain st2 where n: "notify_icon_cache os (icon_theme_dir env) st1 = (Return (), st2)"
    using assms(2) s by (cases "notify_icon_cache os (icon_theme_dir env) st1") simp
  show ?thesis
    by (simp add: install_and_finish_def Let_def s n)
qed

text \<open>A raster image whose flag is computed is resized without any change of the object.\<close>

lemma resize_raster_known:
  assumes "memo_is_svg icon = Some False" "img icon = Some im"
  shows "resize_image_as_copy lib icon sz None = (raster_resize lib im sz, icon)"
proof -
  have sv: "is_svg icon = (False, icon)" using assms(1) by (rule is_svg_memo)
  have gs: "get_image_size icon = (Inr (width im, height im), icon)"
    by (simp add: get_image_size_def sv assms(2))
  show ?thesis
    by (simp add: resize_image_as_copy_def raster_resize_def Let_def sv gs assms(2))
qed

lemma install_one_raster_ok:
  assumes "simulate settings" "memo_is_svg icon = Some False" "img icon = Some im"
    and "raster_resize lib im sz = Inr r"
  shows "install_one os lib settings theme sz icon st =
      (Return (icon_target_file theme (name settings) sz), icon,
       st\<lparr>stdout := stdout st @ [target_line theme (name settings) sz]\<rparr>)"
  using assms(1,4) resize_raster_known[OF assms(2,3), of lib sz]
  by (simp add: install_one_def Let_def print_line_def target_line_def)

lemma install_one_raster_fail:
  assumes "memo_is_svg icon = Some False" "img icon = Some im"
    and "raster_resize lib im sz = Inl e"
  shows "install_one os lib settings theme sz icon st = (Raise e, icon, st)"
  using assms(3) resize_raster_known[OF assms(1,2), of lib sz]
  by (simp add: install_one_def Let_def)

lemma install_icons_simulate_raster:
  assumes "simulate settings" "memo_is_svg icon = Some False" "img icon = Some im"
  shows "\<forall>sz\<in>set sizes. \<exists>r. raster_resize lib im sz = Inr r \<Longrightarrow>
         fst (install_icons os lib settings theme sizes icon inst st) =
           Return (inst @ map (icon_target_file theme (name settings)) sizes)"
proof (induction sizes arbitrary: inst st)
  case Nil
  show ?case by simp
next
  case (Cons sz rest)
  from Cons.prems obtain r where r: "raster_resize lib im sz = Inr r" by auto
  from Cons.prems have rest: "\<forall>sz\<in>set rest. \<exists>r. raster_resize lib im sz = Inr r" by simp
  note one = install_one_raster_ok[OF assms r, of os theme st]
  show ?case
    using Cons.IH[OF rest] by (simp add: one)
qed

lemma install_icons_simulate_fail:
  assumes "simulate settings" "memo_is_svg icon = Some False" "img icon = Some im"
    and "raster_resize lib im sz = Inl e"
  shows "\<forall>s\<in>set pre. \<exists>r. raster_resize lib im s = Inr r \<Longrightarrow>
         install_icons os lib settings theme (pre @ sz # post) icon inst st =
           (Raise e, st\<lparr>stdout := stdout st @ map (target_line theme (name settings)) pre\<rparr>)"
proof (induction pre arbitrary: inst st)
  case Nil
  show ?case
    by (simp add: install_one_raster_fail[OF assms(2,3,4)])
next
  case (Cons s rest)
  from Cons.prems obtain r where r: "raster_resize lib im s = Inr r" by auto
  from Cons.prems have rest: "\<forall>s\<in>set rest. \<exists>r. raster_resize lib im s = Inr r" by simp
  note one = install_one_raster_ok[OF assms(1,2,3) r, of os theme st]
  show ?case
    using Cons.IH[OF rest] by (simp add: one)
qed

lemma install_stage_unfold:
  "install_stage os lib settings theme icon st =
      (case install_icons os lib settings theme (icon_sizes settings) icon []
              (st\<lparr>stdout := stdout st @ [nl @ ''Saving new '' @ str_title (name settings)
                                           @ '' app icons to disk:'' @ nl]\<rparr>) of
         (Raise e, st') \<Rightarrow>
           (SysExit 1, st'\<lparr>stdout := stdout st' @ [''Error: '' @ exn_message e @ nl]\<rparr>)
       | (Return installed_icons, st') \<Rightarrow> (Return installed_icons, st')
       | (SysExit n, st') \<Rightarrow> (SysExit n, st'))"
  unfolding install_stage_def print_line_def append_assoc by (rule refl)

lemma install_stage_simulate_raster:
  assumes "simulate settings" "memo_is_svg icon = Some False" "img icon = Some im"
    and "\<forall>sz\<in>set (icon_sizes settings). \<exists>r. raster_resize lib im sz = Inr r"
  shows "fst (install_stage os lib settings theme icon st) =
           Return (map (icon_target_file theme (name settings)) (icon_sizes settings))"
proof -
  define st0 where "st0 = st\<lparr>stdout := stdout st @ [nl @ ''Saving new '' @ str_title (name settings)
                                           @ '' app icons to disk:'' @ nl]\<rparr>"
  obtain c st' where r: "install_icons os lib settings theme (icon_sizes settings) icon [] st0 = (c, st')"
    by (cases "install_icons os lib settings theme (icon_sizes settings) icon [] st0")
  from install_icons_simulate_raster[OF assms(1,2,3,4), of os theme "[]" st0] r
  have "c = Return (map (icon_target_file theme (name settings)) (icon_sizes settings))" by simp
  with r show ?thesis
    unfolding install_stage_unfold st0_def[symmetric] by simp
qed

lemma install_stage_simulate_fail:
  assumes "simulate settings" "memo_is_svg icon = Some False" "img icon = Some im"
    and "icon_sizes settings = pre @ sz # post"
    and "\<forall>s\<in>set pre. \<exists>r. raster_resize lib im s = Inr r"
    and "raster_resize lib im sz = Inl e"
  shows "install_stage os lib settings theme icon st =
           (SysExit 1,
            st\<lparr>stdout := stdout st @
                 (nl @ ''Saving new '' @ str_title (name settings) @ '' app icons to disk:'' @ nl)
                   # map (target_line theme (name settings)) pre
                   @ [''Error: '' @ exn_message e @ nl]\<rparr>)"
proof -
  define st0 where "st0 = st\<lparr>stdout := stdout st @ [nl @ ''Saving new '' @ str_title (name settings)
                                           @ '' app icons to disk:'' @ nl]\<rparr>"
  have r: "install_icons os lib settings theme (icon_sizes settings) icon [] st0 =
             (Raise e, st0\<lparr>stdout := stdout st0 @ map (target_line theme (name settings)) pre\<rparr>)"
    unfolding assms(4)
    by (rule install_icons_simulate_fail[OF assms(1,2,3,6,5)])
  show ?thesis
    unfolding install_stage_unfold st0_def[symmetric] r
    by (simp add: st0_def)
qed

lemma install_and_finish_exit:
  assumes "install_stage os lib settings (icon_theme_dir env) icon st = (SysExit n, st')"
  shows "install_and_finish os lib env pf settings icon st = (SysExit n, st')"
  using assms by (simp add: install_and_finish_def Let_def)

text \<open>
  Claim C3, amended. In a simulated run the install stage performs no operation on the
  file system: the world after it is the world before it, whatever its outcome. When
  it returns it has printed the target path of every size, in order. For a raster image
  it returns when the resize of every size succeeds; when the resize of some size
  raises, the stage has printed the target paths of the sizes before it, prints the
  error and the script exits with status 1, the file system untouched and no removal
  instructions written. The cache notifier is not disabled: it updates the timestamp of
  the theme root and, when the command \<open>gtk-update-icon-cache\<close> is found, runs it on the
  theme root. When the notifier returns, the script ends with the writing of the
  removal instructions to the file \<open>how_to_remove.txt\<close> beside the program.
\<close>

theorem simulate_run:
  "simulate settings \<longrightarrow>
     world (snd (install_stage os lib settings (icon_theme_dir env) icon st)) = world st \<and>
     world (snd (notify_icon_cache os (icon_theme_dir env)
                   (snd (install_stage os lib settings (icon_theme_dir env) icon st)))) =
       (case os_utime os (icon_theme_dir env) (world st) of
          (Some e, w1) \<Rightarrow> w1
        | (None, w1) \<Rightarrow>
            if os_which os gnome_icon_cache_cmd w1
            then snd (os_run os [gnome_icon_cache_cmd, ''-f'', ''-t'', path_str (icon_theme_dir env)] w1)
            else w1) \<and>
     (fst (install_stage os lib settings (icon_theme_dir env) icon st) = Return installed \<longrightarrow>
        installed = map (icon_target_file (icon_theme_dir env) (name settings)) (icon_sizes settings) \<and>
        stdout (snd (install_stage os lib settings (icon_theme_dir env) icon st)) =
          stdout st @ (nl @ ''Saving new '' @ str_title (name settings) @ '' app icons to disk:'' @ nl)
            # map (target_line (icon_theme_dir env) (name settings)) (icon_sizes settings) \<and>
        (fst (notify_icon_cache os (icon_theme_dir env)
                (snd (install_stage os lib settings (icon_theme_dir env) icon st))) = Return () \<longrightarrow>
           install_and_finish os lib env pf settings icon st =
             write_removal os pf settings (icon_theme_dir env) installed
               (snd (notify_icon_cache os (icon_theme_dir env)
                       (snd (install_stage os lib settings (icon_theme_dir env) icon st)))) \<and>
           world (snd (install_and_finish os lib env pf settings icon st)) =
             snd (os_write_text os (removal_text_file pf)
                    (removal_msg (str_title (name settings)) (icon_theme_dir env) installed)
                    (world (snd (notify_icon_cache os (icon_theme_dir env)
                                   (snd (install_stage os lib settings (icon_theme_dir env) icon st)))))))) \<and>
     (memo_is_svg icon = Some False \<and> img icon = Some im \<and>
      (\<forall>sz\<in>set (icon_sizes settings). \<exists>r. raster_resize lib im sz = Inr r) \<longrightarrow>
        fst (install_stage os lib settings (icon_theme_dir env) icon st) =
          Return (map (icon_target_file (icon_theme_dir env) (name settings)) (icon_sizes settings))) \<and>
     (memo_is_svg icon = Some False \<and> img icon = Some im \<and>
      icon_sizes settings = pre @ sz # post \<and>
      (\<forall>s\<in>set pre. \<exists>r. raster_resize lib im s = Inr r) \<and>
      raster_resize lib im sz = Inl e \<longrightarrow>
        install_stage os lib settings (icon_theme_dir env) icon st =
          (SysExit 1,
           st\<lparr>stdout := stdout st @
                (nl @ ''Saving new '' @ str_title (name settings) @ '' app icons to disk:'' @ nl)
                  # map (target_line (icon_theme_dir env) (name settings)) pre
                  @ [''Error: '' @ exn_message e @ nl]\<rparr>) \<and>
        install_and_finish os lib env pf settings icon st =
          (SysExit 1,
           st\<lparr>stdout := stdout st @
                (nl @ ''Saving new '' @ str_title (name settings) @ '' app icons to disk:'' @ nl)
                  # map (target_line (icon_theme_dir env) (name settings)) pre
                  @ [''Error: '' @ exn_message e @ nl]\<rparr>))"
proof (intro conjI impI)
  assume sim: "simulate settings"
  show w: "world (snd (install_stage os lib settings (icon_theme_dir env) icon st)) = world st"
    using sim by (rule install_stage_simulate_world)
  show "world (snd (notify_icon_cache os (icon_theme_dir env)
                   (snd (install_stage os lib settings (icon_theme_dir env) icon st)))) =
       (case os_utime os (icon_theme_dir env) (world st) of
          (Some e, w1) \<Rightarrow> w1
        | (None, w1) \<Rightarrow>
            if os_which os gnome_icon_cache_cmd w1
            then snd (os_run os [gnome_icon_cache_cmd, ''-f'', ''-t'', path_str (icon_theme_dir env)] w1)
            else w1)"
    unfolding notify_world w by (rule refl)
next
  assume "simulate settings"
  assume r: "fst (install_stage os lib settings (icon_theme_dir env) icon st) = Return installed"
  show "installed = map (icon_target_file (icon_theme_dir env) (name settings)) (icon_sizes settings)"
    using r by (rule install_stage_returns(1))
  show "stdout (snd (install_stage os lib settings (icon_theme_dir env) icon st)) =
          stdout st @ (nl @ ''Saving new '' @ str_title (name settings) @ '' app icons to disk:'' @ nl)
            # map (target_line (icon_theme_dir env) (name settings)) (icon_sizes settings)"
    using r by (rule install_stage_returns(2))
  assume n: "fst (notify_icon_cache os (icon_theme_dir env)
                (snd (install_stage os lib settings (icon_theme_dir env) icon st))) = Return ()"
  show f: "install_and_finish os lib env pf settings icon st =
             write_removal os pf settings (icon_theme_dir env) installed
               (snd (notify_icon_cache os (icon_theme_dir env)
                       (snd (install_stage os lib settings (icon_theme_dir env) icon st))))"
    using r n by (rule install_and_finish_ok)
  show "world (snd (install_and_finish os lib env pf settings icon st)) =
             snd (os_write_text os (removal_text_file pf)
                    (removal_msg (str_title (name settings)) (icon_theme_dir env) installed)
                    (world (snd (notify_icon_cache os (icon_theme_dir env)
                                   (snd (install_stage os lib settings (icon_theme_dir env) icon st))))))"
    unfolding f by (rule write_removal_world)
next
  assume sim: "simulate settings"
  assume a: "memo_is_svg icon = Some False \<and> img icon = Some im \<and>
      (\<forall>sz\<in>set (icon_sizes settings). \<exists>r. raster_resize lib im sz = Inr r)"
  show "fst (install_stage os lib settings (icon_theme_dir env) icon st) =
          Return (map (icon_target_file (icon_theme_dir env) (name settings)) (icon_sizes settings))"
    using sim a[THEN conjunct1] a[THEN conjunct2, THEN conjunct1] a[THEN conjunct2, THEN conjunct2]
    by (rule install_stage_simulate_raster)
next
  assume sim: "simulate settings"
  assume a: "memo_is_svg icon = Some False \<and> img icon = Some im \<and>
      icon_sizes settings = pre @ sz # post \<and>
      (\<forall>s\<in>set pre. \<exists>r. raster_resize lib im s = Inr r) \<and>
      raster_resize lib im sz = Inl e"
  show s: "install_stage os lib settings (icon_theme_dir env) icon st =
          (SysExit 1,
           st\<lparr>stdout := stdout st @
                (nl @ ''Saving new '' @ str_title (name settings) @ '' app icons to disk:'' @ nl)
                  # map (target_line (icon_theme_dir env) (name settings)) pre
                  @ [''Error: '' @ exn_message e @ nl]\<rparr>)"
    using sim a[THEN conjunct1] a[THEN conjunct2, THEN conjunct1]
      a[THEN conjunct2, THEN conjunct2, THEN conjunct1]
      a[THEN conjunct2, THEN conjunct2, THEN conjunct2, THEN conjunct1]
      a[THEN conjunct2, THEN conjunct2, THEN conjunct2, THEN conjunct2]
    by (rule install_stage_simulate_fail)
  show "install_and_finish os lib env pf settings icon st =
          (SysExit 1,
           st\<lparr>stdout := stdout st @
                (nl @ ''Saving new '' @ str_title (name settings) @ '' app icons to disk:'' @ nl)
                  # map (target_line (icon_theme_dir env) (name settings)) pre
                  @ [''Error: '' @ exn_message e @ nl]\<rparr>)"
    using s by (rule install_and_finish_exit)
qed

text \<open>
  Claim C3 as stated fails: in a simulated run on a system where every operation
  succeeds and is recorded, the script updates the timestamp of the theme root and runs
  the cache command on it before it writes the removal instructions.
\<close>

theorem simulate_touches_theme_root:
  "convert_args_to_settings recording_os True [] simulate_args [] [] = (Return simulate_settings, []) \<and>
   simulate simulate_settings \<and>
   final_world (main recording_os (fixed_imagelib 32 32) sample_net True [] sample_env sample_program
                  simulate_args [])
     = Some [Utime (Path ''/home/u/.local/share/icons/hicolor''),
             Run [''gtk-update-icon-cache'', ''-f'', ''-t'', ''/home/u/.local/share/icons/hicolor''],
             WriteText (Path ''/opt/iconix/how_to_remove.txt'')
               (removal_msg ''Vesktop'' (Path ''/home/u/.local/share/icons/hicolor'')
                  [Path ''/home/u/.local/share/icons/hicolor/32x32/apps/vesktop.png''])]"
  by code_simp

theorem simulate_run_witness:
  "simulate simulate_settings \<and>
   world (snd (install_stage recording_os (fixed_imagelib 32 32) simulate_settings
                 (icon_theme_dir sample_env) square_icon \<lparr>stdout = [], world = []\<rparr>))
     = world \<lparr>stdout = [], world = ([]::os_event list)\<rparr> \<and>
   fst (install_stage recording_os (fixed_imagelib 32 32) simulate_settings
          (icon_theme_dir sample_env) square_icon \<lparr>stdout = [], world = []\<rparr>)
     = Return [Path ''/home/u/.local/share/icons/hicolor/32x32/apps/vesktop.png''] \<and>
   fst (notify_icon_cache recording_os (icon_theme_dir sample_env)
          (snd (install_stage recording_os (fixed_imagelib 32 32) simulate_settings
                  (icon_theme_dir sample_env) square_icon \<lparr>stdout = [], world = []\<rparr>)))
     = Return () \<and>
   world (snd (install_and_finish recording_os (fixed_imagelib 32 32) sample_env sample_program
                 simulate_settings square_icon \<lparr>stdout = [], world = []\<rparr>))
     = snd (os_write_text recording_os (removal_text_file sample_program)
              (removal_msg (str_title (name simulate_settings)) (icon_theme_dir sample_env)
                 [Path ''/home/u/.local/share/icons/hicolor/32x32/apps/vesktop.png''])
              (world (snd (notify_icon_cache recording_os (icon_theme_dir sample_env)
                             (snd (install_stage recording_os (fixed_imagelib 32 32) simulate_settings
                                     (icon_theme_dir sample_env) square_icon
                                     \<lparr>stdout = [], world = []\<rparr>)))))) \<and>
   fst (install_stage recording_os (fixed_imagelib 32 32) several_sizes_settings
          (icon_theme_dir sample_env) square_icon \<lparr>stdout = [], world = ([]::os_event list)\<rparr>)
     = Return (map (icon_target_file (icon_theme_dir sample_env) (name several_sizes_settings))
                 (icon_sizes several_sizes_settings)) \<and>
   raster_resize failing_resize_lib \<lparr>width = 32, height = 32, pixels = []\<rparr> \<lparr>size_px = 32, scale = 1\<rparr>
     = Inr \<lparr>width = 32, height = 32, pixels = []\<rparr> \<and>
   raster_resize failing_resize_lib \<lparr>width = 32, height = 32, pixels = []\<rparr> \<lparr>size_px = 64, scale = 1\<rparr>
     = Inl (LibraryError ''MemoryError'') \<and>
   install_and_finish recording_os failing_resize_lib sample_env sample_program several_sizes_settings
       square_icon \<lparr>stdout = [], world = ([]::os_event list)\<rparr>
     = (SysExit 1,
        \<lparr>stdout = [nl @ ''Saving new Vesktop app icons to disk:'' @ nl,
                   ''- '' @ dq @ ''/home/u/.local/share/icons/hicolor/32x32/apps/vesktop.png'' @ dq @ nl,
                   ''Error: MemoryError'' @ nl],
         world = []\<rparr>)"
proof -
  have h0: "simulate simulate_settings"
    by (simp add: simulate_settings_def)
  have h0': "simulate several_sizes_settings"
    by (simp add: several_sizes_settings_def)
  have h1: "fst (install_stage recording_os (fixed_imagelib 32 32) simulate_settings
          (icon_theme_dir sample_env) square_icon \<lparr>stdout = [], world = []\<rparr>)
     = Return [Path ''/home/u/.local/share/icons/hicolor/32x32/apps/vesktop.png'']"
    by code_simp
  have h2: "fst (notify_icon_cache recording_os (icon_theme_dir sample_env)
          (snd (install_stage recording_os (fixed_imagelib 32 32) simulate_settings
                  (icon_theme_dir sample_env) square_icon \<lparr>stdout = [], world = []\<rparr>)))
     = Return ()"
    by code_simp
  have ok: "\<And>sz. \<exists>r. raster_resize (fixed_imagelib 32 32) \<lparr>width = 32, height = 32, pixels = []\<rparr> sz = Inr r"
    by (simp add: raster_resize_def fixed_imagelib_def)
  have h3: "memo_is_svg square_icon = Some False \<and>
            img square_icon = Some \<lparr>width = 32, height = 32, pixels = []\<rparr> \<and>
            (\<forall>sz\<in>set (icon_sizes several_sizes_settings).
               \<exists>r. raster_resize (fixed_imagelib 32 32) \<lparr>width = 32, height = 32, pixels = []\<rparr> sz = Inr r)"
    using ok by (simp add: square_icon_def)
  have r32: "raster_resize failing_resize_lib \<lparr>width = 32, height = 32, pixels = []\<rparr>
               \<lparr>size_px = 32, scale = 1\<rparr> = Inr \<lparr>width = 32, height = 32, pixels = []\<rparr>"
    by (simp add: raster_resize_def image_copy_def)
  have r64: "raster_resize failing_resize_lib \<lparr>width = 32, height = 32, pixels = []\<rparr>
               \<lparr>size_px = 64, scale = 1\<rparr> = Inl (LibraryError ''MemoryError'')"
    by (simp add: raster_resize_def failing_resize_lib_def)
  have h4: "memo_is_svg square_icon = Some False \<and>
            img square_icon = Some \<lparr>width = 32, height = 32, pixels = []\<rparr> \<and>
            icon_sizes several_sizes_settings =
              [\<lparr>size_px = 32, scale = 1\<rparr>] @ \<lparr>size_px = 64, scale = 1\<rparr> # [\<lparr>size_px = 128, scale = 1\<rparr>] \<and>
            (\<forall>s\<in>set [\<lparr>size_px = 32, scale = 1\<rparr>].
               \<exists>r. raster_resize failing_resize_lib \<lparr>width = 32, height = 32, pixels = []\<rparr> s = Inr r) \<and>
            raster_resize failing_resize_lib \<lparr>width = 32, height = 32, pixels = []\<rparr>
               \<lparr>size_px = 64, scale = 1\<rparr> = Inl (LibraryError ''MemoryError'')"
    using r32 r64 by (simp add: square_icon_def several_sizes_settings_def)
  have out: "[] @ (nl @ ''Saving new '' @ str_title (name several_sizes_settings) @ '' app icons to disk:'' @ nl)
                  # map (target_line (icon_theme_dir sample_env) (name several_sizes_settings))
                        [\<lparr>size_px = 32, scale = 1\<rparr>]
                  @ [''Error: '' @ exn_message (LibraryError ''MemoryError'') @ nl]
             = [nl @ ''Saving new Vesktop app icons to disk:'' @ nl,
                ''- '' @ dq @ ''/home/u/.local/share/icons/hicolor/32x32/apps/vesktop.png'' @ dq @ nl,
                ''Error: MemoryError'' @ nl]"
    by code_simp
  note t = simulate_run[rule_format, OF h0]
  note a = t[THEN conjunct1]
  note c = t[THEN conjunct2, THEN conjunct2, THEN conjunct1, rule_format, OF h1]
  note d = c[THEN conjunct2, THEN conjunct2, rule_format, OF h2, THEN conjunct2]
  note t' = simulate_run[rule_format, OF h0']
  note e = t'[THEN conjunct2, THEN conjunct2, THEN conjunct2, THEN conjunct1, rule_format, OF h3]
  note f = t'[THEN conjunct2, THEN conjunct2, THEN conjunct2, THEN conjunct2, rule_format, OF h4,
              THEN conjunct2]
  have f': "install_and_finish recording_os failing_resize_lib sample_env sample_program several_sizes_settings
       square_icon \<lparr>stdout = [], world = ([]::os_event list)\<rparr>
     = (SysExit 1,
        \<lparr>stdout = [nl @ ''Saving new Vesktop app icons to disk:'' @ nl,
                   ''- '' @ dq @ ''/home/u/.local/share/icons/hicolor/32x32/apps/vesktop.png'' @ dq @ nl,
                   ''Error: MemoryError'' @ nl],
         world = []\<rparr>)"
    using f[of recording_os sample_env sample_program "\<lparr>stdout = [], world = ([]::os_event list)\<rparr>"]
    by (simp only: out IconImage.simps proc.simps)
  show ?thesis
    by (intro conjI) (rule h0 a h1 h2 d e r32 r64 f')+
qed

section \<open>The failures of the size parser\<close>

text \<open>The matcher accepts the three shapes, each possibly followed by one newline,
  and nothing else.\<close>

lemma re_search_size_iff:
  "re_search_size s \<noteq> None \<longleftrightarrow> (\<exists>t e. s = t @ e \<and> at_end e \<and> size_token t)"
proof
  assume "re_search_size s \<noteq> None"
  then obtain g1 g2 where m: "re_search_size s = Some (g1, g2)" by auto
  from search_Some_shape[OF m] obtain e where
    d: "digits g1" and e: "at_end e" and
    sh: "case g2 of None \<Rightarrow> s = g1 @ e \<or> s = g1 @ ''x'' @ g1 @ e
         | Some S \<Rightarrow> digits S \<and> s = g1 @ ''x'' @ g1 @ ''@'' @ S @ e"
    by blast
  show "\<exists>t e. s = t @ e \<and> at_end e \<and> size_token t"
  proof (cases g2)
    case None
    with sh have "s = g1 @ e \<or> s = (g1 @ ''x'' @ g1) @ e" by simp
    then show ?thesis
    proof
      assume "s = g1 @ e"
      moreover have "size_token g1" using d by (auto simp: size_token_def)
      ultimately show ?thesis using e by blast
    next
      assume "s = (g1 @ ''x'' @ g1) @ e"
      moreover have "size_token (g1 @ ''x'' @ g1)" using d by (auto simp: size_token_def)
      ultimately show ?thesis using e by blast
    qed
  next
    case (Some S)
    with sh have dS: "digits S" and "s = (g1 @ ''x'' @ g1 @ ''@'' @ S) @ e" by simp_all
    moreover have "size_token (g1 @ ''x'' @ g1 @ ''@'' @ S)"
      using d dS unfolding size_token_def by blast
    ultimately show ?thesis using e by blast
  qed
next
  assume "\<exists>t e. s = t @ e \<and> at_end e \<and> size_token t"
  then obtain t e where s: "s = t @ e" and e: "at_end e" and t: "size_token t" by blast
  from t obtain N where N: "digits N"
    and sh: "t = N \<or> t = N @ ''x'' @ N \<or> (\<exists>S. digits S \<and> t = N @ ''x'' @ N @ ''@'' @ S)"
    unfolding size_token_def by blast
  from sh show "re_search_size s \<noteq> None"
  proof (elim disjE exE conjE)
    assume "t = N"
    with s search_plain[OF N e] show ?thesis by simp
  next
    assume "t = N @ ''x'' @ N"
    with s search_repeat[OF N e] show ?thesis by simp
  next
    fix S assume "digits S" "t = N @ ''x'' @ N @ ''@'' @ S"
    with s search_scaled[OF N _ e, of S] show ?thesis by simp
  qed
qed

lemma size_token_chars: "size_token s \<Longrightarrow> CHR 0x0A \<notin> set s"
proof -
  assume "size_token s"
  then obtain N where N: "digits N"
    and sh: "s = N \<or> s = N @ ''x'' @ N \<or> (\<exists>S. digits S \<and> s = N @ ''x'' @ N @ ''@'' @ S)"
    unfolding size_token_def by blast
  have nd: "\<And>D. digits D \<Longrightarrow> CHR 0x0A \<notin> set D"
    using not_digit_simps(3) by (auto simp: digits_def list_all_iff)
  from sh show ?thesis
    using nd[OF N] by (auto dest: nd)
qed

text \<open>The failures of the parser, case by case.\<close>

lemma parse_size_failure:
  "parse_size s = Inl e \<longleftrightarrow>
     (re_search_size s = None \<and> e = ValueError (msg_invalid_specifier s)) \<or>
     (\<exists>g1 g2. re_search_size s = Some (g1, g2) \<and>
        (int_max_str_digits < length g1 \<and> e = ValueError (msg_int_limit (length g1)) \<or>
         length g1 \<le> int_max_str_digits \<and>
           (\<exists>S. g2 = Some S \<and> int_max_str_digits < length S \<and>
                e = ValueError (msg_int_limit (length S))) \<or>
         length g1 \<le> int_max_str_digits \<and>
           (\<forall>S. g2 = Some S \<longrightarrow> length S \<le> int_max_str_digits) \<and>
           (int_of_digits g1 mod 2 \<noteq> 0 \<and> e = ValueError (msg_size_even (int_of_digits g1)) \<or>
            int_of_digits g1 mod 2 = 0 \<and> int_of_digits g1 \<le> 0 \<and>
              e = ValueError (msg_size_positive (int_of_digits g1)) \<or>
            int_of_digits g1 mod 2 = 0 \<and> 0 < int_of_digits g1 \<and>
              (\<exists>S. g2 = Some S \<and> int_of_digits S \<le> 0 \<and>
                   e = ValueError (msg_scale_positive (int_of_digits S))))))"
proof (cases "re_search_size s")
  case None
  then show ?thesis
    by (auto simp: parse_size_def IconSize_init_def IconSize_extract_def)
next
  case (Some m)
  obtain g1 g2 where m: "m = (g1, g2)" by (cases m)
  show ?thesis
  proof (cases g2)
    case None
    with Some m show ?thesis
      by (auto simp: parse_size_def IconSize_init_def IconSize_extract_def IconSize_validate_def
                     py_int_def)
  next
    case (Some S)
    with \<open>re_search_size s = Some m\<close> m show ?thesis
      by (auto simp: parse_size_def IconSize_init_def IconSize_extract_def IconSize_validate_def
                     py_int_def)
  qed
qed

text \<open>The five messages differ from one another, whatever they quote.\<close>

lemma messages_distinct:
  "msg_invalid_specifier s \<noteq> msg_size_even n"
  "msg_invalid_specifier s \<noteq> msg_size_positive n"
  "msg_invalid_specifier s \<noteq> msg_scale_positive k"
  "msg_size_even n \<noteq> msg_size_positive m"
  "msg_size_even n \<noteq> msg_scale_positive k"
  "msg_size_positive n \<noteq> msg_scale_positive k"
  "msg_int_limit l \<noteq> msg_invalid_specifier s"
  "msg_int_limit l \<noteq> msg_size_even n"
  "msg_int_limit l \<noteq> msg_size_positive n"
  "msg_int_limit l \<noteq> msg_scale_positive k"
  by (simp_all add: msg_invalid_specifier_def msg_size_even_def msg_size_positive_def
                    msg_scale_positive_def msg_int_limit_def)

text \<open>
  Claim C2 at the failing input. The tokens \<open>32\<close> and \<open>32x32@2\<close> followed by a
  newline have none of the three shapes, and the constructor accepts them.
\<close>

theorem trailing_newline_accepted:
  "\<not> size_token (''32'' @ nl) \<and>
   parse_size (''32'' @ nl) = Inr \<lparr>size_px = 32, scale = 1\<rparr> \<and>
   \<not> size_token (''32x32@2'' @ nl) \<and>
   parse_size (''32x32@2'' @ nl) = Inr \<lparr>size_px = 32, scale = 2\<rparr>"
proof (intro conjI)
  show "\<not> size_token (''32'' @ nl)"
    using size_token_chars[of "''32'' @ nl"] by (auto simp: nl_def)
  show "\<not> size_token (''32x32@2'' @ nl)"
    using size_token_chars[of "''32x32@2'' @ nl"] by (auto simp: nl_def)
  show "parse_size (''32'' @ nl) = Inr \<lparr>size_px = 32, scale = 1\<rparr>"
    by code_simp
  show "parse_size (''32x32@2'' @ nl) = Inr \<lparr>size_px = 32, scale = 2\<rparr>"
    by code_simp
qed

end
